theory Spec2Isabelle
  imports Main "HOL-Library.Word" "HOL-Library.Char_ord" "HOL-Library.List_Lexorder"
begin

section \<open>The data model of SSLContextManager\<close>

text \<open>
  The manager of wangle/ssl/SSLContextManager.cpp keeps, for one listening address, the
  TLS server contexts it serves, an index from (domain name, crypto tier) to a context,
  and the default context. The model below follows the source function by function.
  Objects behind a \<open>shared_ptr\<close> are records that carry their address, so that the
  pointer comparison of the source is a comparison of addresses.
\<close>

datatype CertCrypto = BEST_AVAILABLE | SHA1_SIGNATURE

text \<open>
  A C string ends at its first NUL byte: \<open>c_str\<close> is what \<open>strlen\<close>, \<open>strchr\<close> and the
  conversion of a \<open>const char*\<close> to a string see of the bytes of a \<open>std::string\<close>.
\<close>

definition c_str :: "string \<Rightarrow> string" where
  "c_str s = takeWhile (\<lambda>c. c \<noteq> CHR 0x00) s"

text \<open>
  Modelled from the spec: the type \<open>DNString\<close> is declared in SSLContextManager.h, which
  is not among the sources. The spec describes a domain name as case-normalized
  (ASCII-lowercased) with byte equality after normalization; a \<open>DNString\<close> is therefore
  represented by its lower-cased bytes, and building one from bytes lower-cases them.
\<close>

definition dn_tolower :: "char \<Rightarrow> char" where
  "dn_tolower c =
     (let n = (of_char c :: nat) in if 65 \<le> n \<and> n \<le> 90 then char_of (n + 32) else c)"

definition DNString :: "string \<Rightarrow> string" where
  "DNString s = map dn_tolower s"

record SSLContextKey =
  dnString :: string
  certCrypto :: CertCrypto

text \<open>
  What the manager reads of a certificate: the result of \<open>SSLUtil::getCommonName\<close>
  (absent when the certificate has none), of \<open>SSLUtil::getSubjectAltName\<close>, and of
  \<open>X509_get_signature_nid\<close>.
\<close>

record X509 =
  commonName :: "string option"
  subjectAltName :: "string list option"
  signature_nid :: int

definition NID_sha1WithRSAEncryption :: int where
  "NID_sha1WithRSAEncryption = 65"

definition NID_ecdsa_with_SHA1 :: int where
  "NID_ecdsa_with_SHA1 = 416"

record TLSTicketKeySeeds =
  oldSeeds :: "string list"
  currentSeeds :: "string list"
  newSeeds :: "string list"

text \<open>
  Modelled from the spec: \<open>TLSTicketKeyManager\<close> is not among the sources. The spec
  gives a ticket manager the operations \<open>get_seeds() -> (old, current, new)\<close> and
  \<open>set_seeds(old, current, new)\<close>; a ticket manager is represented by the seed triple
  it holds.

  A server context is its address (the identity of the shared object), the certificate
  that \<open>getX509\<close> returns for it (none when it has no certificate), and its ticket
  manager (none when \<open>getTicketManager\<close> returns null).
\<close>

record ServerSSLContext =
  ctx_addr :: nat
  certificate :: "X509 option"
  ticketManager :: "TLSTicketKeySeeds option"

record SslContexts =
  ctxs :: "ServerSSLContext list"
  defaultCtx :: "ServerSSLContext option"
  defaultCtxDomainName :: string
  dnMap :: "SSLContextKey \<rightharpoonup> ServerSSLContext"

text \<open>
  The manager. The type \<open>'h\<close> is the type of no-match hooks: a hook is a value stored in
  a configuration and in the manager, and the function that runs it is a parameter of
  the SNI callback. The members \<open>contexts_\<close>, \<open>noMatchFn_\<close>, \<open>strict_\<close> and
  \<open>clientHelloTLSExtStats_\<close> of the source are the fields \<open>this_contexts\<close>,
  \<open>this_noMatchFn\<close>, \<open>this_strict\<close> and \<open>this_clientHelloTLSExtStats\<close> (which tells
  whether a statistics sink is installed); \<open>next_addr\<close> is the address the next
  \<open>make_shared\<close> returns.
\<close>

record 'h SSLContextManager =
  this_contexts :: SslContexts
  this_noMatchFn :: "'h option"
  this_strict :: bool
  this_clientHelloTLSExtStats :: bool
  next_addr :: nat

definition emptySslContexts :: SslContexts where
  "emptySslContexts =
     \<lparr>ctxs = [], defaultCtx = None, defaultCtxDomainName = [], dnMap = Map.empty\<rparr>"

section \<open>Lookup in the name index\<close>

definition getSSLCtxByExactDomain ::
  "SslContexts \<Rightarrow> SSLContextKey \<Rightarrow> ServerSSLContext option" where
  "getSSLCtxByExactDomain contexts key = dnMap contexts key"

text \<open>\<open>find_first_of\<close> of one character: the position of its first occurrence, or npos.\<close>

definition find_first_of :: "char \<Rightarrow> string \<Rightarrow> nat option" where
  "find_first_of c s =
     (if c \<in> set s then Some (length (takeWhile (\<lambda>x. x \<noteq> c) s)) else None)"

definition getSSLCtxBySuffix ::
  "SslContexts \<Rightarrow> SSLContextKey \<Rightarrow> ServerSSLContext option" where
  "getSSLCtxBySuffix contexts key =
     (case find_first_of CHR ''.'' (dnString key) of
        Some dot \<Rightarrow>
          dnMap contexts \<lparr>dnString = drop dot (dnString key), certCrypto = certCrypto key\<rparr>
      | None \<Rightarrow> None)"

definition getSSLCtx :: "SslContexts \<Rightarrow> SSLContextKey \<Rightarrow> ServerSSLContext option" where
  "getSSLCtx contexts key =
     (case getSSLCtxByExactDomain contexts key of
        Some ctx \<Rightarrow> Some ctx
      | None \<Rightarrow> getSSLCtxBySuffix contexts key)"

section \<open>Insertion into the name index\<close>

datatype insert_error =
    CannotGetCN
  | StarNotDefault
  | InvalidWildcard string
  | OnlyDot
  | StarInName

definition insertIntoDnMap ::
  "SSLContextKey \<Rightarrow> ServerSSLContext \<Rightarrow> bool \<Rightarrow> SslContexts \<Rightarrow> SslContexts" where
  "insertIntoDnMap key sslCtx overwrite contexts =
     (case dnMap contexts key of
        None \<Rightarrow> contexts\<lparr>dnMap := (dnMap contexts)(key \<mapsto> sslCtx)\<rparr>
      | Some v \<Rightarrow>
          if ctx_addr v = ctx_addr sslCtx then contexts
          else if overwrite then contexts\<lparr>dnMap := (dnMap contexts)(key \<mapsto> sslCtx)\<rparr>
          else contexts)"

text \<open>
  The checks of \<open>insertSSLCtxByDomainNameImpl\<close> on the name \<open>dn\<close> of length \<open>len\<close>: a
  leading \<open>*\<close> of a name longer than two bytes must be followed by \<open>.\<close> and is skipped;
  a name that is only \<open>.\<close> is refused; \<open>strchr\<close> then refuses a \<open>*\<close> before the first
  NUL byte of what is left. All throws come before the first change of the index.
\<close>

definition stripWildcard :: "string \<Rightarrow> insert_error + string" where
  "stripWildcard dn =
     (if length dn > 2 \<and> dn ! 0 = CHR ''*'' then
        (if dn ! 1 = CHR ''.'' then Inr (tl dn) else Inl (InvalidWildcard (c_str dn)))
      else Inr dn)"

definition insertSSLCtxByDomainNameImpl ::
  "string \<Rightarrow> ServerSSLContext \<Rightarrow> SslContexts \<Rightarrow> CertCrypto \<Rightarrow> insert_error + SslContexts" where
  "insertSSLCtxByDomainNameImpl dn sslCtx contexts crypto =
     (case stripWildcard dn of
        Inl e \<Rightarrow> Inl e
      | Inr dn' \<Rightarrow>
          if length dn' = 1 \<and> dn' ! 0 = CHR ''.'' then Inl OnlyDot
          else if CHR ''*'' \<in> set (c_str dn') then Inl StarInName
          else
            let dnstr = DNString dn';
                contexts1 =
                  insertIntoDnMap \<lparr>dnString = dnstr, certCrypto = crypto\<rparr> sslCtx True contexts
            in if crypto \<noteq> BEST_AVAILABLE then
                 Inr (insertIntoDnMap \<lparr>dnString = dnstr, certCrypto = BEST_AVAILABLE\<rparr>
                        sslCtx False contexts1)
               else Inr contexts1)"

text \<open>In strict mode the error is thrown again; otherwise it is logged and the name skipped.\<close>

definition insertSSLCtxByDomainName ::
  "bool \<Rightarrow> string \<Rightarrow> ServerSSLContext \<Rightarrow> SslContexts \<Rightarrow> CertCrypto
     \<Rightarrow> insert_error + SslContexts" where
  "insertSSLCtxByDomainName strict dn sslCtx contexts crypto =
     (case insertSSLCtxByDomainNameImpl dn sslCtx contexts crypto of
        Inl e \<Rightarrow> if strict then Inl e else Inr contexts
      | Inr contexts' \<Rightarrow> Inr contexts')"

section \<open>The SNI callback\<close>

text \<open>
  What the callback reads of the connection: the result of \<open>SSL_get_servername\<close> (absent
  when it is a null pointer) and the socket's ClientHello information (absent when the
  socket did not parse the ClientHello). A hash algorithm is folly's
  \<open>HashAlgorithm\<close> (one byte), an extension is folly's \<open>TLSExtension\<close> (two bytes);
  \<open>SHA256\<close> and \<open>SERVER_NAME\<close> have the values of the TLS registry.
\<close>

definition SHA256 :: "8 word" where
  "SHA256 = 4"

definition SERVER_NAME :: "16 word" where
  "SERVER_NAME = 0"

record ClientHelloInfo =
  clientHelloSigAlgs :: "(8 word \<times> 8 word) list"
  clientHelloExtensions :: "16 word list"

record SSL =
  servername :: "string option"
  clientHelloInfo :: "ClientHelloInfo option"

text \<open>The loop over the signature algorithms, which stops at the first SHA-256 entry.\<close>

fun scanSigAlgs :: "(8 word \<times> 8 word) list \<Rightarrow> CertCrypto \<Rightarrow> CertCrypto" where
  "scanSigAlgs [] certCryptoReq = certCryptoReq"
| "scanSigAlgs (sigAlgPair # rest) certCryptoReq =
     (if fst sigAlgPair = SHA256 then BEST_AVAILABLE else scanSigAlgs rest certCryptoReq)"

text \<open>The crypto tier the callback requests (lines 452 to 473 of the source).\<close>

definition certCryptoReqOf :: "ClientHelloInfo option \<Rightarrow> CertCrypto" where
  "certCryptoReqOf clientInfo =
     (case clientInfo of
        None \<Rightarrow> BEST_AVAILABLE
      | Some info \<Rightarrow>
          let certCryptoReq = scanSigAlgs (clientHelloSigAlgs info) SHA1_SIGNATURE
          in if SERVER_NAME \<in> set (clientHelloExtensions info) then BEST_AVAILABLE
             else certCryptoReq)"

datatype ServerNameCallbackResult =
    SERVER_NAME_FOUND
  | SERVER_NAME_NOT_FOUND
  | SERVER_NAME_NOT_FOUND_ALERT_FATAL

datatype stat_event =
    RecordAbsentHostname
  | RecordMatch
  | RecordCertCrypto CertCrypto CertCrypto
  | RecordNotMatch

text \<open>
  What one run of the callback does: the value it returns, the context it switched the
  socket to (if any), the calls it made on the statistics sink and on the no-match hook
  (in order), and the manager afterwards.
\<close>

record 'h sni_outcome =
  result :: ServerNameCallbackResult
  switched :: "ServerSSLContext option"
  stats :: "stat_event list"
  noMatchCalls :: "string list"
  manager :: "'h SSLContextManager"

definition sni_found ::
  "'h SSLContextManager \<Rightarrow> bool \<Rightarrow> ServerSSLContext \<Rightarrow> CertCrypto \<Rightarrow> CertCrypto
     \<Rightarrow> 'h sni_outcome" where
  "sni_found mgr reqHasServerName ctx req used =
     \<lparr>result = SERVER_NAME_FOUND, switched = Some ctx,
      stats = (if this_clientHelloTLSExtStats mgr then
                 (if reqHasServerName then [RecordMatch] else []) @ [RecordCertCrypto req used]
               else []),
      noMatchCalls = [], manager = mgr\<rparr>"

definition sni_not_found :: "'h SSLContextManager \<Rightarrow> bool \<Rightarrow> 'h sni_outcome" where
  "sni_not_found mgr reqHasServerName =
     \<lparr>result = SERVER_NAME_NOT_FOUND, switched = None,
      stats = (if this_clientHelloTLSExtStats mgr \<and> reqHasServerName then [RecordNotMatch] else []),
      noMatchCalls = [], manager = mgr\<rparr>"

text \<open>
  The do-while loop of the callback, from the pass numbered \<open>count\<close> on. \<open>run\<close> runs a
  hook on the name and the manager, and returns the hook's answer and the manager as
  the hook left it. The loop condition is \<open>count++ == 0 && noMatchFn_ && noMatchFn_(sn)\<close>.
\<close>

function sni_loop ::
  "('h \<Rightarrow> string \<Rightarrow> 'h SSLContextManager \<Rightarrow> bool \<times> 'h SSLContextManager)
     \<Rightarrow> string \<Rightarrow> string \<Rightarrow> CertCrypto \<Rightarrow> bool \<Rightarrow> nat \<Rightarrow> 'h SSLContextManager
     \<Rightarrow> 'h sni_outcome" where
  "sni_loop run sn dnstr certCryptoReq reqHasServerName count mgr =
     (case getSSLCtx (this_contexts mgr) \<lparr>dnString = dnstr, certCrypto = certCryptoReq\<rparr> of
        Some ctx \<Rightarrow> sni_found mgr reqHasServerName ctx certCryptoReq certCryptoReq
      | None \<Rightarrow>
          (case (if certCryptoReq \<noteq> BEST_AVAILABLE
                 then getSSLCtx (this_contexts mgr)
                        \<lparr>dnString = dnstr, certCrypto = BEST_AVAILABLE\<rparr>
                 else None) of
             Some ctx \<Rightarrow> sni_found mgr reqHasServerName ctx certCryptoReq BEST_AVAILABLE
           | None \<Rightarrow>
               if count = 0 then
                 (case this_noMatchFn mgr of
                    None \<Rightarrow> sni_not_found mgr reqHasServerName
                  | Some hook \<Rightarrow>
                      if fst (run hook sn mgr) then
                        (let out = sni_loop run sn dnstr certCryptoReq reqHasServerName
                                     (Suc count) (snd (run hook sn mgr))
                         in out\<lparr>noMatchCalls := sn # noMatchCalls out\<rparr>)
                      else
                        (sni_not_found (snd (run hook sn mgr)) reqHasServerName)
                          \<lparr>noMatchCalls := [sn]\<rparr>)
               else sni_not_found mgr reqHasServerName))"
  by pat_completeness auto
termination
  by (relation "measure (\<lambda>(run, sn, dnstr, certCryptoReq, reqHasServerName, count, mgr).
        1 - count)") auto

declare sni_loop.simps [simp del]

definition serverNameCallback ::
  "('h \<Rightarrow> string \<Rightarrow> 'h SSLContextManager \<Rightarrow> bool \<times> 'h SSLContextManager)
     \<Rightarrow> SSL \<Rightarrow> 'h SSLContextManager \<Rightarrow> 'h sni_outcome" where
  "serverNameCallback run ssl mgr =
     (let reqHasServerName = (servername ssl \<noteq> None);
          sn = (case servername ssl of
                  None \<Rightarrow> c_str (defaultCtxDomainName (this_contexts mgr))
                | Some s \<Rightarrow> c_str s);
          absent = (if servername ssl = None \<and> this_clientHelloTLSExtStats mgr
                    then [RecordAbsentHostname] else []);
          certCryptoReq = certCryptoReqOf (clientHelloInfo ssl);
          dnstr = DNString sn;
          out = sni_loop run sn dnstr certCryptoReq reqHasServerName 0 mgr
      in out\<lparr>stats := absent @ stats out\<rparr>)"

text \<open>
  An outcome without the two statistics that depend on whether the request had a server
  name (used to compare a run without SNI with a run on the same name).
\<close>

abbreviation without_name_stats :: "'h sni_outcome \<Rightarrow> 'h sni_outcome" where
  "without_name_stats out \<equiv>
     out\<lparr>stats := filter (\<lambda>ev. ev \<noteq> RecordMatch \<and> ev \<noteq> RecordNotMatch) (stats out)\<rparr>"

section \<open>Building a context and adding it to a context set\<close>

datatype error =
    CertLoadError string
  | CannotGetCNForX509 string
  | CNMismatch string string
  | SANMismatch string string
  | KeyLoadError string
  | InvalidCiphers string
  | ClientCAError string
  | MultipleDefault
  | ErrorAddingCertificate insert_error

record CertificateInfo =
  certPath :: string
  keyPath :: string
  passwordPath :: string

record 'h SSLContextConfig =
  certificates :: "CertificateInfo list"
  isLocalPrivateKey :: bool
  offloadType :: string
  sslCiphers :: string
  tls11Ciphers :: string
  clientCAFile :: string
  sniNoMatchFn :: "'h option"
  isDefault :: bool

text \<open>
  The files and the TLS library, as the build sees them: the certificate a path loads
  (none when \<open>loadCertificate\<close> throws), whether a key path loads, whether a cipher
  list is accepted, and whether a client CA file loads. Settings of the new context that
  cannot throw (options, DH parameters, session cache, callbacks) change nothing the
  manager reads later and are left out; an unknown curve name ends the process
  (\<open>LOG(FATAL)\<close>) and is outside the model. A configuration without certificates
  leaves the context without certificate, and \<open>insert\<close> then finds no common name.
\<close>

record env =
  loadCertificate :: "string \<Rightarrow> X509 option"
  loadPrivateKey :: "string \<Rightarrow> bool"
  setCiphersOrThrow :: "string \<Rightarrow> bool"
  loadClientCAList :: "string \<Rightarrow> bool"

definition getCommonName :: "X509 option \<Rightarrow> string option" where
  "getCommonName x509 = (case x509 of None \<Rightarrow> None | Some c \<Rightarrow> commonName c)"

definition getSubjectAltName :: "X509 option \<Rightarrow> string list option" where
  "getSubjectAltName x509 = (case x509 of None \<Rightarrow> None | Some c \<Rightarrow> subjectAltName c)"

text \<open>
  The loop over the certificates of one configuration. The loop state is the number of
  certificates so far, the common name and the sorted alternative names of the first
  one, the path of the last one, and the certificate the context holds.
\<close>

record cert_loop =
  numCerts :: nat
  loopCommonName :: string
  lastCertPath :: string
  loopSubjectAltName :: "string list option"
  current :: "X509 option"

fun loadCerts ::
  "env \<Rightarrow> 'h SSLContextConfig \<Rightarrow> CertificateInfo list \<Rightarrow> cert_loop \<Rightarrow> error + cert_loop" where
  "loadCerts e ctxConfig [] st = Inr st"
| "loadCerts e ctxConfig (cert # rest) st =
     (case loadCertificate e (certPath cert) of
        None \<Rightarrow> Inl (CertLoadError (certPath cert))
      | Some x509 \<Rightarrow>
          (case commonName x509 of
             None \<Rightarrow> Inl (CannotGetCNForX509 (certPath cert))
           | Some cn \<Rightarrow>
               let altName = map_option sort (subjectAltName x509);
                   n = Suc (numCerts st)
               in if n \<noteq> 1 \<and> loopCommonName st \<noteq> cn then
                    Inl (CNMismatch (certPath cert) (lastCertPath st))
                  else if n \<noteq> 1 \<and> altName \<noteq> loopSubjectAltName st then
                    Inl (SANMismatch (certPath cert) (lastCertPath st))
                  else if (isLocalPrivateKey ctxConfig \<or> offloadType ctxConfig = [])
                          \<and> \<not> loadPrivateKey e (keyPath cert) then
                    Inl (KeyLoadError (keyPath cert))
                  else
                    loadCerts e ctxConfig rest
                      \<lparr>numCerts = n,
                       loopCommonName = (if n = 1 then cn else loopCommonName st),
                       lastCertPath = certPath cert,
                       loopSubjectAltName = (if n = 1 then altName else loopSubjectAltName st),
                       current = Some x509\<rparr>))"

text \<open>
  Modelled from the spec: \<open>ServerSSLContext::setupTicketManager\<close> is not among the
  sources. The spec's step is "hand the ticket seeds to the ticket-manager subsystem",
  with the contract \<open>attach(context, seeds, stats)\<close>: the context gets a ticket manager
  that holds exactly the seeds handed over, and none when no seeds are handed over.
\<close>

definition setupTicketManager :: "TLSTicketKeySeeds option \<Rightarrow> TLSTicketKeySeeds option" where
  "setupTicketManager ticketSeeds = ticketSeeds"

text \<open>
  Modelled from the spec: \<open>getTLSTicketKeySeeds\<close> of the ticket manager is not among the
  sources; by the spec's contract \<open>get_seeds() -> (old, current, new)\<close> it returns the
  seeds the ticket manager holds.
\<close>

definition getTLSTicketKeySeeds :: "TLSTicketKeySeeds \<Rightarrow> TLSTicketKeySeeds" where
  "getTLSTicketKeySeeds tm = tm"

text \<open>
  \<open>ctxSetupByOpensslFeature\<close>, with SNI support compiled in: what is left of it for the
  manager is the hook, and the default context.
\<close>

definition ctxSetupByOpensslFeature ::
  "ServerSSLContext \<Rightarrow> 'h SSLContextConfig \<Rightarrow> SslContexts \<Rightarrow> 'h SSLContextManager
     \<Rightarrow> (error + unit) \<times> SslContexts \<times> 'h SSLContextManager" where
  "ctxSetupByOpensslFeature sslCtx ctxConfig contexts mgr =
     (let mgr' = mgr\<lparr>this_noMatchFn := sniNoMatchFn ctxConfig\<rparr>
      in if isDefault ctxConfig then
           (case defaultCtx contexts of
              Some d \<Rightarrow> (Inl MultipleDefault, contexts, mgr')
            | None \<Rightarrow> (Inr (), contexts\<lparr>defaultCtx := Some sslCtx\<rparr>, mgr'))
         else (Inr (), contexts, mgr'))"

text \<open>The loop of \<open>insert\<close> over the subject alternative names.\<close>

fun insertAltNames ::
  "bool \<Rightarrow> string list \<Rightarrow> ServerSSLContext \<Rightarrow> SslContexts \<Rightarrow> CertCrypto
     \<Rightarrow> (insert_error + unit) \<times> SslContexts" where
  "insertAltNames strict [] sslCtx contexts crypto = (Inr (), contexts)"
| "insertAltNames strict (name # rest) sslCtx contexts crypto =
     (case insertSSLCtxByDomainName strict name sslCtx contexts crypto of
        Inl e \<Rightarrow> (Inl e, contexts)
      | Inr contexts' \<Rightarrow> insertAltNames strict rest sslCtx contexts' crypto)"

text \<open>
  \<open>SSLContextManager::insert\<close>. It returns the context set as the call leaves it, also
  when it throws: the names inserted before the throw stay in the index.
\<close>

definition insertSSLCtx ::
  "bool \<Rightarrow> ServerSSLContext \<Rightarrow> bool \<Rightarrow> SslContexts \<Rightarrow> (insert_error + unit) \<times> SslContexts" where
  "insertSSLCtx strict sslCtx defaultFallback contexts =
     (case getCommonName (certificate sslCtx) of
        None \<Rightarrow> (Inl CannotGetCN, contexts)
      | Some cn \<Rightarrow>
          if length cn = 1 \<and> cn ! 0 = CHR ''*'' then
            (if \<not> defaultFallback then (Inl StarNotDefault, contexts)
             else (Inr (), contexts\<lparr>ctxs := ctxs contexts @ [sslCtx]\<rparr>))
          else
            let sigAlg = (case certificate sslCtx of None \<Rightarrow> 0 | Some c \<Rightarrow> signature_nid c);
                crypto = (if sigAlg = NID_sha1WithRSAEncryption \<or> sigAlg = NID_ecdsa_with_SHA1
                          then SHA1_SIGNATURE else BEST_AVAILABLE)
            in (case insertSSLCtxByDomainName strict cn sslCtx contexts crypto of
                  Inl e \<Rightarrow> (Inl e, contexts)
                | Inr contexts1 \<Rightarrow>
                    (case insertAltNames strict
                            (case getSubjectAltName (certificate sslCtx) of
                               None \<Rightarrow> [] | Some altNames \<Rightarrow> altNames)
                            sslCtx contexts1 crypto of
                       (Inl e, contexts2) \<Rightarrow> (Inl e, contexts2)
                     | (Inr u, contexts2) \<Rightarrow>
                         let contexts3 =
                               (if defaultFallback
                                then contexts2\<lparr>defaultCtxDomainName := cn\<rparr> else contexts2)
                         in (Inr (), contexts3\<lparr>ctxs := ctxs contexts3 @ [sslCtx]\<rparr>))))"

text \<open>
  The body of \<open>addSSLContextConfig\<close> once the pointer \<open>contexts\<close> is resolved: the
  build on the context set \<open>contexts\<close>, which is the live set or a set under
  construction. It returns that set as the call leaves it, also when it throws. The new
  context is allocated first; everything up to \<open>ctxSetupByOpensslFeature\<close> works on the
  new context alone.
\<close>

definition buildSSLContext ::
  "env \<Rightarrow> 'h SSLContextConfig \<Rightarrow> TLSTicketKeySeeds option \<Rightarrow> SslContexts
     \<Rightarrow> 'h SSLContextManager \<Rightarrow> (error + unit) \<times> SslContexts \<times> 'h SSLContextManager" where
  "buildSSLContext e ctxConfig ticketSeeds contexts mgr =
     (let addr = next_addr mgr;
          mgr0 = mgr\<lparr>next_addr := Suc addr\<rparr>
      in case loadCerts e ctxConfig (certificates ctxConfig)
                \<lparr>numCerts = 0, loopCommonName = [], lastCertPath = [],
                 loopSubjectAltName = None, current = None\<rparr> of
           Inl err \<Rightarrow> (Inl err, contexts, mgr0)
         | Inr st \<Rightarrow>
             if tls11Ciphers ctxConfig \<noteq> [] \<and> \<not> setCiphersOrThrow e (tls11Ciphers ctxConfig)
             then (Inl (InvalidCiphers (tls11Ciphers ctxConfig)), contexts, mgr0)
             else if \<not> setCiphersOrThrow e (sslCiphers ctxConfig)
             then (Inl (InvalidCiphers (sslCiphers ctxConfig)), contexts, mgr0)
             else if clientCAFile ctxConfig \<noteq> [] \<and> \<not> loadClientCAList e (clientCAFile ctxConfig)
             then (Inl (ClientCAError (clientCAFile ctxConfig)), contexts, mgr0)
             else
               let sslCtx = \<lparr>ctx_addr = addr, certificate = current st,
                             ticketManager = setupTicketManager ticketSeeds\<rparr>
               in (case ctxSetupByOpensslFeature sslCtx ctxConfig contexts mgr0 of
                     (Inl err, contexts1, mgr1) \<Rightarrow> (Inl err, contexts1, mgr1)
                   | (Inr u, contexts1, mgr1) \<Rightarrow>
                       (case insertSSLCtx (this_strict mgr1) sslCtx (isDefault ctxConfig)
                               contexts1 of
                          (Inl err, contexts2) \<Rightarrow>
                            (Inl (ErrorAddingCertificate err), contexts2, mgr1)
                        | (Inr u, contexts2) \<Rightarrow> (Inr (), contexts2, mgr1))))"

text \<open>
  The pointer argument \<open>contexts\<close> of \<open>addSSLContextConfig\<close>: when it is null the call
  works on the live set of the manager itself.
\<close>

definition addSSLContextConfig ::
  "env \<Rightarrow> 'h SSLContextConfig \<Rightarrow> TLSTicketKeySeeds option \<Rightarrow> SslContexts option
     \<Rightarrow> 'h SSLContextManager \<Rightarrow> (error + unit) \<times> SslContexts \<times> 'h SSLContextManager" where
  "addSSLContextConfig e ctxConfig ticketSeeds contexts mgr =
     (case contexts of
        None \<Rightarrow>
          (case buildSSLContext e ctxConfig ticketSeeds (this_contexts mgr) mgr of
             (r, contexts', mgr') \<Rightarrow> (r, contexts', mgr'\<lparr>this_contexts := contexts'\<rparr>))
      | Some local \<Rightarrow> buildSSLContext e ctxConfig ticketSeeds local mgr)"

section \<open>Reload\<close>

definition emptySeeds :: TLSTicketKeySeeds where
  "emptySeeds = \<lparr>oldSeeds = [], currentSeeds = [], newSeeds = []\<rparr>"

text \<open>The loop that takes the seeds of the first context with a ticket manager.\<close>

fun findTicketSeeds :: "ServerSSLContext list \<Rightarrow> TLSTicketKeySeeds \<Rightarrow> TLSTicketKeySeeds" where
  "findTicketSeeds [] oldTicketSeeds = oldTicketSeeds"
| "findTicketSeeds (ctx # rest) oldTicketSeeds =
     (case ticketManager ctx of
        Some tm \<Rightarrow> getTLSTicketKeySeeds tm
      | None \<Rightarrow> findTicketSeeds rest oldTicketSeeds)"

text \<open>The loop over the configurations, which a throw leaves.\<close>

fun addAll ::
  "env \<Rightarrow> 'h SSLContextConfig list \<Rightarrow> TLSTicketKeySeeds option \<Rightarrow> SslContexts
     \<Rightarrow> 'h SSLContextManager \<Rightarrow> (error + unit) \<times> SslContexts \<times> 'h SSLContextManager" where
  "addAll e [] ticketSeeds contexts mgr = (Inr (), contexts, mgr)"
| "addAll e (ctxConfig # rest) ticketSeeds contexts mgr =
     (case addSSLContextConfig e ctxConfig ticketSeeds (Some contexts) mgr of
        (Inl err, contexts', mgr') \<Rightarrow> (Inl err, contexts', mgr')
      | (Inr u, contexts', mgr') \<Rightarrow> addAll e rest ticketSeeds contexts' mgr')"

text \<open>
  \<open>resetSSLContextConfigs\<close>: the new set is built in a local variable and swapped in
  after the loop; a throw of the loop leaves the function before the swap.
\<close>

definition resetSSLContextConfigs ::
  "env \<Rightarrow> 'h SSLContextConfig list \<Rightarrow> TLSTicketKeySeeds option \<Rightarrow> 'h SSLContextManager
     \<Rightarrow> (error + unit) \<times> 'h SSLContextManager" where
  "resetSSLContextConfigs e ctxConfigs ticketSeeds mgr =
     (let oldTicketSeeds =
            (case ticketSeeds of
               None \<Rightarrow> findTicketSeeds (ctxs (this_contexts mgr)) emptySeeds
             | Some s \<Rightarrow> emptySeeds)
      in case addAll e ctxConfigs
                (Some (case ticketSeeds of Some s \<Rightarrow> s | None \<Rightarrow> oldTicketSeeds))
                emptySslContexts mgr of
           (Inl err, contexts, mgr') \<Rightarrow> (Inl err, mgr')
         | (Inr u, contexts, mgr') \<Rightarrow> (Inr (), mgr'\<lparr>this_contexts := contexts\<rparr>))"

text \<open>
  \<open>SSLContextManager::clear\<close>: \<open>contexts_.clear()\<close> empties the context list and the
  name index and resets the default context and the default domain.
\<close>

definition clear :: "'h SSLContextManager \<Rightarrow> 'h SSLContextManager" where
  "clear mgr = mgr\<lparr>this_contexts := emptySslContexts\<rparr>"

text \<open>
  The relation between the default context and the default domain of a context set that
  the claims speak of: without default context the default domain is empty; with one,
  the default domain is the common name of its certificate, or empty when that common
  name is \<open>*\<close>.
\<close>

abbreviation defaultDomainRecorded :: "SslContexts \<Rightarrow> bool" where
  "defaultDomainRecorded cs \<equiv>
     (case defaultCtx cs of
        None \<Rightarrow> defaultCtxDomainName cs = []
      | Some d \<Rightarrow> \<exists>cn. getCommonName (certificate d) = Some cn
                  \<and> defaultCtxDomainName cs = (if cn = ''*'' then [] else cn))"

section \<open>Concrete inputs\<close>

text \<open>
  A small world for the worked examples: seven certificate files, a configuration per
  file, an empty manager, and a no-match hook that adds the certificate of
  \<open>b.pem\<close> to the live set and then accepts or declines.
\<close>

definition x509_fx :: "string \<Rightarrow> string list option \<Rightarrow> int \<Rightarrow> X509" where
  "x509_fx cn san nid = \<lparr>commonName = Some cn, subjectAltName = san, signature_nid = nid\<rparr>"

definition env_fx :: env where
  "env_fx =
     \<lparr>loadCertificate = (\<lambda>p.
          if p = ''a.pem'' then Some (x509_fx ''a.example'' None 668)
          else if p = ''b.pem'' then Some (x509_fx ''b.example'' None 668)
          else if p = ''bad.pem'' then Some (x509_fx ''c.example'' (Some [''*bad'']) 668)
          else if p = ''star.pem'' then Some (x509_fx ''*'' None 668)
          else if p = ''weak.pem'' then Some (x509_fx ''*.d.example'' None 65)
          else if p = ''wild.pem'' then Some (x509_fx ''*.e.example'' None 668)
          else if p = ''exact.pem'' then Some (x509_fx ''x.d.example'' None 668)
          else None),
      loadPrivateKey = (\<lambda>p. p \<noteq> ''missing.key''),
      setCiphersOrThrow = (\<lambda>c. c \<noteq> ''bogus''),
      loadClientCAList = (\<lambda>p. True)\<rparr>"

definition cfg_fx :: "string \<Rightarrow> bool \<Rightarrow> 'h option \<Rightarrow> 'h SSLContextConfig" where
  "cfg_fx path dflt hook =
     \<lparr>certificates = [\<lparr>certPath = path, keyPath = ''key.pem'', passwordPath = []\<rparr>],
      isLocalPrivateKey = True, offloadType = [], sslCiphers = ''ECDHE'', tls11Ciphers = [],
      clientCAFile = [], sniNoMatchFn = hook, isDefault = dflt\<rparr>"

definition mgr_fx :: "'h SSLContextManager" where
  "mgr_fx = \<lparr>this_contexts = emptySslContexts, this_noMatchFn = None, this_strict = True,
             this_clientHelloTLSExtStats = True, next_addr = 0\<rparr>"

datatype hook_fx = Decline | Accept

definition run_fx ::
  "hook_fx \<Rightarrow> string \<Rightarrow> hook_fx SSLContextManager \<Rightarrow> bool \<times> hook_fx SSLContextManager" where
  "run_fx h sn mgr =
     (case addSSLContextConfig env_fx (cfg_fx ''b.pem'' False (Some h)) None None mgr of
        (r, cs, mgr') \<Rightarrow> (h = Accept, mgr'))"

definition seeds_fx :: TLSTicketKeySeeds where
  "seeds_fx = \<lparr>oldSeeds = [''4f''], currentSeeds = [''43''], newSeeds = [''4e'']\<rparr>"

text \<open>
  The live set after a reload with three configurations: \<open>a.example\<close> (default), the
  SHA-1 wildcard \<open>*.d.example\<close> and the wildcard \<open>*.e.example\<close>.
\<close>

definition live_fx :: "hook_fx option \<Rightarrow> hook_fx SSLContextManager" where
  "live_fx hook =
     snd (resetSSLContextConfigs env_fx
            [cfg_fx ''a.pem'' True hook, cfg_fx ''weak.pem'' False hook,
             cfg_fx ''wild.pem'' False hook]
            (Some seeds_fx) mgr_fx)"

text \<open>
  The live set after a reload with \<open>a.example\<close> (default), the SHA-1 wildcard
  \<open>*.d.example\<close> and the exact name \<open>x.d.example\<close>.
\<close>

definition live_tiers_fx :: "hook_fx SSLContextManager" where
  "live_tiers_fx =
     snd (resetSSLContextConfigs env_fx
            [cfg_fx ''a.pem'' True None, cfg_fx ''weak.pem'' False None,
             cfg_fx ''exact.pem'' False None]
            (Some seeds_fx) mgr_fx)"

definition ctx_fx :: "nat \<Rightarrow> string \<Rightarrow> int \<Rightarrow> ServerSSLContext" where
  "ctx_fx addr cn nid =
     \<lparr>ctx_addr = addr, certificate = Some (x509_fx cn None nid), ticketManager = Some seeds_fx\<rparr>"

definition hello_fx :: "16 word list \<Rightarrow> ClientHelloInfo" where
  "hello_fx exts = \<lparr>clientHelloSigAlgs = [(2, 1), (2, 3)], clientHelloExtensions = exts\<rparr>"

definition ssl_fx :: "string option \<Rightarrow> 16 word list \<Rightarrow> SSL" where
  "ssl_fx sn exts = \<lparr>servername = sn, clientHelloInfo = Some (hello_fx exts)\<rparr>"

section \<open>Domain names\<close>

lemma dn_tolower_dot_iff: "dn_tolower c = CHR ''.'' \<longleftrightarrow> c = CHR ''.''"
proof -
  have *: "(of_char (dn_tolower c) :: nat) = 46 \<longleftrightarrow> (of_char c :: nat) = 46"
    by (auto simp: dn_tolower_def Let_def)
  have "dn_tolower c = CHR ''.'' \<longleftrightarrow> (of_char (dn_tolower c) :: nat) = of_char (CHR ''.'')"
    by (simp only: of_char_eq_iff)
  also have "\<dots> \<longleftrightarrow> (of_char c :: nat) = of_char (CHR ''.'')"
    using * by simp
  also have "\<dots> \<longleftrightarrow> c = CHR ''.''"
    by (simp only: of_char_eq_iff)
  finally show ?thesis .
qed

lemma dn_tolower_dot: "dn_tolower (CHR ''.'') = CHR ''.''"
  by (simp add: dn_tolower_dot_iff)

lemma set_DNString_dot: "CHR ''.'' \<in> set (DNString s) \<longleftrightarrow> CHR ''.'' \<in> set s"
proof
  assume "CHR ''.'' \<in> set (DNString s)"
  then obtain c where "c \<in> set s" "dn_tolower c = CHR ''.''"
    by (auto simp: DNString_def)
  then show "CHR ''.'' \<in> set s" by (simp add: dn_tolower_dot_iff)
next
  assume "CHR ''.'' \<in> set s"
  then have "dn_tolower (CHR ''.'') \<in> set (DNString s)"
    unfolding DNString_def by simp
  then show "CHR ''.'' \<in> set (DNString s)" by (simp add: dn_tolower_dot)
qed

lemma DNString_append: "DNString (a @ b) = DNString a @ DNString b"
  by (simp add: DNString_def)

lemma DNString_dot: "DNString ''.'' = ''.''"
  by (simp add: DNString_def dn_tolower_dot_iff)

lemma DNString_Cons_dot: "DNString (CHR ''.'' # s) = CHR ''.'' # DNString s"
  by (simp add: DNString_def dn_tolower_dot_iff)

lemma length_DNString: "length (DNString s) = length s"
  by (simp add: DNString_def)

lemma find_first_of_label:
  assumes "c \<notin> set x"
  shows "find_first_of c (x @ c # r) = Some (length x)"
proof -
  have "\<forall>y\<in>set x. y \<noteq> c" using assms by auto
  then have "takeWhile (\<lambda>y. y \<noteq> c) (x @ c # r) = x"
    by simp
  then show ?thesis by (simp add: find_first_of_def)
qed

lemma suffix_key:
  assumes "CHR ''.'' \<notin> set x"
  shows "getSSLCtxBySuffix contexts \<lparr>dnString = DNString (x @ CHR ''.'' # d), certCrypto = t\<rparr>
         = dnMap contexts \<lparr>dnString = DNString (CHR ''.'' # d), certCrypto = t\<rparr>"
proof -
  have "CHR ''.'' \<notin> set (DNString x)" using assms by (simp add: set_DNString_dot)
  then have "find_first_of CHR ''.'' (DNString x @ CHR ''.'' # DNString d) = Some (length (DNString x))"
    by (rule find_first_of_label)
  then show ?thesis
    by (simp add: getSSLCtxBySuffix_def DNString_append DNString_Cons_dot)
qed

lemma c_str_idem: "c_str (c_str s) = c_str s"
  by (simp add: c_str_def)

lemma c_str_no_nul: "CHR 0x00 \<notin> set s \<Longrightarrow> c_str s = s"
  by (auto simp: c_str_def)

lemma scanSigAlgs_weak_iff:
  "scanSigAlgs algs SHA1_SIGNATURE = SHA1_SIGNATURE \<longleftrightarrow> SHA256 \<notin> fst ` set algs"
  by (induction algs) auto

section \<open>Facts about insertion\<close>

lemma insertIntoDnMap_idem:
  "insertIntoDnMap key c ow (insertIntoDnMap key c ow cs) = insertIntoDnMap key c ow cs"
  by (simp add: insertIntoDnMap_def split: option.splits)

lemma insertIntoDnMap_other:
  "k \<noteq> key \<Longrightarrow> dnMap (insertIntoDnMap key c ow cs) k = dnMap cs k"
  by (simp add: insertIntoDnMap_def split: option.splits)

lemma insertIntoDnMap_overwrite:
  "dnMap (insertIntoDnMap key c True cs) key =
     (case dnMap cs key of None \<Rightarrow> Some c
      | Some v \<Rightarrow> if ctx_addr v = ctx_addr c then Some v else Some c)"
  by (simp add: insertIntoDnMap_def split: option.splits)

lemma insertIntoDnMap_keep:
  "dnMap (insertIntoDnMap key c False cs) key =
     (case dnMap cs key of None \<Rightarrow> Some c | Some v \<Rightarrow> Some v)"
  by (simp add: insertIntoDnMap_def split: option.splits)

lemma insertIntoDnMap_commute_idem:
  "k1 \<noteq> k2 \<Longrightarrow>
   insertIntoDnMap k1 c o1 (insertIntoDnMap k2 c o2 (insertIntoDnMap k1 c o1 cs))
     = insertIntoDnMap k2 c o2 (insertIntoDnMap k1 c o1 cs)"
  by (auto simp add: insertIntoDnMap_def split: option.splits)


lemma insertImpl_unfold:
  assumes "stripWildcard dn = Inr name"
      and "insertSSLCtxByDomainNameImpl dn c cs t = Inr cs'"
  shows "cs' = (if t \<noteq> BEST_AVAILABLE
                then insertIntoDnMap \<lparr>dnString = DNString name, certCrypto = BEST_AVAILABLE\<rparr> c False
                       (insertIntoDnMap \<lparr>dnString = DNString name, certCrypto = t\<rparr> c True cs)
                else insertIntoDnMap \<lparr>dnString = DNString name, certCrypto = t\<rparr> c True cs)"
    and "\<not> (length name = 1 \<and> name ! 0 = CHR ''.'')" and "CHR ''*'' \<notin> set (c_str name)"
  using assms by (auto simp: insertSSLCtxByDomainNameImpl_def Let_def split: if_splits)

lemma insertImpl_fold:
  assumes "stripWildcard dn = Inr name"
      and "\<not> (length name = 1 \<and> name ! 0 = CHR ''.'')" and "CHR ''*'' \<notin> set (c_str name)"
  shows "insertSSLCtxByDomainNameImpl dn c cs t =
           Inr (if t \<noteq> BEST_AVAILABLE
                then insertIntoDnMap \<lparr>dnString = DNString name, certCrypto = BEST_AVAILABLE\<rparr> c False
                       (insertIntoDnMap \<lparr>dnString = DNString name, certCrypto = t\<rparr> c True cs)
                else insertIntoDnMap \<lparr>dnString = DNString name, certCrypto = t\<rparr> c True cs)"
  using assms by (auto simp: insertSSLCtxByDomainNameImpl_def Let_def)

lemma insertIntoDnMap_frame:
  "ctxs (insertIntoDnMap key c ow cs) = ctxs cs"
  "defaultCtx (insertIntoDnMap key c ow cs) = defaultCtx cs"
  "defaultCtxDomainName (insertIntoDnMap key c ow cs) = defaultCtxDomainName cs"
  by (simp_all add: insertIntoDnMap_def split: option.splits)

lemma insertImpl_frame:
  assumes "insertSSLCtxByDomainNameImpl dn c cs t = Inr cs'"
  shows "ctxs cs' = ctxs cs \<and> defaultCtx cs' = defaultCtx cs
       \<and> defaultCtxDomainName cs' = defaultCtxDomainName cs"
  using assms
  by (auto simp: insertSSLCtxByDomainNameImpl_def Let_def insertIntoDnMap_frame
      split: sum.splits if_splits)

lemma insertByName_frame:
  assumes "insertSSLCtxByDomainName strict dn c cs t = Inr cs'"
  shows "ctxs cs' = ctxs cs \<and> defaultCtx cs' = defaultCtx cs
       \<and> defaultCtxDomainName cs' = defaultCtxDomainName cs"
  using assms insertImpl_frame [of dn c cs t]
  by (auto simp: insertSSLCtxByDomainName_def split: sum.splits if_splits)

lemma insertAltNames_frame:
  "ctxs (snd (insertAltNames strict names c cs t)) = ctxs cs
   \<and> defaultCtx (snd (insertAltNames strict names c cs t)) = defaultCtx cs
   \<and> defaultCtxDomainName (snd (insertAltNames strict names c cs t)) = defaultCtxDomainName cs"
proof (induction names arbitrary: cs)
  case Nil
  show ?case by simp
next
  case (Cons name rest)
  show ?case
  proof (cases "insertSSLCtxByDomainName strict name c cs t")
    case (Inl e)
    then show ?thesis by simp
  next
    case (Inr cs1)
    from insertByName_frame [OF Inr] Cons.IH [of cs1] Inr show ?thesis by simp
  qed
qed

lemma insertSSLCtx_ok:
  assumes "insertSSLCtx strict c dflt cs = (Inr u, cs')"
  shows "ctxs cs' = ctxs cs @ [c] \<and> defaultCtx cs' = defaultCtx cs
       \<and> (\<exists>cn. getCommonName (certificate c) = Some cn
            \<and> defaultCtxDomainName cs' =
                (if dflt \<and> cn \<noteq> ''*'' then cn else defaultCtxDomainName cs))"
proof -
  from assms obtain cn where cn: "getCommonName (certificate c) = Some cn"
    by (auto simp: insertSSLCtx_def split: option.splits)
  have star: "(length cn = 1 \<and> cn ! 0 = CHR ''*'') \<longleftrightarrow> cn = ''*''"
    by (cases cn) auto
  show ?thesis
  proof (cases "cn = ''*''")
    case True
    with assms cn show ?thesis
      by (auto simp: insertSSLCtx_def split: if_splits)
  next
    case False
    let ?crypto = "if (case certificate c of None \<Rightarrow> 0 | Some x \<Rightarrow> signature_nid x)
                        = NID_sha1WithRSAEncryption
                      \<or> (case certificate c of None \<Rightarrow> 0 | Some x \<Rightarrow> signature_nid x)
                        = NID_ecdsa_with_SHA1
                   then SHA1_SIGNATURE else BEST_AVAILABLE"
    let ?names = "case getSubjectAltName (certificate c) of None \<Rightarrow> [] | Some a \<Rightarrow> a"
    from assms cn False star obtain cs1 where
      1: "insertSSLCtxByDomainName strict cn c cs ?crypto = Inr cs1"
      by (auto simp: insertSSLCtx_def Let_def split: sum.splits)
    obtain r cs2 where 2: "insertAltNames strict ?names c cs1 ?crypto = (r, cs2)"
      by (cases "insertAltNames strict ?names c cs1 ?crypto") auto
    from assms cn False star 1 2 have
      3: "cs' = (if dflt then cs2\<lparr>defaultCtxDomainName := cn\<rparr> else cs2)
                  \<lparr>ctxs := ctxs (if dflt then cs2\<lparr>defaultCtxDomainName := cn\<rparr> else cs2) @ [c]\<rparr>"
      by (auto simp: insertSSLCtx_def Let_def split: sum.splits)
    have f1: "ctxs cs1 = ctxs cs \<and> defaultCtx cs1 = defaultCtx cs
       \<and> defaultCtxDomainName cs1 = defaultCtxDomainName cs"
      using insertByName_frame [OF 1] .
    have f2: "ctxs cs2 = ctxs cs1 \<and> defaultCtx cs2 = defaultCtx cs1
       \<and> defaultCtxDomainName cs2 = defaultCtxDomainName cs1"
      using insertAltNames_frame [of strict ?names c cs1 ?crypto] 2 by simp
    show ?thesis using cn False f1 f2 by (simp add: 3)
  qed
qed

lemma ctxSetup_cases:
  "ctxSetupByOpensslFeature c cfg cs mgr = (r, cs1, mgr1) \<Longrightarrow>
     this_contexts mgr1 = this_contexts mgr \<and> this_strict mgr1 = this_strict mgr
     \<and> ctxs cs1 = ctxs cs \<and> defaultCtxDomainName cs1 = defaultCtxDomainName cs
     \<and> (case r of
          Inl err \<Rightarrow> err = MultipleDefault \<and> cs1 = cs
        | Inr u \<Rightarrow> if isDefault cfg then defaultCtx cs = None \<and> defaultCtx cs1 = Some c
                   else cs1 = cs)"
  by (auto simp: ctxSetupByOpensslFeature_def Let_def split: if_splits option.splits)


lemma stripWildcard_star_dot:
  "d \<noteq> [] \<Longrightarrow> stripWildcard (CHR ''*'' # CHR ''.'' # d) = Inr (CHR ''.'' # d)"
  by (simp add: stripWildcard_def)

lemma insert_wildcard_key:
  assumes "insertSSLCtxByDomainNameImpl (CHR ''*'' # CHR ''.'' # d) w cs0 t = Inr cs1"
  shows "map_option ctx_addr (dnMap cs1 \<lparr>dnString = DNString (CHR ''.'' # d), certCrypto = t\<rparr>)
           = Some (ctx_addr w)"
proof -
  have d: "d \<noteq> []"
  proof
    assume "d = []"
    with assms show False
      by (simp add: insertSSLCtxByDomainNameImpl_def stripWildcard_def c_str_def)
  qed
  note u = insertImpl_unfold [OF stripWildcard_star_dot [OF d] assms]
  let ?k = "\<lparr>dnString = DNString (CHR ''.'' # d), certCrypto = t\<rparr>"
  have "dnMap cs1 ?k = dnMap (insertIntoDnMap ?k w True cs0) ?k"
  proof (cases t)
    case BEST_AVAILABLE
    with u(1) show ?thesis by simp
  next
    case SHA1_SIGNATURE
    with u(1) show ?thesis by (simp add: insertIntoDnMap_other)
  qed
  then show ?thesis
    by (simp add: insertIntoDnMap_overwrite split: option.splits)
qed

lemma DNString_longer: "DNString (CHR ''.'' # y @ CHR ''.'' # d) \<noteq> DNString (CHR ''.'' # d)"
proof
  assume "DNString (CHR ''.'' # y @ CHR ''.'' # d) = DNString (CHR ''.'' # d)"
  then have "length (DNString (CHR ''.'' # y @ CHR ''.'' # d)) = length (DNString (CHR ''.'' # d))"
    by simp
  then show False by (simp add: length_DNString)
qed

lemma DNString_longer2: "DNString (x @ CHR ''.'' # y @ CHR ''.'' # d) \<noteq> DNString (CHR ''.'' # d)"
proof
  assume "DNString (x @ CHR ''.'' # y @ CHR ''.'' # d) = DNString (CHR ''.'' # d)"
  then have "length (DNString (x @ CHR ''.'' # y @ CHR ''.'' # d)) = length (DNString (CHR ''.'' # d))"
    by simp
  then show False by (simp add: length_DNString)
qed

section \<open>Facts about the callback loop\<close>

lemma sni_loop_found_req:
  assumes "getSSLCtx (this_contexts mgr) \<lparr>dnString = dnstr, certCrypto = req\<rparr> = Some c"
  shows "sni_loop run sn dnstr req has count mgr = sni_found mgr has c req req"
  using assms by (subst sni_loop.simps) simp

lemma sni_loop_found_best:
  assumes "getSSLCtx (this_contexts mgr) \<lparr>dnString = dnstr, certCrypto = req\<rparr> = None"
      and "req \<noteq> BEST_AVAILABLE"
      and "getSSLCtx (this_contexts mgr) \<lparr>dnString = dnstr, certCrypto = BEST_AVAILABLE\<rparr> = Some c"
  shows "sni_loop run sn dnstr req has count mgr = sni_found mgr has c req BEST_AVAILABLE"
  using assms by (subst sni_loop.simps) simp

lemma sni_loop_second:
  "sni_loop run sn dnstr req has (Suc n) mgr =
     (case getSSLCtx (this_contexts mgr) \<lparr>dnString = dnstr, certCrypto = req\<rparr> of
        Some c \<Rightarrow> sni_found mgr has c req req
      | None \<Rightarrow>
          (case (if req \<noteq> BEST_AVAILABLE
                 then getSSLCtx (this_contexts mgr) \<lparr>dnString = dnstr, certCrypto = BEST_AVAILABLE\<rparr>
                 else None) of
             Some c \<Rightarrow> sni_found mgr has c req BEST_AVAILABLE
           | None \<Rightarrow> sni_not_found mgr has))"
  by (subst sni_loop.simps) (simp split: option.splits)

lemma sni_loop_fail_first:
  assumes "getSSLCtx (this_contexts mgr) \<lparr>dnString = dnstr, certCrypto = req\<rparr> = None"
      and "req \<noteq> BEST_AVAILABLE \<longrightarrow>
           getSSLCtx (this_contexts mgr) \<lparr>dnString = dnstr, certCrypto = BEST_AVAILABLE\<rparr> = None"
  shows "sni_loop run sn dnstr req has 0 mgr =
     (case this_noMatchFn mgr of
        None \<Rightarrow> sni_not_found mgr has
      | Some hook \<Rightarrow>
          if fst (run hook sn mgr) then
            (sni_loop run sn dnstr req has (Suc 0) (snd (run hook sn mgr)))
              \<lparr>noMatchCalls := sn # noMatchCalls
                  (sni_loop run sn dnstr req has (Suc 0) (snd (run hook sn mgr)))\<rparr>
          else (sni_not_found (snd (run hook sn mgr)) has)\<lparr>noMatchCalls := [sn]\<rparr>)"
  using assms by (subst sni_loop.simps) (simp add: Let_def split: option.splits)

lemma getSSLCtx_exact:
  "getSSLCtxByExactDomain cs k = Some c \<Longrightarrow> getSSLCtx cs k = Some c"
  by (simp add: getSSLCtx_def)

lemma getSSLCtx_suffix:
  "getSSLCtxByExactDomain cs k = None \<Longrightarrow> getSSLCtx cs k = getSSLCtxBySuffix cs k"
  by (simp add: getSSLCtx_def)

lemma getSSLCtx_none:
  "getSSLCtxByExactDomain cs k = None \<Longrightarrow> getSSLCtxBySuffix cs k = None
     \<Longrightarrow> getSSLCtx cs k = None"
  by (simp add: getSSLCtx_def)

lemma getSSLCtx_by_suffix:
  "getSSLCtxByExactDomain cs k = None \<Longrightarrow> getSSLCtxBySuffix cs k = Some c
     \<Longrightarrow> getSSLCtx cs k = Some c"
  by (simp add: getSSLCtx_def)

lemma sni_loop_not_failing:
  assumes "\<not> (getSSLCtx (this_contexts mgr) \<lparr>dnString = n, certCrypto = req\<rparr> = None
             \<and> (req \<noteq> BEST_AVAILABLE \<longrightarrow>
                  getSSLCtx (this_contexts mgr) \<lparr>dnString = n, certCrypto = BEST_AVAILABLE\<rparr> = None))"
  shows "\<exists>c used. sni_loop run sn n req has count mgr = sni_found mgr has c req used"
proof (cases "getSSLCtx (this_contexts mgr) \<lparr>dnString = n, certCrypto = req\<rparr>")
  case (Some c)
  then show ?thesis using sni_loop_found_req by blast
next
  case None
  with assms obtain c where "req \<noteq> BEST_AVAILABLE"
    "getSSLCtx (this_contexts mgr) \<lparr>dnString = n, certCrypto = BEST_AVAILABLE\<rparr> = Some c"
    by auto
  with None show ?thesis using sni_loop_found_best by blast
qed

lemma callback_fields:
  "result (serverNameCallback run ssl mgr)
     = result (sni_loop run
         (case servername ssl of None \<Rightarrow> c_str (defaultCtxDomainName (this_contexts mgr))
          | Some s \<Rightarrow> c_str s)
         (DNString (case servername ssl of
                      None \<Rightarrow> c_str (defaultCtxDomainName (this_contexts mgr))
                    | Some s \<Rightarrow> c_str s))
         (certCryptoReqOf (clientHelloInfo ssl)) (servername ssl \<noteq> None) 0 mgr)"
  "switched (serverNameCallback run ssl mgr)
     = switched (sni_loop run
         (case servername ssl of None \<Rightarrow> c_str (defaultCtxDomainName (this_contexts mgr))
          | Some s \<Rightarrow> c_str s)
         (DNString (case servername ssl of
                      None \<Rightarrow> c_str (defaultCtxDomainName (this_contexts mgr))
                    | Some s \<Rightarrow> c_str s))
         (certCryptoReqOf (clientHelloInfo ssl)) (servername ssl \<noteq> None) 0 mgr)"
  "noMatchCalls (serverNameCallback run ssl mgr)
     = noMatchCalls (sni_loop run
         (case servername ssl of None \<Rightarrow> c_str (defaultCtxDomainName (this_contexts mgr))
          | Some s \<Rightarrow> c_str s)
         (DNString (case servername ssl of
                      None \<Rightarrow> c_str (defaultCtxDomainName (this_contexts mgr))
                    | Some s \<Rightarrow> c_str s))
         (certCryptoReqOf (clientHelloInfo ssl)) (servername ssl \<noteq> None) 0 mgr)"
  "manager (serverNameCallback run ssl mgr)
     = manager (sni_loop run
         (case servername ssl of None \<Rightarrow> c_str (defaultCtxDomainName (this_contexts mgr))
          | Some s \<Rightarrow> c_str s)
         (DNString (case servername ssl of
                      None \<Rightarrow> c_str (defaultCtxDomainName (this_contexts mgr))
                    | Some s \<Rightarrow> c_str s))
         (certCryptoReqOf (clientHelloInfo ssl)) (servername ssl \<noteq> None) 0 mgr)"
  by (simp_all add: serverNameCallback_def Let_def)

lemma ssl_fx_sel:
  "servername (ssl_fx sn exts) = sn" "clientHelloInfo (ssl_fx sn exts) = Some (hello_fx exts)"
  by (simp_all add: ssl_fx_def)

lemma found_no_absent: "RecordAbsentHostname \<notin> set (stats (sni_found mgr has c req used))"
  by (simp add: sni_found_def)

lemma not_found_no_absent: "RecordAbsentHostname \<notin> set (stats (sni_not_found mgr has))"
  by (simp add: sni_not_found_def)

lemma second_no_absent:
  "RecordAbsentHostname \<notin> set (stats (sni_loop run sn n req has (Suc m) mgr))"
  unfolding sni_loop_second
  by (simp add: found_no_absent not_found_no_absent split: option.splits)

lemma loop_no_absent:
  "RecordAbsentHostname \<notin> set (stats (sni_loop run sn n req has 0 mgr))"
proof (cases "getSSLCtx (this_contexts mgr) \<lparr>dnString = n, certCrypto = req\<rparr> = None
             \<and> (req \<noteq> BEST_AVAILABLE \<longrightarrow>
                  getSSLCtx (this_contexts mgr) \<lparr>dnString = n, certCrypto = BEST_AVAILABLE\<rparr> = None)")
  case False
  then obtain c used where "sni_loop run sn n req has 0 mgr = sni_found mgr has c req used"
    using sni_loop_not_failing by blast
  then show ?thesis by (simp add: found_no_absent)
next
  case True
  then have 1: "getSSLCtx (this_contexts mgr) \<lparr>dnString = n, certCrypto = req\<rparr> = None"
    and 2: "req \<noteq> BEST_AVAILABLE \<longrightarrow> getSSLCtx (this_contexts mgr)
               \<lparr>dnString = n, certCrypto = BEST_AVAILABLE\<rparr> = None"
    by simp_all
  show ?thesis
    unfolding sni_loop_fail_first [OF 1 2]
    by (simp add: not_found_no_absent second_no_absent split: option.splits)
qed

lemma found_has:
  "sni_found mgr False c req used = without_name_stats (sni_found mgr True c req used)"
  by (simp add: sni_found_def)

lemma not_found_has:
  "sni_not_found mgr False = without_name_stats (sni_not_found mgr True)"
  by (simp add: sni_not_found_def)

lemma sni_second_has:
  "sni_loop run sn dnstr req False (Suc n) mgr
     = without_name_stats (sni_loop run sn dnstr req True (Suc n) mgr)"
  unfolding sni_loop_second
  by (simp add: found_has not_found_has split: option.splits)

lemma sni_loop_has:
  "sni_loop run sn dnstr req False count mgr
     = without_name_stats (sni_loop run sn dnstr req True count mgr)"
proof (cases count)
  case (Suc n)
  then show ?thesis using sni_second_has by simp
next
  case 0
  show ?thesis
  proof (cases "getSSLCtx (this_contexts mgr) \<lparr>dnString = dnstr, certCrypto = req\<rparr>")
    case (Some c)
    then show ?thesis by (simp add: sni_loop_found_req found_has)
  next
    case None
    note n1 = this
    show ?thesis
    proof (cases "req \<noteq> BEST_AVAILABLE \<longrightarrow>
           getSSLCtx (this_contexts mgr) \<lparr>dnString = dnstr, certCrypto = BEST_AVAILABLE\<rparr> = None")
      case False
      then obtain c where "req \<noteq> BEST_AVAILABLE"
        "getSSLCtx (this_contexts mgr) \<lparr>dnString = dnstr, certCrypto = BEST_AVAILABLE\<rparr> = Some c"
        by auto
      then show ?thesis by (simp add: sni_loop_found_best [OF n1] found_has)
    next
      case True
      note n2 = this
      show ?thesis
      proof (cases "this_noMatchFn mgr")
        case None
        then show ?thesis
          unfolding 0 sni_loop_fail_first [OF n1 n2] by (simp add: not_found_has)
      next
        case (Some hook)
        show ?thesis
        proof (cases "fst (run hook sn mgr)")
          case False
          with Some show ?thesis
            unfolding 0 sni_loop_fail_first [OF n1 n2]
            by (simp add: not_found_has [of "snd (run hook sn mgr)"])
        next
          case True
          with Some show ?thesis
            unfolding 0 sni_loop_fail_first [OF n1 n2]
            by (simp add: sni_second_has [of run sn dnstr req 0 "snd (run hook sn mgr)"])
        qed
      qed
    qed
  qed
qed

lemma sni_found_fields:
  "result (sni_found mgr has c req used) = SERVER_NAME_FOUND"
  "switched (sni_found mgr has c req used) = Some c"
  "noMatchCalls (sni_found mgr has c req used) = []"
  "manager (sni_found mgr has c req used) = mgr"
  "stats (sni_found mgr has c req used)
     = (if this_clientHelloTLSExtStats mgr
        then (if has then [RecordMatch] else []) @ [RecordCertCrypto req used] else [])"
  by (simp_all add: sni_found_def)

lemma sni_not_found_fields:
  "result (sni_not_found mgr has) = SERVER_NAME_NOT_FOUND"
  "switched (sni_not_found mgr has) = None"
  "noMatchCalls (sni_not_found mgr has) = []"
  "manager (sni_not_found mgr has) = mgr"
  by (simp_all add: sni_not_found_def)

lemma pass_exact:
  assumes "getSSLCtxByExactDomain (this_contexts mgr) \<lparr>dnString = n, certCrypto = req\<rparr> = Some c"
  shows "sni_loop run sn n req has count mgr = sni_found mgr has c req req"
  by (rule sni_loop_found_req [OF getSSLCtx_exact [OF assms]])

lemma pass_wildcard:
  assumes "getSSLCtxByExactDomain (this_contexts mgr) \<lparr>dnString = n, certCrypto = req\<rparr> = None"
      and "getSSLCtxBySuffix (this_contexts mgr) \<lparr>dnString = n, certCrypto = req\<rparr> = Some c"
  shows "sni_loop run sn n req has count mgr = sni_found mgr has c req req"
  by (rule sni_loop_found_req [OF getSSLCtx_by_suffix [OF assms]])

lemma pass_upgraded_exact:
  assumes "getSSLCtxByExactDomain (this_contexts mgr) \<lparr>dnString = n, certCrypto = req\<rparr> = None"
      and "getSSLCtxBySuffix (this_contexts mgr) \<lparr>dnString = n, certCrypto = req\<rparr> = None"
      and "req = SHA1_SIGNATURE"
      and "getSSLCtxByExactDomain (this_contexts mgr)
             \<lparr>dnString = n, certCrypto = BEST_AVAILABLE\<rparr> = Some c"
  shows "sni_loop run sn n req has count mgr = sni_found mgr has c req BEST_AVAILABLE"
proof -
  from assms(3) have "req \<noteq> BEST_AVAILABLE" by simp
  from sni_loop_found_best [OF getSSLCtx_none [OF assms(1,2)] this getSSLCtx_exact [OF assms(4)]]
  show ?thesis .
qed

lemma pass_upgraded_wildcard:
  assumes "getSSLCtxByExactDomain (this_contexts mgr) \<lparr>dnString = n, certCrypto = req\<rparr> = None"
      and "getSSLCtxBySuffix (this_contexts mgr) \<lparr>dnString = n, certCrypto = req\<rparr> = None"
      and "req = SHA1_SIGNATURE"
      and "getSSLCtxByExactDomain (this_contexts mgr)
             \<lparr>dnString = n, certCrypto = BEST_AVAILABLE\<rparr> = None"
      and "getSSLCtxBySuffix (this_contexts mgr)
             \<lparr>dnString = n, certCrypto = BEST_AVAILABLE\<rparr> = Some c"
  shows "sni_loop run sn n req has count mgr = sni_found mgr has c req BEST_AVAILABLE"
proof -
  from assms(3) have "req \<noteq> BEST_AVAILABLE" by simp
  from sni_loop_found_best [OF getSSLCtx_none [OF assms(1,2)] this
      getSSLCtx_by_suffix [OF assms(4,5)]]
  show ?thesis .
qed

lemma pass_nothing:
  assumes e: "getSSLCtxByExactDomain (this_contexts mgr) \<lparr>dnString = n, certCrypto = req\<rparr> = None"
      and s: "getSSLCtxBySuffix (this_contexts mgr) \<lparr>dnString = n, certCrypto = req\<rparr> = None"
      and up: "req = SHA1_SIGNATURE \<longrightarrow>
                 getSSLCtxByExactDomain (this_contexts mgr)
                   \<lparr>dnString = n, certCrypto = BEST_AVAILABLE\<rparr> = None
                 \<and> getSSLCtxBySuffix (this_contexts mgr)
                     \<lparr>dnString = n, certCrypto = BEST_AVAILABLE\<rparr> = None"
      and h: "count \<noteq> 0 \<or> this_noMatchFn mgr = None"
  shows "sni_loop run sn n req has count mgr = sni_not_found mgr has"
proof -
  from e s have 1: "getSSLCtx (this_contexts mgr) \<lparr>dnString = n, certCrypto = req\<rparr> = None"
    by (rule getSSLCtx_none)
  have 2: "req \<noteq> BEST_AVAILABLE \<longrightarrow>
      getSSLCtx (this_contexts mgr) \<lparr>dnString = n, certCrypto = BEST_AVAILABLE\<rparr> = None"
  proof
    assume "req \<noteq> BEST_AVAILABLE"
    then have "req = SHA1_SIGNATURE" by (cases req) simp_all
    with up show "getSSLCtx (this_contexts mgr)
                    \<lparr>dnString = n, certCrypto = BEST_AVAILABLE\<rparr> = None"
      by (blast intro: getSSLCtx_none)
  qed
  show ?thesis
  proof (cases count)
    case 0
    with h have "this_noMatchFn mgr = None" by simp
    then show ?thesis
      unfolding 0 sni_loop_fail_first [OF 1 2] by simp
  next
    case (Suc m)
    show ?thesis
      unfolding Suc sni_loop_second using 1 2 by simp
  qed
qed

section \<open>Facts about the build\<close>

lemma loadCerts_error:
  "loadCerts e cfg certs st = Inl err \<Longrightarrow> \<forall>ie. err \<noteq> ErrorAddingCertificate ie"
proof (induction certs arbitrary: st)
  case Nil
  then show ?case by simp
next
  case (Cons cert rest)
  show ?case
  proof (cases "loadCertificate e (certPath cert)")
    case None
    with Cons.prems show ?thesis by auto
  next
    case (Some x509)
    note x = this
    show ?thesis
    proof (cases "commonName x509")
      case None
      with Cons.prems x show ?thesis by auto
    next
      case (Some cn)
      with Cons.prems x Cons.IH show ?thesis
        by (simp add: Let_def split: if_splits) blast+
    qed
  qed
qed

lemma build_cases:
  obtains (early) err where
      "buildSSLContext e cfg seeds cs mgr = (Inl err, cs, mgr\<lparr>next_addr := Suc (next_addr mgr)\<rparr>)"
      "\<forall>ie. err \<noteq> ErrorAddingCertificate ie"
  | (late) st :: cert_loop where
      "buildSSLContext e cfg seeds cs mgr =
         (case ctxSetupByOpensslFeature
                 \<lparr>ctx_addr = next_addr mgr, certificate = current st,
                  ticketManager = setupTicketManager seeds\<rparr>
                 cfg cs (mgr\<lparr>next_addr := Suc (next_addr mgr)\<rparr>) of
            (Inl err, contexts1, mgr1) \<Rightarrow> (Inl err, contexts1, mgr1)
          | (Inr u, contexts1, mgr1) \<Rightarrow>
              (case insertSSLCtx (this_strict mgr1)
                      \<lparr>ctx_addr = next_addr mgr, certificate = current st,
                       ticketManager = setupTicketManager seeds\<rparr>
                      (isDefault cfg) contexts1 of
                 (Inl err, contexts2) \<Rightarrow> (Inl (ErrorAddingCertificate err), contexts2, mgr1)
               | (Inr u, contexts2) \<Rightarrow> (Inr (), contexts2, mgr1)))"
proof (cases "loadCerts e cfg (certificates cfg)
      \<lparr>numCerts = 0, loopCommonName = [], lastCertPath = [],
       loopSubjectAltName = None, current = None\<rparr>")
  case (Inl err)
  have "\<forall>ie. err \<noteq> ErrorAddingCertificate ie"
    using loadCerts_error [OF Inl] .
  moreover have "buildSSLContext e cfg seeds cs mgr
                   = (Inl err, cs, mgr\<lparr>next_addr := Suc (next_addr mgr)\<rparr>)"
    by (simp add: buildSSLContext_def Let_def Inl)
  ultimately show ?thesis by (rule early [rotated])
next
  case (Inr st)
  show ?thesis
  proof (cases "tls11Ciphers cfg \<noteq> [] \<and> \<not> setCiphersOrThrow e (tls11Ciphers cfg)")
    case True
    then have "buildSSLContext e cfg seeds cs mgr
                 = (Inl (InvalidCiphers (tls11Ciphers cfg)), cs,
                    mgr\<lparr>next_addr := Suc (next_addr mgr)\<rparr>)"
      by (simp add: buildSSLContext_def Let_def Inr)
    then show ?thesis by (rule early) simp
  next
    case False
    then have c1: "(tls11Ciphers cfg \<noteq> [] \<and> \<not> setCiphersOrThrow e (tls11Ciphers cfg)) = False"
      by simp
    show ?thesis
    proof (cases "setCiphersOrThrow e (sslCiphers cfg)")
      case False
      then have "buildSSLContext e cfg seeds cs mgr
                   = (Inl (InvalidCiphers (sslCiphers cfg)), cs,
                      mgr\<lparr>next_addr := Suc (next_addr mgr)\<rparr>)"
        by (simp add: buildSSLContext_def Let_def Inr c1)
      then show ?thesis by (rule early) simp
    next
      case c2: True
      show ?thesis
      proof (cases "clientCAFile cfg \<noteq> [] \<and> \<not> loadClientCAList e (clientCAFile cfg)")
        case True
        then have "buildSSLContext e cfg seeds cs mgr
                     = (Inl (ClientCAError (clientCAFile cfg)), cs,
                        mgr\<lparr>next_addr := Suc (next_addr mgr)\<rparr>)"
          by (simp add: buildSSLContext_def Let_def Inr c1 c2)
        then show ?thesis by (rule early) simp
      next
        case False
        then have c3: "(clientCAFile cfg \<noteq> [] \<and> \<not> loadClientCAList e (clientCAFile cfg)) = False"
          by simp
        show ?thesis
          by (rule late [of st]) (simp add: buildSSLContext_def Let_def Inr c1 c2 c3)
      qed
    qed
  qed
qed


lemma build_late_result:
  fixes st :: cert_loop
  assumes late: "buildSSLContext e cfg seeds cs mgr =
         (case ctxSetupByOpensslFeature c cfg cs mgr0 of
            (Inl err, contexts1, mgr1) \<Rightarrow> (Inl err, contexts1, mgr1)
          | (Inr u, contexts1, mgr1) \<Rightarrow>
              (case insertSSLCtx (this_strict mgr1) c (isDefault cfg) contexts1 of
                 (Inl err, contexts2) \<Rightarrow> (Inl (ErrorAddingCertificate err), contexts2, mgr1)
               | (Inr u, contexts2) \<Rightarrow> (Inr (), contexts2, mgr1)))"
    and s1: "ctxSetupByOpensslFeature c cfg cs mgr0 = (r1, cs1, mgr1)"
    and s2: "insertSSLCtx (this_strict mgr1) c (isDefault cfg) cs1 = (r2, cs2)"
  shows "buildSSLContext e cfg seeds cs mgr =
           (case r1 of Inl err \<Rightarrow> (Inl err, cs1, mgr1)
            | Inr u \<Rightarrow> (case r2 of Inl err \<Rightarrow> (Inl (ErrorAddingCertificate err), cs2, mgr1)
                        | Inr u \<Rightarrow> (Inr (), cs2, mgr1)))"
  unfolding late s1 by (simp add: s2 split: sum.splits)


lemma build_outcome:
  assumes b: "buildSSLContext e cfg seeds cs mgr = (r, cs', mgr')"
  obtains (early) err where "r = Inl err" "\<forall>ie. err \<noteq> ErrorAddingCertificate ie" "cs' = cs"
      "this_contexts mgr' = this_contexts mgr"
  | (insert_fail) ie where "r = Inl (ErrorAddingCertificate ie)"
      "this_contexts mgr' = this_contexts mgr"
  | (ok) c cs1 where "r = Inr ()" "ticketManager c = setupTicketManager seeds"
      "ctxSetupByOpensslFeature c cfg cs (mgr\<lparr>next_addr := Suc (next_addr mgr)\<rparr>)
         = (Inr (), cs1, mgr')"
      "insertSSLCtx (this_strict mgr') c (isDefault cfg) cs1 = (Inr (), cs')"
proof (cases rule: build_cases [of e cfg seeds cs mgr])
  case (early err)
  with b have "r = Inl err" "cs' = cs" "this_contexts mgr' = this_contexts mgr"
    by auto
  with early(2) show ?thesis using that(1) by blast
next
  case (late st)
  let ?mgr0 = "mgr\<lparr>next_addr := Suc (next_addr mgr)\<rparr>"
  let ?c = "\<lparr>ctx_addr = next_addr mgr, certificate = current st,
             ticketManager = setupTicketManager seeds\<rparr>"
  obtain r1 cs1 mgr1 where s1: "ctxSetupByOpensslFeature ?c cfg cs ?mgr0 = (r1, cs1, mgr1)"
    by (cases "ctxSetupByOpensslFeature ?c cfg cs ?mgr0") auto
  obtain r2 cs2 where s2: "insertSSLCtx (this_strict mgr1) ?c (isDefault cfg) cs1 = (r2, cs2)"
    by (cases "insertSSLCtx (this_strict mgr1) ?c (isDefault cfg) cs1") auto
  note res = build_late_result [OF late s1 s2]
  note a = ctxSetup_cases [OF s1]
  show ?thesis
  proof (cases r1)
    case (Inl err)
    with res b have "r = Inl err" "cs' = cs1" "mgr' = mgr1" by simp_all
    moreover from a Inl have "err = MultipleDefault" "cs1 = cs"
      "this_contexts mgr1 = this_contexts ?mgr0" by simp_all
    ultimately show ?thesis using that(1) [of err] by simp
  next
    case r1: (Inr u)
    show ?thesis
    proof (cases r2)
      case (Inl ie)
      with res b r1 have "r = Inl (ErrorAddingCertificate ie)" "mgr' = mgr1" by simp_all
      moreover from a have "this_contexts mgr1 = this_contexts ?mgr0" by simp
      ultimately show ?thesis using that(2) [of ie] by simp
    next
      case (Inr u2)
      with res b r1 have e: "r = Inr ()" "cs' = cs2" "mgr' = mgr1" by simp_all
      have "ticketManager ?c = setupTicketManager seeds" by simp
      moreover have "ctxSetupByOpensslFeature ?c cfg cs ?mgr0 = (Inr (), cs1, mgr')"
        using s1 r1 e by simp
      moreover have "insertSSLCtx (this_strict mgr') ?c (isDefault cfg) cs1 = (Inr (), cs')"
        using s2 Inr e by simp
      ultimately show ?thesis using that(3) [of ?c cs1] e(1) by blast
    qed
  qed
qed


lemma build_ok:
  assumes "buildSSLContext e cfg seeds cs mgr = (Inr u, cs', mgr')"
  shows "\<exists>c cn. ctxs cs' = ctxs cs @ [c] \<and> ticketManager c = setupTicketManager seeds
            \<and> getCommonName (certificate c) = Some cn
            \<and> (if isDefault cfg
                then defaultCtx cs = None \<and> defaultCtx cs' = Some c
                     \<and> defaultCtxDomainName cs' =
                          (if cn \<noteq> ''*'' then cn else defaultCtxDomainName cs)
                else defaultCtx cs' = defaultCtx cs
                     \<and> defaultCtxDomainName cs' = defaultCtxDomainName cs)"
  using assms
proof (cases rule: build_outcome)
  case (ok c cs1)
  note a = ctxSetup_cases [OF ok(3)]
  note b = insertSSLCtx_ok [OF ok(4)]
  from b obtain cn where cn: "getCommonName (certificate c) = Some cn"
    and dd: "defaultCtxDomainName cs' =
                (if isDefault cfg \<and> cn \<noteq> ''*'' then cn else defaultCtxDomainName cs1)"
    by blast
  show ?thesis
  proof (cases "isDefault cfg")
    case True
    with a b cn dd ok(2) show ?thesis by auto
  next
    case False
    with a have "cs1 = cs" by simp
    with False b cn dd ok(2) show ?thesis by auto
  qed
qed simp_all

lemma build_mgr_contexts:
  assumes "buildSSLContext e cfg seeds cs mgr = (r, cs', mgr')"
  shows "this_contexts mgr' = this_contexts mgr"
  using assms
proof (cases rule: build_outcome)
  case (ok c cs1)
  from ctxSetup_cases [OF ok(3)] show ?thesis by simp
qed simp_all

lemma build_fail_early:
  assumes "buildSSLContext e cfg seeds cs mgr = (Inl err, cs', mgr')"
      and "\<forall>ie. err \<noteq> ErrorAddingCertificate ie"
  shows "cs' = cs"
  using assms(1)
proof (cases rule: build_outcome)
  case (insert_fail ie)
  with assms(2) show ?thesis by simp
qed simp_all

lemma addAll_mgr_contexts:
  "addAll e cfgs seeds cs mgr = (r, cs', mgr') \<Longrightarrow> this_contexts mgr' = this_contexts mgr"
proof (induction cfgs arbitrary: cs mgr)
  case Nil
  then show ?case by simp
next
  case (Cons cfg rest)
  obtain r1 cs1 mgr1 where b: "buildSSLContext e cfg seeds cs mgr = (r1, cs1, mgr1)"
    by (cases "buildSSLContext e cfg seeds cs mgr") auto
  note m = build_mgr_contexts [OF b]
  show ?case
  proof (cases r1)
    case (Inl err)
    with Cons.prems b m show ?thesis by (simp add: addSSLContextConfig_def)
  next
    case (Inr u)
    with Cons.prems b have "addAll e rest seeds cs1 mgr1 = (r, cs', mgr')"
      by (simp add: addSSLContextConfig_def)
    from Cons.IH [OF this] m show ?thesis by simp
  qed
qed

lemma addAll_invariant:
  fixes cfgs :: "'h SSLContextConfig list"
  assumes step: "\<And>(cfg :: 'h SSLContextConfig) cs mgr u cs' mgr'.
            Q cs \<Longrightarrow> buildSSLContext e cfg seeds cs mgr = (Inr u, cs', mgr') \<Longrightarrow> Q cs'"
      and "Q cs"
      and "addAll e cfgs seeds cs mgr = (Inr u, cs', mgr')"
  shows "Q cs'"
  using assms(2,3)
proof (induction cfgs arbitrary: cs mgr)
  case Nil
  then show ?case by simp
next
  case (Cons cfg rest)
  obtain r1 cs1 mgr1 where b: "buildSSLContext e cfg seeds cs mgr = (r1, cs1, mgr1)"
    by (cases "buildSSLContext e cfg seeds cs mgr") auto
  show ?case
  proof (cases r1)
    case (Inl err)
    with Cons.prems b show ?thesis by (simp add: addSSLContextConfig_def)
  next
    case (Inr u1)
    with Cons.prems b have rest: "addAll e rest seeds cs1 mgr1 = (Inr u, cs', mgr')"
      by (simp add: addSSLContextConfig_def)
    from b Inr have "buildSSLContext e cfg seeds cs mgr = (Inr u1, cs1, mgr1)" by simp
    then have "Q cs1" by (rule step [OF Cons.prems(1)])
    from Cons.IH [OF this rest] show ?thesis .
  qed
qed

lemma build_seeds:
  assumes "\<forall>c\<in>set (ctxs cs). ticketManager c = seeds"
      and "buildSSLContext e cfg seeds cs mgr = (Inr u, cs', mgr')"
  shows "\<forall>c\<in>set (ctxs cs'). ticketManager c = seeds"
proof -
  from build_ok [OF assms(2)] obtain c where
    "ctxs cs' = ctxs cs @ [c]" "ticketManager c = setupTicketManager seeds"
    by blast
  with assms(1) show ?thesis by (simp add: setupTicketManager_def)
qed

lemma build_length:
  assumes "length (ctxs cs) = n"
      and "buildSSLContext e cfg seeds cs mgr = (Inr u, cs', mgr')"
  shows "length (ctxs cs') = Suc n"
proof -
  from build_ok [OF assms(2)] obtain c where "ctxs cs' = ctxs cs @ [c]"
    by blast
  with assms(1) show ?thesis by simp
qed

lemma findTicketSeeds_find:
  assumes "find (\<lambda>c. ticketManager c \<noteq> None) cs = Some c0" and "ticketManager c0 = Some tm"
  shows "findTicketSeeds cs d = getTLSTicketKeySeeds tm"
  using assms by (induction cs) (auto split: if_splits option.splits)


lemma build_default_domain:
  assumes inv: "case defaultCtx cs of
                  None \<Rightarrow> defaultCtxDomainName cs = []
                | Some d \<Rightarrow> \<exists>cn. getCommonName (certificate d) = Some cn
                            \<and> defaultCtxDomainName cs = (if cn = ''*'' then [] else cn)"
      and "buildSSLContext e cfg seeds cs mgr = (Inr u, cs', mgr')"
  shows "case defaultCtx cs' of
           None \<Rightarrow> defaultCtxDomainName cs' = []
         | Some d \<Rightarrow> \<exists>cn. getCommonName (certificate d) = Some cn
                     \<and> defaultCtxDomainName cs' = (if cn = ''*'' then [] else cn)"
proof -
  from build_ok [OF assms(2)] obtain c cn where
    c: "getCommonName (certificate c) = Some cn"
       "if isDefault cfg
        then defaultCtx cs = None \<and> defaultCtx cs' = Some c
             \<and> defaultCtxDomainName cs' = (if cn \<noteq> ''*'' then cn else defaultCtxDomainName cs)
        else defaultCtx cs' = defaultCtx cs
             \<and> defaultCtxDomainName cs' = defaultCtxDomainName cs"
    by blast
  show ?thesis
  proof (cases "isDefault cfg")
    case True
    with c(2) have d: "defaultCtx cs = None" "defaultCtx cs' = Some c"
      "defaultCtxDomainName cs' = (if cn \<noteq> ''*'' then cn else defaultCtxDomainName cs)"
      by simp_all
    from inv d(1) have "defaultCtxDomainName cs = []" by simp
    with d c(1) show ?thesis by simp
  next
    case False
    with c(2) have eq: "defaultCtx cs' = defaultCtx cs"
      "defaultCtxDomainName cs' = defaultCtxDomainName cs" by simp_all
    from inv show ?thesis unfolding eq .
  qed
qed

lemma addAll_length:
  "addAll e cfgs seeds cs mgr = (Inr u, cs', mgr')
     \<Longrightarrow> length (ctxs cs') = length (ctxs cs) + length cfgs"
proof (induction cfgs arbitrary: cs mgr)
  case Nil
  then show ?case by simp
next
  case (Cons cfg rest)
  obtain r1 cs1 mgr1 where b: "buildSSLContext e cfg seeds cs mgr = (r1, cs1, mgr1)"
    by (cases "buildSSLContext e cfg seeds cs mgr") auto
  show ?case
  proof (cases r1)
    case (Inl err)
    with Cons.prems b show ?thesis by (simp add: addSSLContextConfig_def)
  next
    case (Inr u1)
    with Cons.prems b have rest: "addAll e rest seeds cs1 mgr1 = (Inr u, cs', mgr')"
      by (simp add: addSSLContextConfig_def)
    from b Inr have "buildSSLContext e cfg seeds cs mgr = (Inr u1, cs1, mgr1)" by simp
    from build_length [OF refl this] Cons.IH [OF rest] show ?thesis by simp
  qed
qed

lemma reset_unfold:
  "resetSSLContextConfigs e cfgs ticketSeeds mgr =
     (case addAll e cfgs
             (Some (case ticketSeeds of
                      Some s \<Rightarrow> s
                    | None \<Rightarrow> findTicketSeeds (ctxs (this_contexts mgr)) emptySeeds))
             emptySslContexts mgr of
        (Inl err, contexts, mgr') \<Rightarrow> (Inl err, mgr')
      | (Inr u, contexts, mgr') \<Rightarrow> (Inr (), mgr'\<lparr>this_contexts := contexts\<rparr>))"
  by (simp add: resetSSLContextConfigs_def Let_def split: option.splits)

lemma reset_ok:
  assumes "resetSSLContextConfigs e cfgs ticketSeeds mgr = (Inr u, mgr')"
  obtains built m where
    "addAll e cfgs
       (Some (case ticketSeeds of
                Some s \<Rightarrow> s
              | None \<Rightarrow> findTicketSeeds (ctxs (this_contexts mgr)) emptySeeds))
       emptySslContexts mgr = (Inr (), built, m)"
    "this_contexts m = this_contexts mgr" "mgr' = m\<lparr>this_contexts := built\<rparr>"
proof -
  let ?seeds = "Some (case ticketSeeds of
                        Some s \<Rightarrow> s
                      | None \<Rightarrow> findTicketSeeds (ctxs (this_contexts mgr)) emptySeeds)"
  obtain r built m where a: "addAll e cfgs ?seeds emptySslContexts mgr = (r, built, m)"
    by (cases "addAll e cfgs ?seeds emptySslContexts mgr") auto
  from assms have "r = Inr () \<and> mgr' = m\<lparr>this_contexts := built\<rparr>"
    unfolding reset_unfold a by (cases r) simp_all
  with a addAll_mgr_contexts [OF a] that show ?thesis by simp
qed

lemma reset_fail:
  assumes "resetSSLContextConfigs e cfgs ticketSeeds mgr = (Inl err, mgr')"
  shows "this_contexts mgr' = this_contexts mgr"
proof -
  let ?seeds = "Some (case ticketSeeds of
                        Some s \<Rightarrow> s
                      | None \<Rightarrow> findTicketSeeds (ctxs (this_contexts mgr)) emptySeeds)"
  obtain r built m where a: "addAll e cfgs ?seeds emptySslContexts mgr = (r, built, m)"
    by (cases "addAll e cfgs ?seeds emptySslContexts mgr") auto
  from assms have "mgr' = m"
    unfolding reset_unfold a by (cases r) simp_all
  with addAll_mgr_contexts [OF a] show ?thesis by simp
qed

lemma insertSSLCtx_fail_frame:
  assumes "insertSSLCtx strict c dflt cs = (Inl ie, cs')"
  shows "ctxs cs' = ctxs cs \<and> defaultCtx cs' = defaultCtx cs
       \<and> defaultCtxDomainName cs' = defaultCtxDomainName cs"
proof (cases "getCommonName (certificate c)")
  case None
  with assms show ?thesis by (simp add: insertSSLCtx_def)
next
  case (Some cn)
  have star: "(length cn = 1 \<and> cn ! 0 = CHR ''*'') \<longleftrightarrow> cn = ''*''"
    by (cases cn) auto
  show ?thesis
  proof (cases "cn = ''*''")
    case True
    with assms Some show ?thesis
      by (auto simp: insertSSLCtx_def split: if_splits)
  next
    case False
    let ?crypto = "if (case certificate c of None \<Rightarrow> 0 | Some x \<Rightarrow> signature_nid x)
                        = NID_sha1WithRSAEncryption
                      \<or> (case certificate c of None \<Rightarrow> 0 | Some x \<Rightarrow> signature_nid x)
                        = NID_ecdsa_with_SHA1
                   then SHA1_SIGNATURE else BEST_AVAILABLE"
    let ?names = "case getSubjectAltName (certificate c) of None \<Rightarrow> [] | Some a \<Rightarrow> a"
    show ?thesis
    proof (cases "insertSSLCtxByDomainName strict cn c cs ?crypto")
      case (Inl e1)
      with assms Some False star have "cs' = cs"
        by (auto simp: insertSSLCtx_def Let_def)
      then show ?thesis by simp
    next
      case (Inr cs1)
      obtain r cs2 where 2: "insertAltNames strict ?names c cs1 ?crypto = (r, cs2)"
        by (cases "insertAltNames strict ?names c cs1 ?crypto") auto
      from assms Some False star Inr 2 have "cs' = cs2"
        by (cases r) (auto simp: insertSSLCtx_def Let_def)
      moreover have "ctxs cs1 = ctxs cs \<and> defaultCtx cs1 = defaultCtx cs
         \<and> defaultCtxDomainName cs1 = defaultCtxDomainName cs"
        using insertByName_frame [OF Inr] .
      moreover have "ctxs cs2 = ctxs cs1 \<and> defaultCtx cs2 = defaultCtx cs1
         \<and> defaultCtxDomainName cs2 = defaultCtxDomainName cs1"
        using insertAltNames_frame [of strict ?names c cs1 ?crypto] 2 by simp
      ultimately show ?thesis by simp
    qed
  qed
qed

lemma build_insert_fail:
  assumes b: "buildSSLContext e cfg seeds cs mgr = (Inl (ErrorAddingCertificate ie), cs', mgr')"
  shows "ctxs cs' = ctxs cs \<and> defaultCtxDomainName cs' = defaultCtxDomainName cs
       \<and> (if isDefault cfg then defaultCtx cs = None \<and> defaultCtx cs' \<noteq> None
           else defaultCtx cs' = defaultCtx cs)"
proof (cases rule: build_cases [of e cfg seeds cs mgr])
  case (early err)
  with b show ?thesis by simp
next
  case (late st)
  let ?mgr0 = "mgr\<lparr>next_addr := Suc (next_addr mgr)\<rparr>"
  let ?c = "\<lparr>ctx_addr = next_addr mgr, certificate = current st,
             ticketManager = setupTicketManager seeds\<rparr>"
  obtain r1 cs1 mgr1 where s1: "ctxSetupByOpensslFeature ?c cfg cs ?mgr0 = (r1, cs1, mgr1)"
    by (cases "ctxSetupByOpensslFeature ?c cfg cs ?mgr0") auto
  obtain r2 cs2 where s2: "insertSSLCtx (this_strict mgr1) ?c (isDefault cfg) cs1 = (r2, cs2)"
    by (cases "insertSSLCtx (this_strict mgr1) ?c (isDefault cfg) cs1") auto
  note res = build_late_result [OF late s1 s2]
  note a = ctxSetup_cases [OF s1]
  show ?thesis
  proof (cases r1)
    case (Inl err)
    with a have "err = MultipleDefault" by simp
    with res b Inl show ?thesis by simp
  next
    case r1: (Inr u)
    show ?thesis
    proof (cases r2)
      case (Inl ie2)
      with res b r1 have e: "cs' = cs2" by simp
      from s2 Inl have "insertSSLCtx (this_strict mgr1) ?c (isDefault cfg) cs1 = (Inl ie2, cs2)"
        by simp
      note f = insertSSLCtx_fail_frame [OF this]
      from a r1 have g: "ctxs cs1 = ctxs cs" "defaultCtxDomainName cs1 = defaultCtxDomainName cs"
        "if isDefault cfg then defaultCtx cs = None \<and> defaultCtx cs1 = Some ?c else cs1 = cs"
        by simp_all
      show ?thesis
      proof (cases "isDefault cfg")
        case True
        with g(3) have "defaultCtx cs = None" "defaultCtx cs1 = Some ?c" by simp_all
        with f g(1,2) e True show ?thesis by simp
      next
        case False
        with g(3) have "cs1 = cs" by simp
        with f e False show ?thesis by simp
      qed
    next
      case (Inr u2)
      with res b r1 show ?thesis by simp
    qed
  qed
qed

lemma build_keeps_default_domain:
  assumes inv: "defaultDomainRecorded cs"
      and b: "buildSSLContext e cfg seeds cs mgr = (r, cs', mgr')"
      and ok: "\<not> (isDefault cfg \<and> (\<exists>ie. r = Inl (ErrorAddingCertificate ie)))"
  shows "defaultDomainRecorded cs'"
proof (cases r)
  case (Inr u)
  with b have "buildSSLContext e cfg seeds cs mgr = (Inr u, cs', mgr')" by simp
  with inv show ?thesis by (rule build_default_domain)
next
  case (Inl err)
  show ?thesis
  proof (cases "\<exists>ie. err = ErrorAddingCertificate ie")
    case False
    from b Inl have "buildSSLContext e cfg seeds cs mgr = (Inl err, cs', mgr')" by simp
    from build_fail_early [OF this] False have eq: "cs' = cs" by blast
    from inv show ?thesis unfolding eq .
  next
    case True
    then obtain ie where ie: "err = ErrorAddingCertificate ie" by blast
    with ok Inl have nd: "\<not> isDefault cfg" by blast
    from b Inl ie have "buildSSLContext e cfg seeds cs mgr
                          = (Inl (ErrorAddingCertificate ie), cs', mgr')" by simp
    from build_insert_fail [OF this] nd have eq: "defaultCtx cs' = defaultCtx cs"
      "defaultCtxDomainName cs' = defaultCtxDomainName cs" by simp_all
    from inv show ?thesis unfolding eq .
  qed
qed

lemma add_live_unfold:
  assumes "addSSLContextConfig e cfg seeds None mgr = (r, cs', mgr')"
  obtains m where "buildSSLContext e cfg seeds (this_contexts mgr) mgr = (r, cs', m)"
    "mgr' = m\<lparr>this_contexts := cs'\<rparr>"
proof -
  obtain r1 cs1 m1 where b: "buildSSLContext e cfg seeds (this_contexts mgr) mgr = (r1, cs1, m1)"
    by (cases "buildSSLContext e cfg seeds (this_contexts mgr) mgr") auto
  with assms have "r1 = r" "cs1 = cs'" "mgr' = m1\<lparr>this_contexts := cs'\<rparr>"
    by (auto simp add: addSSLContextConfig_def)
  with b that show ?thesis by blast
qed

lemma reset_default_domain:
  fixes mgr mgr' :: "'h SSLContextManager" and ctxConfigs :: "'h SSLContextConfig list"
  assumes ok: "resetSSLContextConfigs e ctxConfigs ticketSeeds mgr = (Inr u', mgr')"
  shows "defaultDomainRecorded (this_contexts mgr')"
proof -
  let ?s = "Some (case ticketSeeds of
                    Some s \<Rightarrow> s
                  | None \<Rightarrow> findTicketSeeds (ctxs (this_contexts mgr)) emptySeeds)"
  from ok obtain built m where
    a: "addAll e ctxConfigs ?s emptySslContexts mgr = (Inr (), built, m)"
    and m: "mgr' = m\<lparr>this_contexts := built\<rparr>"
    by (rule reset_ok)
  have "defaultDomainRecorded built"
  proof (rule addAll_invariant [where Q = defaultDomainRecorded, OF _ _ a])
    show "defaultDomainRecorded emptySslContexts" by (simp add: emptySslContexts_def)
  next
    fix cfg :: "'h SSLContextConfig" and cs mgr0 u cs' mgr1
    assume "defaultDomainRecorded cs" and "buildSSLContext e cfg ?s cs mgr0 = (Inr u, cs', mgr1)"
    then show "defaultDomainRecorded cs'" by (rule build_default_domain)
  qed
  moreover from m have "this_contexts mgr' = built" by simp
  ultimately show ?thesis by (simp only:)
qed

section \<open>The claims\<close>

subsection \<open>C10: a name without a dot has no wildcard match\<close>

text \<open>
  C10. For every lookup key whose domain name contains no \<open>.\<close>, the suffix (wildcard)
  lookup returns no context, at either crypto tier; the lookup \<open>getSSLCtx\<close> of such a
  key is decided by the exact entry of the index alone.
\<close>

theorem suffix_lookup_needs_dot:
  assumes "CHR ''.'' \<notin> set n"
  shows "getSSLCtxBySuffix contexts \<lparr>dnString = n, certCrypto = t\<rparr> = None
       \<and> getSSLCtx contexts \<lparr>dnString = n, certCrypto = t\<rparr>
           = dnMap contexts \<lparr>dnString = n, certCrypto = t\<rparr>"
  using assms
  by (simp add: getSSLCtxBySuffix_def getSSLCtx_def getSSLCtxByExactDomain_def find_first_of_def
      split: option.splits)

theorem suffix_lookup_needs_dot_witness:
  "CHR ''.'' \<notin> set ''localhost''
   \<and> (getSSLCtxBySuffix (this_contexts (live_fx None))
         \<lparr>dnString = ''localhost'', certCrypto = SHA1_SIGNATURE\<rparr> = None
      \<and> getSSLCtx (this_contexts (live_fx None))
           \<lparr>dnString = ''localhost'', certCrypto = SHA1_SIGNATURE\<rparr>
         = dnMap (this_contexts (live_fx None))
             \<lparr>dnString = ''localhost'', certCrypto = SHA1_SIGNATURE\<rparr>)"
proof -
  have h: "CHR ''.'' \<notin> set ''localhost''" by simp
  note c = suffix_lookup_needs_dot [OF h, of "this_contexts (live_fx None)" SHA1_SIGNATURE]
  from h c show ?thesis by (rule conjI)
qed

subsection \<open>C2: the crypto tier the callback requests\<close>

text \<open>
  C2. The requested tier is \<open>BEST_AVAILABLE\<close> when the socket has no ClientHello
  information. With ClientHello information, the scan of the signature algorithms
  leaves \<open>SHA1_SIGNATURE\<close> exactly when no entry has the hash SHA-256; the tier the
  callback uses is \<open>SHA1_SIGNATURE\<close> exactly when, in addition, the extension list does
  not contain \<open>SERVER_NAME\<close>; and a ClientHello with the \<open>SERVER_NAME\<close> extension gets
  \<open>BEST_AVAILABLE\<close> whatever its signature algorithms are.
\<close>

theorem certCryptoReqOf_cases:
  "certCryptoReqOf None = BEST_AVAILABLE
   \<and> (scanSigAlgs (clientHelloSigAlgs info) SHA1_SIGNATURE = SHA1_SIGNATURE
        \<longleftrightarrow> SHA256 \<notin> fst ` set (clientHelloSigAlgs info))
   \<and> (certCryptoReqOf (Some info) = SHA1_SIGNATURE
        \<longleftrightarrow> SHA256 \<notin> fst ` set (clientHelloSigAlgs info)
            \<and> SERVER_NAME \<notin> set (clientHelloExtensions info))
   \<and> (SERVER_NAME \<in> set (clientHelloExtensions info)
        \<longrightarrow> certCryptoReqOf (Some info) = BEST_AVAILABLE)"
  by (simp add: certCryptoReqOf_def Let_def scanSigAlgs_weak_iff)

theorem certCryptoReqOf_cases_witness:
  "SERVER_NAME \<in> set (clientHelloExtensions (hello_fx [0, 13]))
   \<and> SHA256 \<notin> fst ` set (clientHelloSigAlgs (hello_fx [0, 13]))
   \<and> certCryptoReqOf (Some (hello_fx [0, 13])) = BEST_AVAILABLE
   \<and> certCryptoReqOf (Some (hello_fx [13])) = SHA1_SIGNATURE"
proof -
  have h1: "SERVER_NAME \<in> set (clientHelloExtensions (hello_fx [0, 13]))"
    by (simp add: hello_fx_def SERVER_NAME_def)
  have h2: "SHA256 \<notin> fst ` set (clientHelloSigAlgs (hello_fx exts))" for exts
    by (simp add: hello_fx_def SHA256_def)
  have h3: "SERVER_NAME \<notin> set (clientHelloExtensions (hello_fx [13]))"
    by (simp add: hello_fx_def SERVER_NAME_def)
  from certCryptoReqOf_cases [of "hello_fx [0, 13]"] h1
  have c1: "certCryptoReqOf (Some (hello_fx [0, 13])) = BEST_AVAILABLE" by blast
  from certCryptoReqOf_cases [of "hello_fx [13]"] h2 h3
  have c2: "certCryptoReqOf (Some (hello_fx [13])) = SHA1_SIGNATURE" by blast
  from h1 h2 c1 c2 show ?thesis by blast
qed

subsection \<open>C3: insertion of a name at the tier of the certificate\<close>

text \<open>
  C3. When \<open>insertSSLCtxByDomainNameImpl\<close> accepts a name (\<open>name\<close> is the name after
  the leading \<open>*\<close> of a wildcard is skipped) for a context of tier \<open>crypto\<close>:
  the entry at (name, crypto) points to the context afterwards, and an entry held there
  by another context is replaced by it (overwrite); if the tier is \<open>SHA1_SIGNATURE\<close>,
  the entry at (name, \<open>BEST_AVAILABLE\<close>) is the entry that was there before, and the
  context only when there was none (no overwrite); and inserting the same context under
  the same name again leaves the context set as it is.
\<close>

theorem insert_by_domain_name_tiers:
  assumes ins: "insertSSLCtxByDomainNameImpl dn sslCtx contexts crypto = Inr contexts'"
      and name: "stripWildcard dn = Inr name"
  shows "map_option ctx_addr (dnMap contexts' \<lparr>dnString = DNString name, certCrypto = crypto\<rparr>)
           = Some (ctx_addr sslCtx)
       \<and> ((\<forall>v. dnMap contexts \<lparr>dnString = DNString name, certCrypto = crypto\<rparr> = Some v
                \<longrightarrow> ctx_addr v \<noteq> ctx_addr sslCtx)
            \<longrightarrow> dnMap contexts' \<lparr>dnString = DNString name, certCrypto = crypto\<rparr> = Some sslCtx)
       \<and> (crypto = SHA1_SIGNATURE
            \<longrightarrow> dnMap contexts' \<lparr>dnString = DNString name, certCrypto = BEST_AVAILABLE\<rparr>
                = (case dnMap contexts \<lparr>dnString = DNString name, certCrypto = BEST_AVAILABLE\<rparr> of
                     Some best \<Rightarrow> Some best
                   | None \<Rightarrow> Some sslCtx))
       \<and> insertSSLCtxByDomainNameImpl dn sslCtx contexts' crypto = Inr contexts'"
proof -
  let ?k = "\<lparr>dnString = DNString name, certCrypto = crypto\<rparr>"
  let ?b = "\<lparr>dnString = DNString name, certCrypto = BEST_AVAILABLE\<rparr>"
  note u = insertImpl_unfold [OF name ins]
  show ?thesis
  proof (cases crypto)
    case BEST_AVAILABLE
    then have c': "contexts' = insertIntoDnMap ?k sslCtx True contexts"
      using u(1) by simp
    have idem: "insertSSLCtxByDomainNameImpl dn sslCtx contexts' crypto = Inr contexts'"
      using insertImpl_fold [OF name u(2) u(3), of sslCtx contexts' crypto] BEST_AVAILABLE
      by (simp add: c' insertIntoDnMap_idem)
    show ?thesis
      using BEST_AVAILABLE idem
      by (auto simp: c' insertIntoDnMap_overwrite split: option.splits)
  next
    case SHA1_SIGNATURE
    then have ne: "?b \<noteq> ?k" by simp
    have c': "contexts' = insertIntoDnMap ?b sslCtx False (insertIntoDnMap ?k sslCtx True contexts)"
      using u(1) SHA1_SIGNATURE by simp
    have idem: "insertSSLCtxByDomainNameImpl dn sslCtx contexts' crypto = Inr contexts'"
      using insertImpl_fold [OF name u(2) u(3), of sslCtx contexts' crypto] SHA1_SIGNATURE ne
      by (simp add: c' insertIntoDnMap_idem insertIntoDnMap_commute_idem)
    have k: "dnMap contexts' ?k = dnMap (insertIntoDnMap ?k sslCtx True contexts) ?k"
      unfolding c' using ne by (simp add: insertIntoDnMap_other)
    have b: "dnMap contexts' ?b =
               (case dnMap contexts ?b of Some best \<Rightarrow> Some best | None \<Rightarrow> Some sslCtx)"
      unfolding c' using ne by (simp add: insertIntoDnMap_keep insertIntoDnMap_other)
    show ?thesis
      using idem b k SHA1_SIGNATURE
      by (auto simp: insertIntoDnMap_overwrite split: option.splits)
  qed
qed



theorem insert_by_domain_name_tiers_witness:
  "stripWildcard ''a.example'' = Inr ''a.example''
   \<and> insertSSLCtxByDomainNameImpl ''a.example'' (ctx_fx 7 ''a.example'' 65)
         (this_contexts (live_fx None)) SHA1_SIGNATURE
       = Inr (insertIntoDnMap \<lparr>dnString = DNString ''a.example'', certCrypto = BEST_AVAILABLE\<rparr>
                (ctx_fx 7 ''a.example'' 65) False
                (insertIntoDnMap \<lparr>dnString = DNString ''a.example'', certCrypto = SHA1_SIGNATURE\<rparr>
                   (ctx_fx 7 ''a.example'' 65) True (this_contexts (live_fx None))))
   \<and> dnMap (this_contexts (live_fx None))
         \<lparr>dnString = DNString ''a.example'', certCrypto = SHA1_SIGNATURE\<rparr> = None
   \<and> dnMap (this_contexts (live_fx None))
         \<lparr>dnString = DNString ''a.example'', certCrypto = BEST_AVAILABLE\<rparr>
       = Some (ctx_fx 0 ''a.example'' 668)
   \<and> dnMap (insertIntoDnMap \<lparr>dnString = DNString ''a.example'', certCrypto = BEST_AVAILABLE\<rparr>
                (ctx_fx 7 ''a.example'' 65) False
                (insertIntoDnMap \<lparr>dnString = DNString ''a.example'', certCrypto = SHA1_SIGNATURE\<rparr>
                   (ctx_fx 7 ''a.example'' 65) True (this_contexts (live_fx None))))
         \<lparr>dnString = DNString ''a.example'', certCrypto = SHA1_SIGNATURE\<rparr>
       = Some (ctx_fx 7 ''a.example'' 65)
   \<and> dnMap (insertIntoDnMap \<lparr>dnString = DNString ''a.example'', certCrypto = BEST_AVAILABLE\<rparr>
                (ctx_fx 7 ''a.example'' 65) False
                (insertIntoDnMap \<lparr>dnString = DNString ''a.example'', certCrypto = SHA1_SIGNATURE\<rparr>
                   (ctx_fx 7 ''a.example'' 65) True (this_contexts (live_fx None))))
         \<lparr>dnString = DNString ''a.example'', certCrypto = BEST_AVAILABLE\<rparr>
       = Some (ctx_fx 0 ''a.example'' 668)"
proof -
  let ?c = "ctx_fx 7 ''a.example'' 65"
  let ?cs = "this_contexts (live_fx None)"
  let ?k = "\<lparr>dnString = DNString ''a.example'', certCrypto = SHA1_SIGNATURE\<rparr>"
  let ?b = "\<lparr>dnString = DNString ''a.example'', certCrypto = BEST_AVAILABLE\<rparr>"
  let ?cs' = "insertIntoDnMap ?b ?c False (insertIntoDnMap ?k ?c True ?cs)"
  have name: "stripWildcard ''a.example'' = Inr ''a.example''"
    by (simp add: stripWildcard_def)
  have ins: "insertSSLCtxByDomainNameImpl ''a.example'' ?c ?cs SHA1_SIGNATURE = Inr ?cs'"
    using insertImpl_fold [OF name, of ?c ?cs SHA1_SIGNATURE] by (simp add: c_str_def)
  have weak: "dnMap ?cs ?k = None" by code_simp
  have best: "dnMap ?cs ?b = Some (ctx_fx 0 ''a.example'' 668)" by code_simp
  note t = insert_by_domain_name_tiers [OF ins name]
  from t weak have c1: "dnMap ?cs' ?k = Some ?c" by simp
  from t best have c2: "dnMap ?cs' ?b = Some (ctx_fx 0 ''a.example'' 668)" by simp
  from name ins weak best c1 c2 show ?thesis by blast
qed

subsection \<open>C7: a wildcard matches one label\<close>

text \<open>
  C7. Let \<open>x\<close> and \<open>y\<close> be labels (strings without a dot). Inserting the identity
  \<open>*.d\<close> stores the context under the suffix key \<open>.d\<close>. When the index holds a
  context under \<open>.d\<close> at tier \<open>t\<close> and no exact entry for \<open>x.d\<close>, the lookup of
  \<open>x.d\<close> at tier \<open>t\<close> returns that context, and the callback for the SNI \<open>x.d\<close>
  finds it: at the requested tier, or, for a request at \<open>SHA1_SIGNATURE\<close> with no entry
  for \<open>.d\<close> at that tier, at \<open>BEST_AVAILABLE\<close>. The suffix lookup of \<open>x.y.d\<close> reads the key \<open>.y.d\<close>, the name from its first
  dot on, which is never the key \<open>.d\<close>: when the index has no entry for \<open>x.y.d\<close> and
  none for \<open>.y.d\<close> and no hook is installed, the callback for the SNI \<open>x.y.d\<close> finds
  nothing, whatever the index holds under \<open>.d\<close>.
\<close>

theorem one_label_wildcard:
  fixes run :: "'h \<Rightarrow> string \<Rightarrow> 'h SSLContextManager \<Rightarrow> bool \<times> 'h SSLContextManager"
    and mgr :: "'h SSLContextManager" and ssl ssl' :: SSL
  assumes x: "CHR ''.'' \<notin> set x" and y: "CHR ''.'' \<notin> set y"
  shows "(insertSSLCtxByDomainNameImpl (''*.'' @ d) w contexts0 t = Inr contexts1
            \<longrightarrow> map_option ctx_addr
                  (dnMap contexts1 \<lparr>dnString = DNString (''.'' @ d), certCrypto = t\<rparr>)
                = Some (ctx_addr w))
       \<and> (dnMap contexts \<lparr>dnString = DNString (''.'' @ d), certCrypto = t\<rparr> = Some w
            \<and> dnMap contexts \<lparr>dnString = DNString (x @ ''.'' @ d), certCrypto = t\<rparr> = None
            \<longrightarrow> getSSLCtx contexts \<lparr>dnString = DNString (x @ ''.'' @ d), certCrypto = t\<rparr> = Some w)
       \<and> getSSLCtxBySuffix contexts
            \<lparr>dnString = DNString (x @ ''.'' @ y @ ''.'' @ d), certCrypto = t\<rparr>
           = dnMap contexts \<lparr>dnString = DNString (''.'' @ y @ ''.'' @ d), certCrypto = t\<rparr>
       \<and> DNString (''.'' @ y @ ''.'' @ d) \<noteq> DNString (''.'' @ d)
       \<and> (servername ssl = Some (x @ ''.'' @ d) \<and> CHR 0x00 \<notin> set (x @ ''.'' @ d)
            \<and> dnMap (this_contexts mgr)
                 \<lparr>dnString = DNString (''.'' @ d),
                  certCrypto = certCryptoReqOf (clientHelloInfo ssl)\<rparr> = Some w
            \<and> dnMap (this_contexts mgr)
                 \<lparr>dnString = DNString (x @ ''.'' @ d),
                  certCrypto = certCryptoReqOf (clientHelloInfo ssl)\<rparr> = None
            \<longrightarrow> result (serverNameCallback run ssl mgr) = SERVER_NAME_FOUND
                \<and> switched (serverNameCallback run ssl mgr) = Some w)
       \<and> (servername ssl = Some (x @ ''.'' @ d) \<and> CHR 0x00 \<notin> set (x @ ''.'' @ d)
            \<and> certCryptoReqOf (clientHelloInfo ssl) = SHA1_SIGNATURE
            \<and> dnMap (this_contexts mgr)
                 \<lparr>dnString = DNString (x @ ''.'' @ d), certCrypto = SHA1_SIGNATURE\<rparr> = None
            \<and> dnMap (this_contexts mgr)
                 \<lparr>dnString = DNString (''.'' @ d), certCrypto = SHA1_SIGNATURE\<rparr> = None
            \<and> dnMap (this_contexts mgr)
                 \<lparr>dnString = DNString (x @ ''.'' @ d), certCrypto = BEST_AVAILABLE\<rparr> = None
            \<and> dnMap (this_contexts mgr)
                 \<lparr>dnString = DNString (''.'' @ d), certCrypto = BEST_AVAILABLE\<rparr> = Some w
            \<longrightarrow> result (serverNameCallback run ssl mgr) = SERVER_NAME_FOUND
                \<and> switched (serverNameCallback run ssl mgr) = Some w)
       \<and> (servername ssl' = Some (x @ ''.'' @ y @ ''.'' @ d)
            \<and> CHR 0x00 \<notin> set (x @ ''.'' @ y @ ''.'' @ d)
            \<and> this_noMatchFn mgr = None
            \<and> dnMap (this_contexts mgr)
                 \<lparr>dnString = DNString (x @ ''.'' @ y @ ''.'' @ d), certCrypto = SHA1_SIGNATURE\<rparr> = None
            \<and> dnMap (this_contexts mgr)
                 \<lparr>dnString = DNString (x @ ''.'' @ y @ ''.'' @ d), certCrypto = BEST_AVAILABLE\<rparr> = None
            \<and> dnMap (this_contexts mgr)
                 \<lparr>dnString = DNString (''.'' @ y @ ''.'' @ d), certCrypto = SHA1_SIGNATURE\<rparr> = None
            \<and> dnMap (this_contexts mgr)
                 \<lparr>dnString = DNString (''.'' @ y @ ''.'' @ d), certCrypto = BEST_AVAILABLE\<rparr> = None
            \<longrightarrow> result (serverNameCallback run ssl' mgr) = SERVER_NAME_NOT_FOUND
                \<and> switched (serverNameCallback run ssl' mgr) = None)"
proof (intro conjI impI)
  assume "insertSSLCtxByDomainNameImpl (''*.'' @ d) w contexts0 t = Inr contexts1"
  then show "map_option ctx_addr
                  (dnMap contexts1 \<lparr>dnString = DNString (''.'' @ d), certCrypto = t\<rparr>)
                = Some (ctx_addr w)"
    using insert_wildcard_key [of d w contexts0 t contexts1] by simp
next
  assume "dnMap contexts \<lparr>dnString = DNString (''.'' @ d), certCrypto = t\<rparr> = Some w
            \<and> dnMap contexts \<lparr>dnString = DNString (x @ ''.'' @ d), certCrypto = t\<rparr> = None"
  then show "getSSLCtx contexts \<lparr>dnString = DNString (x @ ''.'' @ d), certCrypto = t\<rparr> = Some w"
    using suffix_key [OF x, of contexts d t]
    by (simp add: getSSLCtx_def getSSLCtxByExactDomain_def)
next
  show "getSSLCtxBySuffix contexts
            \<lparr>dnString = DNString (x @ ''.'' @ y @ ''.'' @ d), certCrypto = t\<rparr>
           = dnMap contexts \<lparr>dnString = DNString (''.'' @ y @ ''.'' @ d), certCrypto = t\<rparr>"
    using suffix_key [OF x, of contexts "y @ ''.'' @ d" t] by simp
next
  show "DNString (''.'' @ y @ ''.'' @ d) \<noteq> DNString (''.'' @ d)"
    using DNString_longer [of y d] by simp
next
  let ?t = "certCryptoReqOf (clientHelloInfo ssl)"
  assume a: "servername ssl = Some (x @ ''.'' @ d) \<and> CHR 0x00 \<notin> set (x @ ''.'' @ d)
            \<and> dnMap (this_contexts mgr) \<lparr>dnString = DNString (''.'' @ d), certCrypto = ?t\<rparr> = Some w
            \<and> dnMap (this_contexts mgr) \<lparr>dnString = DNString (x @ ''.'' @ d), certCrypto = ?t\<rparr> = None"
  then have sn: "c_str (x @ ''.'' @ d) = x @ ''.'' @ d"
    by (intro c_str_no_nul) simp
  from a have g: "getSSLCtx (this_contexts mgr)
                    \<lparr>dnString = DNString (x @ ''.'' @ d), certCrypto = ?t\<rparr> = Some w"
    using suffix_key [OF x, of "this_contexts mgr" d ?t]
    by (simp add: getSSLCtx_def getSSLCtxByExactDomain_def)
  have out: "serverNameCallback run ssl mgr
          = (sni_found mgr True w ?t ?t)\<lparr>stats := stats (sni_found mgr True w ?t ?t)\<rparr>"
    using a sn sni_loop_found_req [OF g, of run "x @ ''.'' @ d" True 0]
    by (simp add: serverNameCallback_def Let_def)
  show "result (serverNameCallback run ssl mgr) = SERVER_NAME_FOUND"
    unfolding out by (simp add: sni_found_def)
  show "switched (serverNameCallback run ssl mgr) = Some w"
    unfolding out by (simp add: sni_found_def)
next
  let ?n = "x @ ''.'' @ d"
  assume a: "servername ssl = Some ?n \<and> CHR 0x00 \<notin> set ?n
            \<and> certCryptoReqOf (clientHelloInfo ssl) = SHA1_SIGNATURE
            \<and> dnMap (this_contexts mgr) \<lparr>dnString = DNString ?n, certCrypto = SHA1_SIGNATURE\<rparr> = None
            \<and> dnMap (this_contexts mgr)
                 \<lparr>dnString = DNString (''.'' @ d), certCrypto = SHA1_SIGNATURE\<rparr> = None
            \<and> dnMap (this_contexts mgr) \<lparr>dnString = DNString ?n, certCrypto = BEST_AVAILABLE\<rparr> = None
            \<and> dnMap (this_contexts mgr)
                 \<lparr>dnString = DNString (''.'' @ d), certCrypto = BEST_AVAILABLE\<rparr> = Some w"
  then have sn: "c_str ?n = ?n"
    by (intro c_str_no_nul) simp
  from a have g1: "getSSLCtx (this_contexts mgr)
                     \<lparr>dnString = DNString ?n, certCrypto = SHA1_SIGNATURE\<rparr> = None"
    using suffix_key [OF x, of "this_contexts mgr" d SHA1_SIGNATURE]
    by (simp add: getSSLCtx_def getSSLCtxByExactDomain_def)
  from a have g2: "getSSLCtx (this_contexts mgr)
                     \<lparr>dnString = DNString ?n, certCrypto = BEST_AVAILABLE\<rparr> = Some w"
    using suffix_key [OF x, of "this_contexts mgr" d BEST_AVAILABLE]
    by (simp add: getSSLCtx_def getSSLCtxByExactDomain_def)
  have ne: "SHA1_SIGNATURE \<noteq> BEST_AVAILABLE" by simp
  have out: "serverNameCallback run ssl mgr
          = (sni_found mgr True w SHA1_SIGNATURE BEST_AVAILABLE)
              \<lparr>stats := stats (sni_found mgr True w SHA1_SIGNATURE BEST_AVAILABLE)\<rparr>"
    using a sn sni_loop_found_best [OF g1 ne g2, of run ?n True 0]
    by (simp add: serverNameCallback_def Let_def)
  show "result (serverNameCallback run ssl mgr) = SERVER_NAME_FOUND"
    unfolding out by (simp add: sni_found_def)
  show "switched (serverNameCallback run ssl mgr) = Some w"
    unfolding out by (simp add: sni_found_def)
next
  let ?n = "x @ ''.'' @ y @ ''.'' @ d"
  let ?t = "certCryptoReqOf (clientHelloInfo ssl')"
  assume a: "servername ssl' = Some ?n \<and> CHR 0x00 \<notin> set ?n \<and> this_noMatchFn mgr = None
            \<and> dnMap (this_contexts mgr) \<lparr>dnString = DNString ?n, certCrypto = SHA1_SIGNATURE\<rparr> = None
            \<and> dnMap (this_contexts mgr) \<lparr>dnString = DNString ?n, certCrypto = BEST_AVAILABLE\<rparr> = None
            \<and> dnMap (this_contexts mgr)
                 \<lparr>dnString = DNString (''.'' @ y @ ''.'' @ d), certCrypto = SHA1_SIGNATURE\<rparr> = None
            \<and> dnMap (this_contexts mgr)
                 \<lparr>dnString = DNString (''.'' @ y @ ''.'' @ d), certCrypto = BEST_AVAILABLE\<rparr> = None"
  then have sn: "c_str ?n = ?n"
    by (intro c_str_no_nul) simp
  have g: "getSSLCtx (this_contexts mgr) \<lparr>dnString = DNString ?n, certCrypto = t'\<rparr> = None" for t'
    using suffix_key [OF x, of "this_contexts mgr" "y @ ''.'' @ d" t'] a
    by (cases t') (simp_all add: getSSLCtx_def getSSLCtxByExactDomain_def)
  have out: "serverNameCallback run ssl' mgr
          = (sni_not_found mgr True)\<lparr>stats := stats (sni_not_found mgr True)\<rparr>"
    using a sn sni_loop_fail_first [of mgr "DNString ?n" ?t run ?n True] g
    by (simp add: serverNameCallback_def Let_def)
  show "result (serverNameCallback run ssl' mgr) = SERVER_NAME_NOT_FOUND"
    unfolding out by (simp add: sni_not_found_def)
  show "switched (serverNameCallback run ssl' mgr) = None"
    unfolding out by (simp add: sni_not_found_def)
qed


theorem one_label_wildcard_witness:
  "CHR ''.'' \<notin> set ''x'' \<and> CHR ''.'' \<notin> set ''y''
   \<and> insertSSLCtxByDomainNameImpl (''*.'' @ ''d.example'') (ctx_fx 1 ''*.d.example'' 65)
         emptySslContexts SHA1_SIGNATURE
       = Inr (insertIntoDnMap
                \<lparr>dnString = DNString (''.'' @ ''d.example''), certCrypto = BEST_AVAILABLE\<rparr>
                (ctx_fx 1 ''*.d.example'' 65) False
                (insertIntoDnMap
                   \<lparr>dnString = DNString (''.'' @ ''d.example''), certCrypto = SHA1_SIGNATURE\<rparr>
                   (ctx_fx 1 ''*.d.example'' 65) True emptySslContexts))
   \<and> servername (ssl_fx (Some ''x.d.example'') [13]) = Some (''x'' @ ''.'' @ ''d.example'')
   \<and> CHR 0x00 \<notin> set (''x'' @ ''.'' @ ''d.example'')
   \<and> dnMap (this_contexts (live_fx None))
        \<lparr>dnString = DNString (''.'' @ ''d.example''),
         certCrypto = certCryptoReqOf (clientHelloInfo (ssl_fx (Some ''x.d.example'') [13]))\<rparr>
       = Some (ctx_fx 1 ''*.d.example'' 65)
   \<and> dnMap (this_contexts (live_fx None))
        \<lparr>dnString = DNString (''x'' @ ''.'' @ ''d.example''),
         certCrypto = certCryptoReqOf (clientHelloInfo (ssl_fx (Some ''x.d.example'') [13]))\<rparr>
       = None
   \<and> result (serverNameCallback run_fx (ssl_fx (Some ''x.d.example'') [13]) (live_fx None))
       = SERVER_NAME_FOUND
   \<and> switched (serverNameCallback run_fx (ssl_fx (Some ''x.d.example'') [13]) (live_fx None))
       = Some (ctx_fx 1 ''*.d.example'' 65)
   \<and> servername (ssl_fx (Some ''x.e.example'') [13]) = Some (''x'' @ ''.'' @ ''e.example'')
   \<and> certCryptoReqOf (clientHelloInfo (ssl_fx (Some ''x.e.example'') [13])) = SHA1_SIGNATURE
   \<and> dnMap (this_contexts (live_fx None))
        \<lparr>dnString = DNString (''.'' @ ''e.example''), certCrypto = SHA1_SIGNATURE\<rparr> = None
   \<and> dnMap (this_contexts (live_fx None))
        \<lparr>dnString = DNString (''.'' @ ''e.example''), certCrypto = BEST_AVAILABLE\<rparr>
       = Some (ctx_fx 2 ''*.e.example'' 668)
   \<and> switched (serverNameCallback run_fx (ssl_fx (Some ''x.e.example'') [13]) (live_fx None))
       = Some (ctx_fx 2 ''*.e.example'' 668)
   \<and> servername (ssl_fx (Some ''x.y.d.example'') [13])
       = Some (''x'' @ ''.'' @ ''y'' @ ''.'' @ ''d.example'')
   \<and> CHR 0x00 \<notin> set (''x'' @ ''.'' @ ''y'' @ ''.'' @ ''d.example'')
   \<and> this_noMatchFn (live_fx None) = None
   \<and> result (serverNameCallback run_fx (ssl_fx (Some ''x.y.d.example'') [13]) (live_fx None))
       = SERVER_NAME_NOT_FOUND
   \<and> switched (serverNameCallback run_fx (ssl_fx (Some ''x.y.d.example'') [13]) (live_fx None))
       = None"
proof -
  let ?w = "ctx_fx 1 ''*.d.example'' 65"
  let ?ssl = "ssl_fx (Some ''x.d.example'') [13]"
  let ?ssl' = "ssl_fx (Some ''x.y.d.example'') [13]"
  let ?cs = "this_contexts (live_fx None)"
  have x: "CHR ''.'' \<notin> set ''x''" and y: "CHR ''.'' \<notin> set ''y''" by simp_all
  have name: "stripWildcard (''*.'' @ ''d.example'') = Inr (''.'' @ ''d.example'')"
    by (simp add: stripWildcard_def)
  have ins: "insertSSLCtxByDomainNameImpl (''*.'' @ ''d.example'') ?w emptySslContexts
               SHA1_SIGNATURE
       = Inr (insertIntoDnMap
                \<lparr>dnString = DNString (''.'' @ ''d.example''), certCrypto = BEST_AVAILABLE\<rparr>
                ?w False
                (insertIntoDnMap
                   \<lparr>dnString = DNString (''.'' @ ''d.example''), certCrypto = SHA1_SIGNATURE\<rparr>
                   ?w True emptySslContexts))"
    using insertImpl_fold [OF name, of ?w emptySslContexts SHA1_SIGNATURE]
    by (simp add: c_str_def)
  have s1: "servername ?ssl = Some (''x'' @ ''.'' @ ''d.example'')"
    by (simp add: ssl_fx_def)
  have n1: "CHR 0x00 \<notin> set (''x'' @ ''.'' @ ''d.example'')" by simp
  have w1: "dnMap ?cs \<lparr>dnString = DNString (''.'' @ ''d.example''),
                       certCrypto = certCryptoReqOf (clientHelloInfo ?ssl)\<rparr> = Some ?w"
    by code_simp
  have e1: "dnMap ?cs \<lparr>dnString = DNString (''x'' @ ''.'' @ ''d.example''),
                       certCrypto = certCryptoReqOf (clientHelloInfo ?ssl)\<rparr> = None"
    by code_simp
  have s2: "servername ?ssl' = Some (''x'' @ ''.'' @ ''y'' @ ''.'' @ ''d.example'')"
    by (simp add: ssl_fx_def)
  have n2: "CHR 0x00 \<notin> set (''x'' @ ''.'' @ ''y'' @ ''.'' @ ''d.example'')" by simp
  have h2: "this_noMatchFn (live_fx None) = None" by code_simp
  have e2: "dnMap ?cs \<lparr>dnString = DNString (''x'' @ ''.'' @ ''y'' @ ''.'' @ ''d.example''),
                       certCrypto = SHA1_SIGNATURE\<rparr> = None"
       "dnMap ?cs \<lparr>dnString = DNString (''x'' @ ''.'' @ ''y'' @ ''.'' @ ''d.example''),
                       certCrypto = BEST_AVAILABLE\<rparr> = None"
       "dnMap ?cs \<lparr>dnString = DNString (''.'' @ ''y'' @ ''.'' @ ''d.example''),
                       certCrypto = SHA1_SIGNATURE\<rparr> = None"
       "dnMap ?cs \<lparr>dnString = DNString (''.'' @ ''y'' @ ''.'' @ ''d.example''),
                       certCrypto = BEST_AVAILABLE\<rparr> = None"
    by code_simp+
  note t = one_label_wildcard [OF x y, where d = "''d.example''" and w = ?w
      and t = SHA1_SIGNATURE and contexts = ?cs and ssl = ?ssl and mgr = "live_fx None"
      and run = run_fx and ssl' = ?ssl']
  from t s1 n1 w1 e1
  have c1: "result (serverNameCallback run_fx ?ssl (live_fx None)) = SERVER_NAME_FOUND
            \<and> switched (serverNameCallback run_fx ?ssl (live_fx None)) = Some ?w"
    by blast
  from t s2 n2 h2 e2
  have c2: "result (serverNameCallback run_fx ?ssl' (live_fx None)) = SERVER_NAME_NOT_FOUND
            \<and> switched (serverNameCallback run_fx ?ssl' (live_fx None)) = None"
    by blast
  let ?v = "ctx_fx 2 ''*.e.example'' 668"
  let ?ssl3 = "ssl_fx (Some ''x.e.example'') [13]"
  have s3: "servername ?ssl3 = Some (''x'' @ ''.'' @ ''e.example'')"
    by (simp add: ssl_fx_def)
  have n3: "CHR 0x00 \<notin> set (''x'' @ ''.'' @ ''e.example'')" by simp
  have t3: "certCryptoReqOf (clientHelloInfo ?ssl3) = SHA1_SIGNATURE" by code_simp
  have e3: "dnMap ?cs \<lparr>dnString = DNString (''x'' @ ''.'' @ ''e.example''),
                       certCrypto = SHA1_SIGNATURE\<rparr> = None"
       "dnMap ?cs \<lparr>dnString = DNString (''.'' @ ''e.example''),
                       certCrypto = SHA1_SIGNATURE\<rparr> = None"
       "dnMap ?cs \<lparr>dnString = DNString (''x'' @ ''.'' @ ''e.example''),
                       certCrypto = BEST_AVAILABLE\<rparr> = None"
       "dnMap ?cs \<lparr>dnString = DNString (''.'' @ ''e.example''),
                       certCrypto = BEST_AVAILABLE\<rparr> = Some ?v"
    by code_simp+
  note t' = one_label_wildcard [OF x y, where d = "''e.example''" and w = ?v
      and ssl = ?ssl3 and mgr = "live_fx None" and run = run_fx]
  from t' s3 n3 t3 e3
  have c3: "switched (serverNameCallback run_fx ?ssl3 (live_fx None)) = Some ?v"
    by blast
  show ?thesis
    using x y ins s1 n1 w1 e1 c1 s2 n2 h2 c2 s3 t3 e3(2) e3(4) c3 by blast
qed


subsection \<open>C1: the order of the lookups\<close>

text \<open>
  C1, as amended. For every ClientHello with name \<open>n\<close> and requested tier \<open>req\<close>, in
  every pass of the callback loop: when the index has an exact entry for \<open>n\<close> at tier
  \<open>req\<close>, the pass returns FOUND and switches the socket to that context; without one,
  it returns FOUND with the wildcard (suffix) entry at tier \<open>req\<close>; only when both are
  missing and \<open>req\<close> is \<open>SHA1_SIGNATURE\<close> does it return FOUND with the exact entry
  at \<open>BEST_AVAILABLE\<close>, and without that with the wildcard entry at
  \<open>BEST_AVAILABLE\<close>; the statistics record the tier used. When no lookup finds a
  context, the pass switches to none (and returns NOT-FOUND when it is the second pass
  or no hook is installed). So within a tier an exact match is returned in preference
  to a wildcard match, and a match at the requested tier, exact or wildcard, is returned
  in preference to every match at the upgraded tier, an exact one included. The last
  four conjuncts say the same of the callback itself, on the name and the tier it takes
  from the ClientHello.
\<close>

theorem lookup_order:
  fixes run :: "'h \<Rightarrow> string \<Rightarrow> 'h SSLContextManager \<Rightarrow> bool \<times> 'h SSLContextManager"
    and mgr :: "'h SSLContextManager"
    and sn n :: string and req :: CertCrypto and has :: bool and count :: nat and ssl :: SSL
  defines "cs \<equiv> this_contexts mgr"
  defines "pass \<equiv> sni_loop run sn n req has count mgr"
  defines "found \<equiv> \<lambda>c used.
             result pass = SERVER_NAME_FOUND \<and> switched pass = Some c
             \<and> noMatchCalls pass = [] \<and> manager pass = mgr
             \<and> stats pass
                 = (if this_clientHelloTLSExtStats mgr
                    then (if has then [RecordMatch] else []) @ [RecordCertCrypto req used]
                    else [])"
  defines "name \<equiv> DNString (case servername ssl of
                                None \<Rightarrow> c_str (defaultCtxDomainName (this_contexts mgr))
                              | Some s \<Rightarrow> c_str s)"
  defines "tier \<equiv> certCryptoReqOf (clientHelloInfo ssl)"
  defines "out \<equiv> serverNameCallback run ssl mgr"
  shows "(getSSLCtxByExactDomain cs \<lparr>dnString = n, certCrypto = req\<rparr> = Some c
            \<longrightarrow> found c req)
       \<and> (getSSLCtxByExactDomain cs \<lparr>dnString = n, certCrypto = req\<rparr> = None
            \<and> getSSLCtxBySuffix cs \<lparr>dnString = n, certCrypto = req\<rparr> = Some c
            \<longrightarrow> found c req)
       \<and> (getSSLCtxByExactDomain cs \<lparr>dnString = n, certCrypto = req\<rparr> = None
            \<and> getSSLCtxBySuffix cs \<lparr>dnString = n, certCrypto = req\<rparr> = None
            \<and> req = SHA1_SIGNATURE
            \<and> getSSLCtxByExactDomain cs \<lparr>dnString = n, certCrypto = BEST_AVAILABLE\<rparr> = Some c
            \<longrightarrow> found c BEST_AVAILABLE)
       \<and> (getSSLCtxByExactDomain cs \<lparr>dnString = n, certCrypto = req\<rparr> = None
            \<and> getSSLCtxBySuffix cs \<lparr>dnString = n, certCrypto = req\<rparr> = None
            \<and> req = SHA1_SIGNATURE
            \<and> getSSLCtxByExactDomain cs \<lparr>dnString = n, certCrypto = BEST_AVAILABLE\<rparr> = None
            \<and> getSSLCtxBySuffix cs \<lparr>dnString = n, certCrypto = BEST_AVAILABLE\<rparr> = Some c
            \<longrightarrow> found c BEST_AVAILABLE)
       \<and> (getSSLCtxByExactDomain cs \<lparr>dnString = n, certCrypto = req\<rparr> = None
            \<and> getSSLCtxBySuffix cs \<lparr>dnString = n, certCrypto = req\<rparr> = None
            \<and> (req = SHA1_SIGNATURE \<longrightarrow>
                 getSSLCtxByExactDomain cs \<lparr>dnString = n, certCrypto = BEST_AVAILABLE\<rparr> = None
                 \<and> getSSLCtxBySuffix cs \<lparr>dnString = n, certCrypto = BEST_AVAILABLE\<rparr> = None)
            \<and> (count \<noteq> 0 \<or> this_noMatchFn mgr = None)
            \<longrightarrow> result pass = SERVER_NAME_NOT_FOUND \<and> switched pass = None
                \<and> noMatchCalls pass = [] \<and> manager pass = mgr)
       \<and> (getSSLCtxByExactDomain cs \<lparr>dnString = name, certCrypto = tier\<rparr> = Some c
            \<longrightarrow> result out = SERVER_NAME_FOUND \<and> switched out = Some c)
       \<and> (getSSLCtxByExactDomain cs \<lparr>dnString = name, certCrypto = tier\<rparr> = None
            \<and> getSSLCtxBySuffix cs \<lparr>dnString = name, certCrypto = tier\<rparr> = Some c
            \<longrightarrow> result out = SERVER_NAME_FOUND \<and> switched out = Some c)
       \<and> (getSSLCtxByExactDomain cs \<lparr>dnString = name, certCrypto = tier\<rparr> = None
            \<and> getSSLCtxBySuffix cs \<lparr>dnString = name, certCrypto = tier\<rparr> = None
            \<and> tier = SHA1_SIGNATURE
            \<and> getSSLCtxByExactDomain cs \<lparr>dnString = name, certCrypto = BEST_AVAILABLE\<rparr>
                = Some c
            \<longrightarrow> result out = SERVER_NAME_FOUND \<and> switched out = Some c)
       \<and> (getSSLCtxByExactDomain cs \<lparr>dnString = name, certCrypto = tier\<rparr> = None
            \<and> getSSLCtxBySuffix cs \<lparr>dnString = name, certCrypto = tier\<rparr> = None
            \<and> tier = SHA1_SIGNATURE
            \<and> getSSLCtxByExactDomain cs \<lparr>dnString = name, certCrypto = BEST_AVAILABLE\<rparr> = None
            \<and> getSSLCtxBySuffix cs \<lparr>dnString = name, certCrypto = BEST_AVAILABLE\<rparr> = Some c
            \<longrightarrow> result out = SERVER_NAME_FOUND \<and> switched out = Some c)"
proof -
  have fields: "found c used" if "pass = sni_found mgr has c req used" for c used
    unfolding found_def that by (simp only: sni_found_fields simp_thms)
  define has0 where "has0 = (servername ssl \<noteq> None)"
  define sn0 where "sn0 = (case servername ssl of
                             None \<Rightarrow> c_str (defaultCtxDomainName (this_contexts mgr))
                           | Some s \<Rightarrow> c_str s)"
  have out: "result out = result (sni_loop run sn0 name tier has0 0 mgr)"
    "switched out = switched (sni_loop run sn0 name tier has0 0 mgr)"
    unfolding out_def name_def tier_def has0_def sn0_def by (rule callback_fields)+
  have out_found: "result out = SERVER_NAME_FOUND \<and> switched out = Some c"
    if "sni_loop run sn0 name tier has0 0 mgr = sni_found mgr has0 c tier used" for c used
    unfolding out that by (simp only: sni_found_fields simp_thms)
  show ?thesis
  proof (intro conjI impI; (elim conjE)?)
    assume "getSSLCtxByExactDomain cs \<lparr>dnString = n, certCrypto = req\<rparr> = Some c"
    then show "found c req"
      unfolding cs_def by (intro fields, unfold pass_def) (rule pass_exact)
  next
    assume "getSSLCtxByExactDomain cs \<lparr>dnString = n, certCrypto = req\<rparr> = None"
      and "getSSLCtxBySuffix cs \<lparr>dnString = n, certCrypto = req\<rparr> = Some c"
    then show "found c req"
      unfolding cs_def by (intro fields, unfold pass_def) (rule pass_wildcard)
  next
    assume "getSSLCtxByExactDomain cs \<lparr>dnString = n, certCrypto = req\<rparr> = None"
      and "getSSLCtxBySuffix cs \<lparr>dnString = n, certCrypto = req\<rparr> = None"
      and "req = SHA1_SIGNATURE"
      and "getSSLCtxByExactDomain cs \<lparr>dnString = n, certCrypto = BEST_AVAILABLE\<rparr> = Some c"
    then show "found c BEST_AVAILABLE"
      unfolding cs_def by (intro fields, unfold pass_def) (rule pass_upgraded_exact)
  next
    assume "getSSLCtxByExactDomain cs \<lparr>dnString = n, certCrypto = req\<rparr> = None"
      and "getSSLCtxBySuffix cs \<lparr>dnString = n, certCrypto = req\<rparr> = None"
      and "req = SHA1_SIGNATURE"
      and "getSSLCtxByExactDomain cs \<lparr>dnString = n, certCrypto = BEST_AVAILABLE\<rparr> = None"
      and "getSSLCtxBySuffix cs \<lparr>dnString = n, certCrypto = BEST_AVAILABLE\<rparr> = Some c"
    then show "found c BEST_AVAILABLE"
      unfolding cs_def by (intro fields, unfold pass_def) (rule pass_upgraded_wildcard)
  next
    assume "getSSLCtxByExactDomain cs \<lparr>dnString = n, certCrypto = req\<rparr> = None"
      and "getSSLCtxBySuffix cs \<lparr>dnString = n, certCrypto = req\<rparr> = None"
      and "req = SHA1_SIGNATURE \<longrightarrow>
                 getSSLCtxByExactDomain cs \<lparr>dnString = n, certCrypto = BEST_AVAILABLE\<rparr> = None
                 \<and> getSSLCtxBySuffix cs \<lparr>dnString = n, certCrypto = BEST_AVAILABLE\<rparr> = None"
      and "count \<noteq> 0 \<or> this_noMatchFn mgr = None"
    then have "pass = sni_not_found mgr has"
      unfolding cs_def pass_def by (rule pass_nothing)
    then show "result pass = SERVER_NAME_NOT_FOUND" "switched pass = None"
      "noMatchCalls pass = []" "manager pass = mgr"
      by (simp_all only: sni_not_found_fields)
  next
    assume "getSSLCtxByExactDomain cs \<lparr>dnString = name, certCrypto = tier\<rparr> = Some c"
    then have "sni_loop run sn0 name tier has0 0 mgr = sni_found mgr has0 c tier tier"
      unfolding cs_def by (rule pass_exact)
    from out_found [OF this]
    show "result out = SERVER_NAME_FOUND" "switched out = Some c" by simp_all
  next
    assume "getSSLCtxByExactDomain cs \<lparr>dnString = name, certCrypto = tier\<rparr> = None"
      and "getSSLCtxBySuffix cs \<lparr>dnString = name, certCrypto = tier\<rparr> = Some c"
    then have "sni_loop run sn0 name tier has0 0 mgr = sni_found mgr has0 c tier tier"
      unfolding cs_def by (rule pass_wildcard)
    from out_found [OF this]
    show "result out = SERVER_NAME_FOUND" "switched out = Some c" by simp_all
  next
    assume "getSSLCtxByExactDomain cs \<lparr>dnString = name, certCrypto = tier\<rparr> = None"
      and "getSSLCtxBySuffix cs \<lparr>dnString = name, certCrypto = tier\<rparr> = None"
      and "tier = SHA1_SIGNATURE"
      and "getSSLCtxByExactDomain cs \<lparr>dnString = name, certCrypto = BEST_AVAILABLE\<rparr> = Some c"
    then have "sni_loop run sn0 name tier has0 0 mgr
                 = sni_found mgr has0 c tier BEST_AVAILABLE"
      unfolding cs_def by (rule pass_upgraded_exact)
    from out_found [OF this]
    show "result out = SERVER_NAME_FOUND" "switched out = Some c" by simp_all
  next
    assume "getSSLCtxByExactDomain cs \<lparr>dnString = name, certCrypto = tier\<rparr> = None"
      and "getSSLCtxBySuffix cs \<lparr>dnString = name, certCrypto = tier\<rparr> = None"
      and "tier = SHA1_SIGNATURE"
      and "getSSLCtxByExactDomain cs \<lparr>dnString = name, certCrypto = BEST_AVAILABLE\<rparr> = None"
      and "getSSLCtxBySuffix cs \<lparr>dnString = name, certCrypto = BEST_AVAILABLE\<rparr> = Some c"
    then have "sni_loop run sn0 name tier has0 0 mgr
                 = sni_found mgr has0 c tier BEST_AVAILABLE"
      unfolding cs_def by (rule pass_upgraded_wildcard)
    from out_found [OF this]
    show "result out = SERVER_NAME_FOUND" "switched out = Some c" by simp_all
  qed
qed

text \<open>
  The five cases on the live set of the worked examples: \<open>a.example\<close> at its own tier,
  \<open>x.d.example\<close> through the SHA-1 wildcard, \<open>a.example\<close> and \<open>x.e.example\<close>
  requested at SHA-1 and served from \<open>BEST_AVAILABLE\<close>, and \<open>z.example\<close>, which
  nothing serves.
\<close>

theorem lookup_order_witness:
  "getSSLCtxByExactDomain (this_contexts (live_fx None))
     \<lparr>dnString = ''a.example'', certCrypto = BEST_AVAILABLE\<rparr> = Some (ctx_fx 0 ''a.example'' 668)
   \<and> result (sni_loop run_fx ''a.example'' ''a.example'' BEST_AVAILABLE True 0 (live_fx None))
       = SERVER_NAME_FOUND
   \<and> switched (sni_loop run_fx ''a.example'' ''a.example'' BEST_AVAILABLE True 0 (live_fx None))
       = Some (ctx_fx 0 ''a.example'' 668)
   \<and> certCryptoReqOf (clientHelloInfo (ssl_fx (Some ''x.d.example'') [13])) = SHA1_SIGNATURE
   \<and> getSSLCtxByExactDomain (this_contexts (live_fx None))
       \<lparr>dnString = ''x.d.example'', certCrypto = SHA1_SIGNATURE\<rparr> = None
   \<and> getSSLCtxBySuffix (this_contexts (live_fx None))
       \<lparr>dnString = ''x.d.example'', certCrypto = SHA1_SIGNATURE\<rparr>
       = Some (ctx_fx 1 ''*.d.example'' 65)
   \<and> result (serverNameCallback run_fx (ssl_fx (Some ''x.d.example'') [13]) (live_fx None))
       = SERVER_NAME_FOUND
   \<and> switched (serverNameCallback run_fx (ssl_fx (Some ''x.d.example'') [13]) (live_fx None))
       = Some (ctx_fx 1 ''*.d.example'' 65)
   \<and> getSSLCtxByExactDomain (this_contexts (live_fx None))
       \<lparr>dnString = ''a.example'', certCrypto = SHA1_SIGNATURE\<rparr> = None
   \<and> getSSLCtxBySuffix (this_contexts (live_fx None))
       \<lparr>dnString = ''a.example'', certCrypto = SHA1_SIGNATURE\<rparr> = None
   \<and> result (serverNameCallback run_fx (ssl_fx (Some ''a.example'') [13]) (live_fx None))
       = SERVER_NAME_FOUND
   \<and> switched (serverNameCallback run_fx (ssl_fx (Some ''a.example'') [13]) (live_fx None))
       = Some (ctx_fx 0 ''a.example'' 668)
   \<and> getSSLCtxByExactDomain (this_contexts (live_fx None))
       \<lparr>dnString = ''x.e.example'', certCrypto = SHA1_SIGNATURE\<rparr> = None
   \<and> getSSLCtxBySuffix (this_contexts (live_fx None))
       \<lparr>dnString = ''x.e.example'', certCrypto = SHA1_SIGNATURE\<rparr> = None
   \<and> getSSLCtxByExactDomain (this_contexts (live_fx None))
       \<lparr>dnString = ''x.e.example'', certCrypto = BEST_AVAILABLE\<rparr> = None
   \<and> getSSLCtxBySuffix (this_contexts (live_fx None))
       \<lparr>dnString = ''x.e.example'', certCrypto = BEST_AVAILABLE\<rparr>
       = Some (ctx_fx 2 ''*.e.example'' 668)
   \<and> result (serverNameCallback run_fx (ssl_fx (Some ''x.e.example'') [13]) (live_fx None))
       = SERVER_NAME_FOUND
   \<and> switched (serverNameCallback run_fx (ssl_fx (Some ''x.e.example'') [13]) (live_fx None))
       = Some (ctx_fx 2 ''*.e.example'' 668)
   \<and> getSSLCtxByExactDomain (this_contexts (live_fx None))
       \<lparr>dnString = ''z.example'', certCrypto = BEST_AVAILABLE\<rparr> = None
   \<and> getSSLCtxBySuffix (this_contexts (live_fx None))
       \<lparr>dnString = ''z.example'', certCrypto = BEST_AVAILABLE\<rparr> = None
   \<and> this_noMatchFn (live_fx None) = None
   \<and> result (sni_loop run_fx ''z.example'' ''z.example'' BEST_AVAILABLE True 0 (live_fx None))
       = SERVER_NAME_NOT_FOUND
   \<and> switched (sni_loop run_fx ''z.example'' ''z.example'' BEST_AVAILABLE True 0 (live_fx None))
       = None"
proof -
  let ?m = "live_fx None"
  let ?cs = "this_contexts ?m"
  let ?name = "\<lambda>ssl. DNString (case servername ssl of
                                None \<Rightarrow> c_str (defaultCtxDomainName ?cs)
                              | Some s \<Rightarrow> c_str s)"
  let ?tier = "\<lambda>ssl. certCryptoReqOf (clientHelloInfo ssl)"
  let ?b = "ssl_fx (Some ''x.d.example'') [13]"
  let ?c = "ssl_fx (Some ''a.example'') [13]"
  let ?d = "ssl_fx (Some ''x.e.example'') [13]"
  have a: "getSSLCtxByExactDomain ?cs \<lparr>dnString = ''a.example'', certCrypto = BEST_AVAILABLE\<rparr>
             = Some (ctx_fx 0 ''a.example'' 668)"
    by code_simp
  have b: "?tier ?b = SHA1_SIGNATURE"
     "getSSLCtxByExactDomain ?cs \<lparr>dnString = ''x.d.example'', certCrypto = SHA1_SIGNATURE\<rparr>
             = None"
     "getSSLCtxBySuffix ?cs \<lparr>dnString = ''x.d.example'', certCrypto = SHA1_SIGNATURE\<rparr>
             = Some (ctx_fx 1 ''*.d.example'' 65)"
    by code_simp+
  have b': "getSSLCtxByExactDomain ?cs \<lparr>dnString = ?name ?b, certCrypto = ?tier ?b\<rparr> = None
            \<and> getSSLCtxBySuffix ?cs \<lparr>dnString = ?name ?b, certCrypto = ?tier ?b\<rparr>
                = Some (ctx_fx 1 ''*.d.example'' 65)"
    by code_simp
  have c: "getSSLCtxByExactDomain ?cs \<lparr>dnString = ''a.example'', certCrypto = SHA1_SIGNATURE\<rparr>
             = None"
     "getSSLCtxBySuffix ?cs \<lparr>dnString = ''a.example'', certCrypto = SHA1_SIGNATURE\<rparr> = None"
    by code_simp+
  have c': "getSSLCtxByExactDomain ?cs \<lparr>dnString = ?name ?c, certCrypto = ?tier ?c\<rparr> = None
            \<and> getSSLCtxBySuffix ?cs \<lparr>dnString = ?name ?c, certCrypto = ?tier ?c\<rparr> = None
            \<and> ?tier ?c = SHA1_SIGNATURE
            \<and> getSSLCtxByExactDomain ?cs \<lparr>dnString = ?name ?c, certCrypto = BEST_AVAILABLE\<rparr>
                = Some (ctx_fx 0 ''a.example'' 668)"
    by code_simp
  have d: "getSSLCtxByExactDomain ?cs \<lparr>dnString = ''x.e.example'', certCrypto = SHA1_SIGNATURE\<rparr>
             = None"
     "getSSLCtxBySuffix ?cs \<lparr>dnString = ''x.e.example'', certCrypto = SHA1_SIGNATURE\<rparr> = None"
     "getSSLCtxByExactDomain ?cs \<lparr>dnString = ''x.e.example'', certCrypto = BEST_AVAILABLE\<rparr>
             = None"
     "getSSLCtxBySuffix ?cs \<lparr>dnString = ''x.e.example'', certCrypto = BEST_AVAILABLE\<rparr>
             = Some (ctx_fx 2 ''*.e.example'' 668)"
    by code_simp+
  have d': "getSSLCtxByExactDomain ?cs \<lparr>dnString = ?name ?d, certCrypto = ?tier ?d\<rparr> = None
            \<and> getSSLCtxBySuffix ?cs \<lparr>dnString = ?name ?d, certCrypto = ?tier ?d\<rparr> = None
            \<and> ?tier ?d = SHA1_SIGNATURE
            \<and> getSSLCtxByExactDomain ?cs \<lparr>dnString = ?name ?d, certCrypto = BEST_AVAILABLE\<rparr>
                = None
            \<and> getSSLCtxBySuffix ?cs \<lparr>dnString = ?name ?d, certCrypto = BEST_AVAILABLE\<rparr>
                = Some (ctx_fx 2 ''*.e.example'' 668)"
    by code_simp
  have e: "getSSLCtxByExactDomain ?cs \<lparr>dnString = ''z.example'', certCrypto = BEST_AVAILABLE\<rparr>
             = None"
     "getSSLCtxBySuffix ?cs \<lparr>dnString = ''z.example'', certCrypto = BEST_AVAILABLE\<rparr> = None"
     "this_noMatchFn ?m = None"
    by code_simp+
  have e': "getSSLCtxByExactDomain ?cs \<lparr>dnString = ''z.example'', certCrypto = BEST_AVAILABLE\<rparr>
             = None
           \<and> getSSLCtxBySuffix ?cs \<lparr>dnString = ''z.example'', certCrypto = BEST_AVAILABLE\<rparr>
               = None
           \<and> (BEST_AVAILABLE = SHA1_SIGNATURE \<longrightarrow>
                 getSSLCtxByExactDomain ?cs
                   \<lparr>dnString = ''z.example'', certCrypto = BEST_AVAILABLE\<rparr> = None
                 \<and> getSSLCtxBySuffix ?cs
                     \<lparr>dnString = ''z.example'', certCrypto = BEST_AVAILABLE\<rparr> = None)
           \<and> ((0::nat) \<noteq> 0 \<or> this_noMatchFn ?m = None)"
    using e by simp
  note ra = lookup_order [where mgr = ?m and run = run_fx and sn = "''a.example''"
      and has = True and count = 0, THEN conjunct1, THEN mp, OF a]
  note rb = lookup_order [where mgr = ?m and run = run_fx,
      THEN conjunct2, THEN conjunct2, THEN conjunct2, THEN conjunct2, THEN conjunct2,
      THEN conjunct2, THEN conjunct1, THEN mp, OF b']
  note rc = lookup_order [where mgr = ?m and run = run_fx,
      THEN conjunct2, THEN conjunct2, THEN conjunct2, THEN conjunct2, THEN conjunct2,
      THEN conjunct2, THEN conjunct2, THEN conjunct1, THEN mp, OF c']
  note rd = lookup_order [where mgr = ?m and run = run_fx,
      THEN conjunct2, THEN conjunct2, THEN conjunct2, THEN conjunct2, THEN conjunct2,
      THEN conjunct2, THEN conjunct2, THEN conjunct2, THEN mp, OF d']
  note re = lookup_order [where mgr = ?m and run = run_fx and sn = "''z.example''"
      and has = True and count = 0,
      THEN conjunct2, THEN conjunct2, THEN conjunct2, THEN conjunct2, THEN conjunct1,
      THEN mp, OF e']
  from ra have ra': "result (sni_loop run_fx ''a.example'' ''a.example'' BEST_AVAILABLE True 0 ?m)
       = SERVER_NAME_FOUND"
    "switched (sni_loop run_fx ''a.example'' ''a.example'' BEST_AVAILABLE True 0 ?m)
       = Some (ctx_fx 0 ''a.example'' 668)"
    by blast+
  from re have re': "result (sni_loop run_fx ''z.example'' ''z.example'' BEST_AVAILABLE True 0 ?m)
       = SERVER_NAME_NOT_FOUND"
    "switched (sni_loop run_fx ''z.example'' ''z.example'' BEST_AVAILABLE True 0 ?m) = None"
    by blast+
  from rb have rb': "result (serverNameCallback run_fx ?b ?m) = SERVER_NAME_FOUND"
    "switched (serverNameCallback run_fx ?b ?m) = Some (ctx_fx 1 ''*.d.example'' 65)"
    by (rule conjunct1, rule conjunct2)
  from rc have rc': "result (serverNameCallback run_fx ?c ?m) = SERVER_NAME_FOUND"
    "switched (serverNameCallback run_fx ?c ?m) = Some (ctx_fx 0 ''a.example'' 668)"
    by (rule conjunct1, rule conjunct2)
  from rd have rd': "result (serverNameCallback run_fx ?d ?m) = SERVER_NAME_FOUND"
    "switched (serverNameCallback run_fx ?d ?m) = Some (ctx_fx 2 ''*.e.example'' 668)"
    by (rule conjunct1, rule conjunct2)
  show ?thesis
    by (intro conjI a b c d e ra' rb' rc' rd' re')
qed

text \<open>
  The claim as stated (an exact match is always returned in preference to a wildcard
  match) fails across tiers: with \<open>x.d.example\<close> indexed at \<open>BEST_AVAILABLE\<close> and
  the wildcard \<open>*.d.example\<close> indexed at \<open>SHA1_SIGNATURE\<close>, a ClientHello for
  \<open>x.d.example\<close> at tier \<open>SHA1_SIGNATURE\<close> is served by the wildcard context.
\<close>

theorem exact_at_upgraded_tier_counterexample:
  "getSSLCtxByExactDomain (this_contexts live_tiers_fx)
     \<lparr>dnString = ''x.d.example'', certCrypto = BEST_AVAILABLE\<rparr>
     = Some (ctx_fx 2 ''x.d.example'' 668)
   \<and> servername (ssl_fx (Some ''x.d.example'') [13]) = Some ''x.d.example''
   \<and> certCryptoReqOf (clientHelloInfo (ssl_fx (Some ''x.d.example'') [13])) = SHA1_SIGNATURE
   \<and> result (serverNameCallback run_fx (ssl_fx (Some ''x.d.example'') [13]) live_tiers_fx)
       = SERVER_NAME_FOUND
   \<and> switched (serverNameCallback run_fx (ssl_fx (Some ''x.d.example'') [13]) live_tiers_fx)
       = Some (ctx_fx 1 ''*.d.example'' 65)"
  by code_simp


subsection \<open>C9: the no-match hook\<close>

text \<open>
  C9, as amended. For every ClientHello (\<open>sn\<close> the name looked up, \<open>req\<close> the
  requested tier), the callback calls the no-match hook at most once. It calls the hook
  exactly when the lookups of the first pass (exact and wildcard, at the requested tier
  and, for \<open>SHA1_SIGNATURE\<close>, at \<open>BEST_AVAILABLE\<close>) all fail and a hook is installed,
  and the call is on \<open>sn\<close>. When the hook returns false, the callback returns
  NOT-FOUND at once, on the manager as the hook left it, without another lookup. When
  the hook returns true, the lookups are repeated once on the manager as the hook left
  it, and the callback returns FOUND with the context of that pass, or NOT-FOUND when
  these lookups fail too.
\<close>

theorem no_match_hook_once:
  fixes run :: "'h \<Rightarrow> string \<Rightarrow> 'h SSLContextManager \<Rightarrow> bool \<times> 'h SSLContextManager"
    and mgr :: "'h SSLContextManager" and ssl :: SSL
  defines "sn \<equiv> (case servername ssl of
                    None \<Rightarrow> c_str (defaultCtxDomainName (this_contexts mgr))
                  | Some s \<Rightarrow> c_str s)"
  defines "req \<equiv> certCryptoReqOf (clientHelloInfo ssl)"
  defines "out \<equiv> serverNameCallback run ssl mgr"
  defines "fails \<equiv> \<lambda>cs.
             getSSLCtx cs \<lparr>dnString = DNString sn, certCrypto = req\<rparr> = None
             \<and> (req \<noteq> BEST_AVAILABLE \<longrightarrow>
                  getSSLCtx cs \<lparr>dnString = DNString sn, certCrypto = BEST_AVAILABLE\<rparr> = None)"
  shows "length (noMatchCalls out) \<le> 1
       \<and> (noMatchCalls out \<noteq> [] \<longleftrightarrow> fails (this_contexts mgr) \<and> this_noMatchFn mgr \<noteq> None)
       \<and> (noMatchCalls out \<noteq> [] \<longrightarrow> noMatchCalls out = [sn])
       \<and> (\<forall>hook. fails (this_contexts mgr) \<and> this_noMatchFn mgr = Some hook
              \<and> \<not> fst (run hook sn mgr)
            \<longrightarrow> result out = SERVER_NAME_NOT_FOUND \<and> switched out = None
                \<and> manager out = snd (run hook sn mgr))
       \<and> (\<forall>hook. fails (this_contexts mgr) \<and> this_noMatchFn mgr = Some hook
              \<and> fst (run hook sn mgr)
            \<longrightarrow> manager out = snd (run hook sn mgr)
                \<and> (result out = SERVER_NAME_FOUND
                     \<longleftrightarrow> \<not> fails (this_contexts (snd (run hook sn mgr))))
                \<and> (result out = SERVER_NAME_NOT_FOUND
                     \<longleftrightarrow> fails (this_contexts (snd (run hook sn mgr))))
                \<and> switched out
                    = (case getSSLCtx (this_contexts (snd (run hook sn mgr)))
                              \<lparr>dnString = DNString sn, certCrypto = req\<rparr> of
                         Some c \<Rightarrow> Some c
                       | None \<Rightarrow>
                           if req \<noteq> BEST_AVAILABLE
                           then getSSLCtx (this_contexts (snd (run hook sn mgr)))
                                  \<lparr>dnString = DNString sn, certCrypto = BEST_AVAILABLE\<rparr>
                           else None))"
proof -
  define has where "has = (servername ssl \<noteq> None)"
  let ?L = "sni_loop run sn (DNString sn) req has 0 mgr"
  have f: "result out = result ?L" "switched out = switched ?L"
    "noMatchCalls out = noMatchCalls ?L" "manager out = manager ?L"
    unfolding out_def sn_def req_def has_def by (rule callback_fields)+
  show ?thesis
  proof (cases "fails (this_contexts mgr)")
    case False
    then obtain c used where "?L = sni_found mgr has c req used"
      unfolding fails_def using sni_loop_not_failing by blast
    with False show ?thesis by (simp add: f sni_found_def)
  next
    case True
    then have 1: "getSSLCtx (this_contexts mgr) \<lparr>dnString = DNString sn, certCrypto = req\<rparr> = None"
      and 2: "req \<noteq> BEST_AVAILABLE \<longrightarrow> getSSLCtx (this_contexts mgr)
                 \<lparr>dnString = DNString sn, certCrypto = BEST_AVAILABLE\<rparr> = None"
      unfolding fails_def by simp_all
    note L = sni_loop_fail_first [OF 1 2, of run sn has]
    show ?thesis
    proof (cases "this_noMatchFn mgr")
      case None
      with True show ?thesis by (simp add: f L sni_not_found_def)
    next
      case (Some hook)
      show ?thesis
      proof (cases "fst (run hook sn mgr)")
        case False
        with True Some show ?thesis by (simp add: f L sni_not_found_def)
      next
        case accept: True
        let ?m = "snd (run hook sn mgr)"
        have L2: "?L = (sni_loop run sn (DNString sn) req has (Suc 0) ?m)
                         \<lparr>noMatchCalls := sn # noMatchCalls
                            (sni_loop run sn (DNString sn) req has (Suc 0) ?m)\<rparr>"
          using accept Some by (simp add: L)
        show ?thesis
          using True Some accept
          unfolding f L2 sni_loop_second fails_def
          by (simp add: sni_found_def sni_not_found_def split: option.splits)
      qed
    qed
  qed
qed


theorem no_match_hook_once_witness:
  "getSSLCtx (this_contexts (live_fx (Some Accept)))
     \<lparr>dnString = DNString ''b.example'', certCrypto = BEST_AVAILABLE\<rparr> = None
   \<and> this_noMatchFn (live_fx (Some Accept)) = Some Accept
   \<and> fst (run_fx Accept ''b.example'' (live_fx (Some Accept)))
   \<and> noMatchCalls (serverNameCallback run_fx (ssl_fx (Some ''b.example'') [0])
                     (live_fx (Some Accept))) = [''b.example'']
   \<and> result (serverNameCallback run_fx (ssl_fx (Some ''b.example'') [0])
               (live_fx (Some Accept))) = SERVER_NAME_FOUND
   \<and> switched (serverNameCallback run_fx (ssl_fx (Some ''b.example'') [0])
                 (live_fx (Some Accept)))
       = Some \<lparr>ctx_addr = 3, certificate = Some (x509_fx ''b.example'' None 668),
               ticketManager = None\<rparr>
   \<and> getSSLCtx (this_contexts (live_fx (Some Decline)))
       \<lparr>dnString = DNString ''b.example'', certCrypto = BEST_AVAILABLE\<rparr> = None
   \<and> this_noMatchFn (live_fx (Some Decline)) = Some Decline
   \<and> \<not> fst (run_fx Decline ''b.example'' (live_fx (Some Decline)))
   \<and> result (serverNameCallback run_fx (ssl_fx (Some ''b.example'') [0])
               (live_fx (Some Decline))) = SERVER_NAME_NOT_FOUND
   \<and> switched (serverNameCallback run_fx (ssl_fx (Some ''b.example'') [0])
                 (live_fx (Some Decline))) = None"
proof -
  let ?ssl = "ssl_fx (Some ''b.example'') [0]"
  let ?b = "\<lparr>ctx_addr = 3, certificate = Some (x509_fx ''b.example'' None 668),
             ticketManager = None\<rparr>"
  have sn: "c_str ''b.example'' = ''b.example''" by code_simp
  have req: "certCryptoReqOf (Some (hello_fx [0])) = BEST_AVAILABLE" by code_simp
  have a1: "getSSLCtx (this_contexts (live_fx (Some Accept)))
              \<lparr>dnString = DNString ''b.example'', certCrypto = BEST_AVAILABLE\<rparr> = None"
    by code_simp
  have a2: "this_noMatchFn (live_fx (Some Accept)) = Some Accept" by code_simp
  have a3: "fst (run_fx Accept ''b.example'' (live_fx (Some Accept)))" by code_simp
  have a4: "getSSLCtx (this_contexts (snd (run_fx Accept ''b.example'' (live_fx (Some Accept)))))
              \<lparr>dnString = DNString ''b.example'', certCrypto = BEST_AVAILABLE\<rparr> = Some ?b"
    by code_simp
  have d1: "getSSLCtx (this_contexts (live_fx (Some Decline)))
              \<lparr>dnString = DNString ''b.example'', certCrypto = BEST_AVAILABLE\<rparr> = None"
    by code_simp
  have d2: "this_noMatchFn (live_fx (Some Decline)) = Some Decline" by code_simp
  have d3: "\<not> fst (run_fx Decline ''b.example'' (live_fx (Some Decline)))" by code_simp
  from no_match_hook_once [of run_fx ?ssl "live_fx (Some Accept)"]
  have ca: "noMatchCalls (serverNameCallback run_fx ?ssl (live_fx (Some Accept))) = [''b.example'']
            \<and> result (serverNameCallback run_fx ?ssl (live_fx (Some Accept))) = SERVER_NAME_FOUND
            \<and> switched (serverNameCallback run_fx ?ssl (live_fx (Some Accept))) = Some ?b"
    by (simp add: ssl_fx_sel sn req a1 a2 a3 a4)
  from no_match_hook_once [of run_fx ?ssl "live_fx (Some Decline)"]
  have cd: "result (serverNameCallback run_fx ?ssl (live_fx (Some Decline)))
              = SERVER_NAME_NOT_FOUND
            \<and> switched (serverNameCallback run_fx ?ssl (live_fx (Some Decline))) = None"
    by (simp add: ssl_fx_sel sn req d1 d2 d3)
  from a1 a2 a3 ca d1 d2 d3 cd show ?thesis by blast
qed

text \<open>
  The claim as first stated (the lookup is retried after the hook returns) fails for a
  hook that declines: here the hook has added \<open>b.example\<close> to the live set and returned
  false, the callback returns NOT-FOUND, and a lookup on the manager it leaves finds
  the context.
\<close>

theorem no_match_hook_retry_counterexample:
  "result (serverNameCallback run_fx (ssl_fx (Some ''b.example'') [0]) (live_fx (Some Decline)))
       = SERVER_NAME_NOT_FOUND
   \<and> noMatchCalls (serverNameCallback run_fx (ssl_fx (Some ''b.example'') [0])
                     (live_fx (Some Decline))) = [''b.example'']
   \<and> getSSLCtx
        (this_contexts (manager (serverNameCallback run_fx (ssl_fx (Some ''b.example'') [0])
                                   (live_fx (Some Decline)))))
        \<lparr>dnString = DNString ''b.example'',
         certCrypto = certCryptoReqOf (clientHelloInfo (ssl_fx (Some ''b.example'') [0]))\<rparr>
       = Some \<lparr>ctx_addr = 3, certificate = Some (x509_fx ''b.example'' None 668),
               ticketManager = None\<rparr>"
  by code_simp


subsection \<open>C8: absent and empty server names\<close>

text \<open>
  C8, as amended. For every ClientHello without a server name (\<open>SSL_get_servername\<close>
  returns null), the callback does what it does for the same ClientHello with the
  default domain of the live set as its server name: same result, same selected
  context, same hook calls, same manager; and it counts the handshake as one without
  server name: it records the absent host name and neither a match nor a mismatch.
  A server name that is the empty string is not treated as absent: the callback looks
  up the empty name, with the request counted as having a server name, never records an
  absent host name, and (when no hook is installed and the index has no entry for the
  empty name) returns NOT-FOUND and records a mismatch, whatever the default domain is.
\<close>

theorem absent_sni_uses_default_domain:
  fixes run :: "'h \<Rightarrow> string \<Rightarrow> 'h SSLContextManager \<Rightarrow> bool \<times> 'h SSLContextManager"
    and ssl :: SSL and mgr :: "'h SSLContextManager"
  shows "(servername ssl = None \<longrightarrow>
            serverNameCallback run ssl mgr
              = (let named = serverNameCallback run
                               (ssl\<lparr>servername := Some (defaultCtxDomainName (this_contexts mgr))\<rparr>)
                               mgr
                 in named\<lparr>stats :=
                      (if this_clientHelloTLSExtStats mgr then [RecordAbsentHostname] else [])
                      @ filter (\<lambda>ev. ev \<noteq> RecordMatch \<and> ev \<noteq> RecordNotMatch) (stats named)\<rparr>))
       \<and> (servername ssl = Some [] \<longrightarrow>
            serverNameCallback run ssl mgr
              = sni_loop run [] [] (certCryptoReqOf (clientHelloInfo ssl)) True 0 mgr
            \<and> RecordAbsentHostname \<notin> set (stats (serverNameCallback run ssl mgr)))
       \<and> (servername ssl = Some [] \<and> this_noMatchFn mgr = None
            \<and> dnMap (this_contexts mgr) \<lparr>dnString = [], certCrypto = SHA1_SIGNATURE\<rparr> = None
            \<and> dnMap (this_contexts mgr) \<lparr>dnString = [], certCrypto = BEST_AVAILABLE\<rparr> = None
            \<longrightarrow> result (serverNameCallback run ssl mgr) = SERVER_NAME_NOT_FOUND
                \<and> switched (serverNameCallback run ssl mgr) = None
                \<and> stats (serverNameCallback run ssl mgr)
                    = (if this_clientHelloTLSExtStats mgr then [RecordNotMatch] else []))"
proof (intro conjI impI; (elim conjE)?)
  assume a: "servername ssl = None"
  show "serverNameCallback run ssl mgr
              = (let named = serverNameCallback run
                               (ssl\<lparr>servername := Some (defaultCtxDomainName (this_contexts mgr))\<rparr>)
                               mgr
                 in named\<lparr>stats :=
                      (if this_clientHelloTLSExtStats mgr then [RecordAbsentHostname] else [])
                      @ filter (\<lambda>ev. ev \<noteq> RecordMatch \<and> ev \<noteq> RecordNotMatch) (stats named)\<rparr>)"
    using a
    by (simp add: serverNameCallback_def Let_def c_str_idem
          sni_loop_has [of run _ _ _ 0 mgr])
next
  assume e: "servername ssl = Some []"
  show eq: "serverNameCallback run ssl mgr
              = sni_loop run [] [] (certCryptoReqOf (clientHelloInfo ssl)) True 0 mgr"
    using e by (simp add: serverNameCallback_def Let_def c_str_def DNString_def)
  show "RecordAbsentHostname \<notin> set (stats (serverNameCallback run ssl mgr))"
    unfolding eq by (rule loop_no_absent)
next
  assume e: "servername ssl = Some []" and h: "this_noMatchFn mgr = None"
    and w: "dnMap (this_contexts mgr) \<lparr>dnString = [], certCrypto = SHA1_SIGNATURE\<rparr> = None"
    and b: "dnMap (this_contexts mgr) \<lparr>dnString = [], certCrypto = BEST_AVAILABLE\<rparr> = None"
  let ?t = "certCryptoReqOf (clientHelloInfo ssl)"
  have eq: "serverNameCallback run ssl mgr = sni_loop run [] [] ?t True 0 mgr"
    using e by (simp add: serverNameCallback_def Let_def c_str_def DNString_def)
  have g: "getSSLCtx (this_contexts mgr) \<lparr>dnString = [], certCrypto = t'\<rparr> = None" for t'
    using w b by (cases t') (simp_all add: getSSLCtx_def getSSLCtxByExactDomain_def
        getSSLCtxBySuffix_def find_first_of_def)
  have out: "serverNameCallback run ssl mgr = sni_not_found mgr True"
    unfolding eq using sni_loop_fail_first [of mgr "[]" ?t run "[]" True] g h by simp
  show "result (serverNameCallback run ssl mgr) = SERVER_NAME_NOT_FOUND"
    unfolding out by (simp add: sni_not_found_def)
  show "switched (serverNameCallback run ssl mgr) = None"
    unfolding out by (simp add: sni_not_found_def)
  show "stats (serverNameCallback run ssl mgr)
          = (if this_clientHelloTLSExtStats mgr then [RecordNotMatch] else [])"
    unfolding out by (simp add: sni_not_found_def)
qed

theorem absent_sni_uses_default_domain_witness:
  "servername (ssl_fx None [13]) = None
   \<and> defaultCtxDomainName (this_contexts (live_fx None)) = ''a.example''
   \<and> result (serverNameCallback run_fx (ssl_fx None [13]) (live_fx None)) = SERVER_NAME_FOUND
   \<and> switched (serverNameCallback run_fx (ssl_fx None [13]) (live_fx None))
       = Some (ctx_fx 0 ''a.example'' 668)
   \<and> stats (serverNameCallback run_fx (ssl_fx None [13]) (live_fx None))
       = [RecordAbsentHostname, RecordCertCrypto SHA1_SIGNATURE BEST_AVAILABLE]
   \<and> servername (ssl_fx (Some []) [13]) = Some []
   \<and> this_noMatchFn (live_fx None) = None
   \<and> dnMap (this_contexts (live_fx None)) \<lparr>dnString = [], certCrypto = SHA1_SIGNATURE\<rparr> = None
   \<and> dnMap (this_contexts (live_fx None)) \<lparr>dnString = [], certCrypto = BEST_AVAILABLE\<rparr> = None
   \<and> result (serverNameCallback run_fx (ssl_fx (Some []) [13]) (live_fx None))
       = SERVER_NAME_NOT_FOUND
   \<and> stats (serverNameCallback run_fx (ssl_fx (Some []) [13]) (live_fx None))
       = [RecordNotMatch]"
proof -
  let ?m = "live_fx None :: hook_fx SSLContextManager"
  let ?named = "serverNameCallback run_fx
                  ((ssl_fx None [13])\<lparr>servername := Some (defaultCtxDomainName (this_contexts ?m))\<rparr>)
                  ?m"
  have a: "servername (ssl_fx None [13]) = None" by (simp add: ssl_fx_sel)
  have d: "defaultCtxDomainName (this_contexts ?m) = ''a.example''" by code_simp
  have st: "this_clientHelloTLSExtStats ?m" by code_simp
  have n1: "result ?named = SERVER_NAME_FOUND" by code_simp
  have n2: "switched ?named = Some (ctx_fx 0 ''a.example'' 668)" by code_simp
  have n3: "stats ?named = [RecordMatch, RecordCertCrypto SHA1_SIGNATURE BEST_AVAILABLE]"
    by code_simp
  note t = absent_sni_uses_default_domain [of "ssl_fx None [13]" run_fx ?m]
  from t a have eq: "serverNameCallback run_fx (ssl_fx None [13]) ?m
      = (let named = ?named
         in named\<lparr>stats :=
              (if this_clientHelloTLSExtStats ?m then [RecordAbsentHostname] else [])
              @ filter (\<lambda>ev. ev \<noteq> RecordMatch \<and> ev \<noteq> RecordNotMatch) (stats named)\<rparr>)"
    by blast
  have c1: "result (serverNameCallback run_fx (ssl_fx None [13]) ?m) = SERVER_NAME_FOUND"
    unfolding eq by (simp add: Let_def n1)
  have c2: "switched (serverNameCallback run_fx (ssl_fx None [13]) ?m)
              = Some (ctx_fx 0 ''a.example'' 668)"
    unfolding eq by (simp add: Let_def n2)
  have c3: "stats (serverNameCallback run_fx (ssl_fx None [13]) ?m)
              = [RecordAbsentHostname, RecordCertCrypto SHA1_SIGNATURE BEST_AVAILABLE]"
    unfolding eq by (simp add: Let_def n3 st)
  have e: "servername (ssl_fx (Some []) [13]) = Some []" by (simp add: ssl_fx_sel)
  have h: "this_noMatchFn ?m = None" by code_simp
  have w: "dnMap (this_contexts ?m) \<lparr>dnString = [], certCrypto = SHA1_SIGNATURE\<rparr> = None"
    by code_simp
  have b: "dnMap (this_contexts ?m) \<lparr>dnString = [], certCrypto = BEST_AVAILABLE\<rparr> = None"
    by code_simp
  from absent_sni_uses_default_domain [of "ssl_fx (Some []) [13]" run_fx ?m] e h w b
  have c4: "result (serverNameCallback run_fx (ssl_fx (Some []) [13]) ?m) = SERVER_NAME_NOT_FOUND
            \<and> stats (serverNameCallback run_fx (ssl_fx (Some []) [13]) ?m)
                = (if this_clientHelloTLSExtStats ?m then [RecordNotMatch] else [])"
    by blast
  with st have c5: "result (serverNameCallback run_fx (ssl_fx (Some []) [13]) ?m)
                      = SERVER_NAME_NOT_FOUND"
    "stats (serverNameCallback run_fx (ssl_fx (Some []) [13]) ?m) = [RecordNotMatch]"
    by simp_all
  from a d c1 c2 c3 e h w b c5 show ?thesis by blast
qed

text \<open>
  The claim as first stated fails for the empty server name: on the live set whose
  default domain \<open>a.example\<close> is indexed, a ClientHello without server name selects the
  default domain's context and is counted as one without host name, while a ClientHello
  with the empty server name gets NOT-FOUND and is counted as a mismatch.
\<close>

theorem empty_sni_counterexample:
  "defaultCtxDomainName (this_contexts (live_fx None)) = ''a.example''
   \<and> result (serverNameCallback run_fx \<lparr>servername = None, clientHelloInfo = None\<rparr>
               (live_fx None)) = SERVER_NAME_FOUND
   \<and> stats (serverNameCallback run_fx \<lparr>servername = None, clientHelloInfo = None\<rparr>
              (live_fx None))
       = [RecordAbsentHostname, RecordCertCrypto BEST_AVAILABLE BEST_AVAILABLE]
   \<and> result (serverNameCallback run_fx \<lparr>servername = Some [], clientHelloInfo = None\<rparr>
               (live_fx None)) = SERVER_NAME_NOT_FOUND
   \<and> switched (serverNameCallback run_fx \<lparr>servername = Some [], clientHelloInfo = None\<rparr>
                 (live_fx None)) = None
   \<and> stats (serverNameCallback run_fx \<lparr>servername = Some [], clientHelloInfo = None\<rparr>
              (live_fx None)) = [RecordNotMatch]"
  by code_simp

subsection \<open>C4: ticket seeds across a reload\<close>

text \<open>
  C4. For every reload without ticket seeds from the caller, when \<open>ctx0\<close> is the first
  context of the live set with a ticket manager \<open>tm\<close>: the reload does exactly what
  a reload with the seeds of \<open>tm\<close> as the caller's seeds does, that is, these seeds are
  handed to the build of every configuration; and when the reload succeeds, the new
  live set has one context per configuration and the ticket manager of each holds
  seeds equal to those of \<open>tm\<close>.
\<close>

theorem reset_carries_ticket_seeds:
  fixes mgr :: "'h SSLContextManager" and ctxConfigs :: "'h SSLContextConfig list"
  assumes first: "find (\<lambda>ctx. ticketManager ctx \<noteq> None) (ctxs (this_contexts mgr)) = Some ctx0"
      and tm: "ticketManager ctx0 = Some tm"
  shows "resetSSLContextConfigs e ctxConfigs None mgr
           = resetSSLContextConfigs e ctxConfigs (Some (getTLSTicketKeySeeds tm)) mgr
       \<and> (\<forall>mgr'. resetSSLContextConfigs e ctxConfigs None mgr = (Inr (), mgr')
            \<longrightarrow> length (ctxs (this_contexts mgr')) = length ctxConfigs
                \<and> (\<forall>ctx\<in>set (ctxs (this_contexts mgr')).
                      map_option getTLSTicketKeySeeds (ticketManager ctx)
                        = Some (getTLSTicketKeySeeds tm)))"
proof (intro conjI allI impI)
  have seeds: "findTicketSeeds (ctxs (this_contexts mgr)) emptySeeds = getTLSTicketKeySeeds tm"
    using first tm by (rule findTicketSeeds_find)
  show same: "resetSSLContextConfigs e ctxConfigs None mgr
           = resetSSLContextConfigs e ctxConfigs (Some (getTLSTicketKeySeeds tm)) mgr"
    unfolding reset_unfold by (simp add: seeds)
  fix mgr'
  assume ok: "resetSSLContextConfigs e ctxConfigs None mgr = (Inr (), mgr')"
  let ?s = "Some (getTLSTicketKeySeeds tm)"
  from ok obtain built m where
    a: "addAll e ctxConfigs ?s emptySslContexts mgr = (Inr (), built, m)"
    and m: "mgr' = m\<lparr>this_contexts := built\<rparr>"
    by (rule reset_ok) (simp add: seeds)
  from addAll_length [OF a]
  show "length (ctxs (this_contexts mgr')) = length ctxConfigs"
    by (simp add: m emptySslContexts_def)
  have "\<forall>c\<in>set (ctxs built). ticketManager c = ?s"
  proof (rule addAll_invariant [where Q = "\<lambda>cs. \<forall>c\<in>set (ctxs cs). ticketManager c = ?s", OF _ _ a])
    show "\<forall>c\<in>set (ctxs emptySslContexts). ticketManager c = ?s"
      by (simp add: emptySslContexts_def)
  next
    fix cfg :: "'h SSLContextConfig" and cs mgr0 u cs' mgr1
    assume "\<forall>c\<in>set (ctxs cs). ticketManager c = ?s"
      and "buildSSLContext e cfg ?s cs mgr0 = (Inr u, cs', mgr1)"
    then show "\<forall>c\<in>set (ctxs cs'). ticketManager c = ?s"
      by (rule build_seeds)
  qed
  then show "\<forall>ctx\<in>set (ctxs (this_contexts mgr')).
               map_option getTLSTicketKeySeeds (ticketManager ctx)
                 = Some (getTLSTicketKeySeeds tm)"
    by (simp add: m getTLSTicketKeySeeds_def)
qed

theorem reset_carries_ticket_seeds_witness:
  "find (\<lambda>ctx. ticketManager ctx \<noteq> None) (ctxs (this_contexts (live_fx None)))
     = Some (ctx_fx 0 ''a.example'' 668)
   \<and> ticketManager (ctx_fx 0 ''a.example'' 668) = Some seeds_fx
   \<and> fst (resetSSLContextConfigs env_fx [cfg_fx ''b.pem'' True None, cfg_fx ''wild.pem'' False None]
            None (live_fx None)) = Inr ()
   \<and> length (ctxs (this_contexts
        (snd (resetSSLContextConfigs env_fx
                [cfg_fx ''b.pem'' True None, cfg_fx ''wild.pem'' False None] None (live_fx None)))))
       = 2
   \<and> map (\<lambda>ctx. map_option getTLSTicketKeySeeds (ticketManager ctx))
         (ctxs (this_contexts
            (snd (resetSSLContextConfigs env_fx
                    [cfg_fx ''b.pem'' True None, cfg_fx ''wild.pem'' False None] None
                    (live_fx None)))))
       = [Some seeds_fx, Some seeds_fx]"
proof -
  let ?m = "live_fx None :: hook_fx SSLContextManager"
  let ?cfgs = "[cfg_fx ''b.pem'' True None, cfg_fx ''wild.pem'' False None]
                 :: hook_fx SSLContextConfig list"
  let ?r = "resetSSLContextConfigs env_fx ?cfgs None ?m"
  have first: "find (\<lambda>ctx. ticketManager ctx \<noteq> None) (ctxs (this_contexts ?m))
                 = Some (ctx_fx 0 ''a.example'' 668)"
    by code_simp
  have tm: "ticketManager (ctx_fx 0 ''a.example'' 668) = Some seeds_fx"
    by (simp add: ctx_fx_def)
  have ok: "fst ?r = Inr ()" by code_simp
  then have r: "?r = (Inr (), snd ?r)" by (simp add: prod_eq_iff)
  from reset_carries_ticket_seeds [OF first tm, of env_fx ?cfgs] r
  have c: "length (ctxs (this_contexts (snd ?r))) = length ?cfgs
           \<and> (\<forall>ctx\<in>set (ctxs (this_contexts (snd ?r))).
                 map_option getTLSTicketKeySeeds (ticketManager ctx)
                   = Some (getTLSTicketKeySeeds seeds_fx))"
    by blast
  then have c': "length (ctxs (this_contexts (snd ?r))) = 2
           \<and> (\<forall>ctx\<in>set (ctxs (this_contexts (snd ?r))).
                 map_option getTLSTicketKeySeeds (ticketManager ctx) = Some seeds_fx)"
    by (simp add: getTLSTicketKeySeeds_def)
  have const: "map f xs = replicate (length xs) v" if "\<forall>x\<in>set xs. f x = v"
    for f :: "ServerSSLContext \<Rightarrow> TLSTicketKeySeeds option" and xs v
    using that by (induction xs) auto
  from c' have c'': "map (\<lambda>ctx. map_option getTLSTicketKeySeeds (ticketManager ctx))
                       (ctxs (this_contexts (snd ?r))) = [Some seeds_fx, Some seeds_fx]"
    using const [of "ctxs (this_contexts (snd ?r))"
                    "\<lambda>ctx. map_option getTLSTicketKeySeeds (ticketManager ctx)" "Some seeds_fx"]
    by (simp add: numeral_2_eq_2)
  from first tm ok c' c'' show ?thesis by blast
qed

subsection \<open>C5: a failed reload or add and the live set\<close>

text \<open>
  C5 says that after a reload or an add that throws, the live set (context list, default
  context, default domain and name index) is the live set before the call. An add on
  the live set breaks this. In strict mode, on the live set of the worked examples, the
  add of \<open>bad.pem\<close> (common name \<open>c.example\<close>, alternative name \<open>*bad\<close>) throws at
  the alternative name. The index of the live set had no entry for \<open>c.example\<close>;
  after the throw it maps \<open>c.example\<close> to the refused context, which is not in the
  context list, and the callback, which answered NOT-FOUND for \<open>c.example\<close>, answers
  FOUND. The same add with the default flag, on the cleared manager, throws too and
  leaves the refused context as the default context of a live set whose context list
  is empty.
\<close>

theorem failed_add_partial_commit:
  "fst (addSSLContextConfig env_fx (cfg_fx ''bad.pem'' False None) None None (live_fx None))
     = Inl (ErrorAddingCertificate (InvalidWildcard ''*bad''))
   \<and> dnMap (this_contexts (live_fx None))
        \<lparr>dnString = ''c.example'', certCrypto = BEST_AVAILABLE\<rparr> = None
   \<and> dnMap (this_contexts (snd (snd (addSSLContextConfig env_fx (cfg_fx ''bad.pem'' False None)
                                        None None (live_fx None)))))
        \<lparr>dnString = ''c.example'', certCrypto = BEST_AVAILABLE\<rparr>
       = Some \<lparr>ctx_addr = 3,
               certificate = Some (x509_fx ''c.example'' (Some [''*bad'']) 668),
               ticketManager = None\<rparr>
   \<and> ctxs (this_contexts (snd (snd (addSSLContextConfig env_fx (cfg_fx ''bad.pem'' False None)
                                       None None (live_fx None)))))
       = ctxs (this_contexts (live_fx None))
   \<and> map ctx_addr (ctxs (this_contexts (live_fx None))) = [0, 1, 2]
   \<and> result (serverNameCallback run_fx (ssl_fx (Some ''c.example'') [0]) (live_fx None))
       = SERVER_NAME_NOT_FOUND
   \<and> result (serverNameCallback run_fx (ssl_fx (Some ''c.example'') [0])
               (snd (snd (addSSLContextConfig env_fx (cfg_fx ''bad.pem'' False None)
                            None None (live_fx None)))))
       = SERVER_NAME_FOUND
   \<and> fst (addSSLContextConfig env_fx (cfg_fx ''bad.pem'' True None) None None
            (clear (live_fx None)))
       = Inl (ErrorAddingCertificate (InvalidWildcard ''*bad''))
   \<and> defaultCtx (this_contexts (clear (live_fx None))) = None
   \<and> defaultCtx (this_contexts (snd (snd
        (addSSLContextConfig env_fx (cfg_fx ''bad.pem'' True None) None None
           (clear (live_fx None))))))
       = Some \<lparr>ctx_addr = 3,
               certificate = Some (x509_fx ''c.example'' (Some [''*bad'']) 668),
               ticketManager = None\<rparr>
   \<and> ctxs (this_contexts (snd (snd
        (addSSLContextConfig env_fx (cfg_fx ''bad.pem'' True None) None None
           (clear (live_fx None))))))
       = []"
  by code_simp

text \<open>
  What the code keeps of the property. A reload that fails, at whatever stage of
  whichever configuration, leaves the live set as it was; a reload that succeeds has
  built the whole new set on the side, with the live set untouched all along, and makes
  it live by one assignment. An add on the live set that fails before the new context
  is wired into the set (loading of certificates, keys, ciphers and client CAs, identity
  checks, a second default) leaves the live set as it was. An add that fails while the
  names are indexed leaves the context list and the default domain as they were, and
  the default context too unless the configuration is flagged default.
\<close>

lemma failed_reset_keeps_live_set:
  fixes mgr mgr' :: "'h SSLContextManager" and ctxConfigs :: "'h SSLContextConfig list"
  shows "(resetSSLContextConfigs e ctxConfigs ticketSeeds mgr = (Inl err, mgr')
            \<longrightarrow> this_contexts mgr' = this_contexts mgr)
       \<and> (resetSSLContextConfigs e ctxConfigs ticketSeeds mgr = (Inr u, mgr')
            \<longrightarrow> (\<exists>built m.
                   addAll e ctxConfigs
                     (Some (case ticketSeeds of
                              Some s \<Rightarrow> s
                            | None \<Rightarrow> findTicketSeeds (ctxs (this_contexts mgr)) emptySeeds))
                     emptySslContexts mgr = (Inr (), built, m)
                   \<and> this_contexts m = this_contexts mgr
                   \<and> mgr' = m\<lparr>this_contexts := built\<rparr>))
       \<and> (addSSLContextConfig e ctxConfig ticketSeeds' None mgr = (Inl err', contexts', mgr')
            \<and> (\<forall>ie. err' \<noteq> ErrorAddingCertificate ie)
            \<longrightarrow> this_contexts mgr' = this_contexts mgr)
       \<and> (addSSLContextConfig e ctxConfig ticketSeeds' None mgr
              = (Inl (ErrorAddingCertificate ie), contexts', mgr')
            \<longrightarrow> ctxs (this_contexts mgr') = ctxs (this_contexts mgr)
                \<and> defaultCtxDomainName (this_contexts mgr')
                    = defaultCtxDomainName (this_contexts mgr)
                \<and> (if isDefault ctxConfig
                    then defaultCtx (this_contexts mgr) = None
                         \<and> defaultCtx (this_contexts mgr') \<noteq> None
                    else defaultCtx (this_contexts mgr') = defaultCtx (this_contexts mgr)))"
proof (intro conjI impI)
  assume "resetSSLContextConfigs e ctxConfigs ticketSeeds mgr = (Inl err, mgr')"
  then show "this_contexts mgr' = this_contexts mgr" by (rule reset_fail)
next
  assume "resetSSLContextConfigs e ctxConfigs ticketSeeds mgr = (Inr u, mgr')"
  then show "\<exists>built m.
                   addAll e ctxConfigs
                     (Some (case ticketSeeds of
                              Some s \<Rightarrow> s
                            | None \<Rightarrow> findTicketSeeds (ctxs (this_contexts mgr)) emptySeeds))
                     emptySslContexts mgr = (Inr (), built, m)
                   \<and> this_contexts m = this_contexts mgr
                   \<and> mgr' = m\<lparr>this_contexts := built\<rparr>"
    by (rule reset_ok) blast
next
  assume a: "addSSLContextConfig e ctxConfig ticketSeeds' None mgr = (Inl err', contexts', mgr')
            \<and> (\<forall>ie. err' \<noteq> ErrorAddingCertificate ie)"
  obtain r cs1 m1 where b: "buildSSLContext e ctxConfig ticketSeeds' (this_contexts mgr) mgr
                              = (r, cs1, m1)"
    by (cases "buildSSLContext e ctxConfig ticketSeeds' (this_contexts mgr) mgr") auto
  with a have r: "r = Inl err'" and m: "mgr' = m1\<lparr>this_contexts := cs1\<rparr>"
    by (auto simp add: addSSLContextConfig_def)
  from b r have "buildSSLContext e ctxConfig ticketSeeds' (this_contexts mgr) mgr
                   = (Inl err', cs1, m1)" by simp
  from build_fail_early [OF this] a have "cs1 = this_contexts mgr" by blast
  with m show "this_contexts mgr' = this_contexts mgr" by simp
next
  assume "addSSLContextConfig e ctxConfig ticketSeeds' None mgr
            = (Inl (ErrorAddingCertificate ie), contexts', mgr')"
  then obtain m where
    b: "buildSSLContext e ctxConfig ticketSeeds' (this_contexts mgr) mgr
          = (Inl (ErrorAddingCertificate ie), contexts', m)"
    and m: "mgr' = m\<lparr>this_contexts := contexts'\<rparr>"
    by (rule add_live_unfold)
  from m have eq: "this_contexts mgr' = contexts'" by simp
  note f = build_insert_fail [OF b, folded eq]
  from f show "ctxs (this_contexts mgr') = ctxs (this_contexts mgr)"
    by (rule conjunct1)
  from f show "defaultCtxDomainName (this_contexts mgr')
                 = defaultCtxDomainName (this_contexts mgr)"
    by (rule conjunct2 [THEN conjunct1])
  from f show "if isDefault ctxConfig
          then defaultCtx (this_contexts mgr) = None \<and> defaultCtx (this_contexts mgr') \<noteq> None
          else defaultCtx (this_contexts mgr') = defaultCtx (this_contexts mgr)"
    by (rule conjunct2 [THEN conjunct2])
qed

lemma failed_reset_keeps_live_set_example:
  "fst (resetSSLContextConfigs env_fx
          [cfg_fx ''b.pem'' True None, cfg_fx ''bad.pem'' False None] None (live_fx None))
     = Inl (ErrorAddingCertificate (InvalidWildcard ''*bad''))
   \<and> this_contexts (snd (resetSSLContextConfigs env_fx
          [cfg_fx ''b.pem'' True None, cfg_fx ''bad.pem'' False None] None (live_fx None)))
       = this_contexts (live_fx None)
   \<and> fst (resetSSLContextConfigs env_fx [cfg_fx ''b.pem'' True None] None (live_fx None))
       = Inr ()
   \<and> fst (addSSLContextConfig env_fx (cfg_fx ''b.pem'' True None) None None (live_fx None))
       = Inl MultipleDefault
   \<and> this_contexts (snd (snd (addSSLContextConfig env_fx (cfg_fx ''b.pem'' True None) None None
                                 (live_fx None))))
       = this_contexts (live_fx None)"
proof -
  let ?m = "live_fx None :: hook_fx SSLContextManager"
  let ?bad = "[cfg_fx ''b.pem'' True None, cfg_fx ''bad.pem'' False None]
                :: hook_fx SSLContextConfig list"
  let ?r = "resetSSLContextConfigs env_fx ?bad None ?m"
  let ?a = "addSSLContextConfig env_fx (cfg_fx ''b.pem'' True None) None None ?m"
  have f: "fst ?r = Inl (ErrorAddingCertificate (InvalidWildcard ''*bad''))" by code_simp
  then have r: "?r = (Inl (ErrorAddingCertificate (InvalidWildcard ''*bad'')), snd ?r)"
    by (simp add: prod_eq_iff)
  from failed_reset_keeps_live_set [of env_fx ?bad None ?m _ "snd ?r"] r
  have c1: "this_contexts (snd ?r) = this_contexts ?m" by blast
  have ok: "fst (resetSSLContextConfigs env_fx [cfg_fx ''b.pem'' True None] None ?m) = Inr ()"
    by code_simp
  have g: "fst ?a = Inl MultipleDefault" by code_simp
  then have a: "?a = (Inl MultipleDefault, fst (snd ?a), snd (snd ?a))"
    by (simp add: prod_eq_iff)
  have ne: "\<forall>ie. MultipleDefault \<noteq> ErrorAddingCertificate ie" by simp
  from failed_reset_keeps_live_set [of env_fx _ _ ?m _ "snd (snd ?a)" _
      "cfg_fx ''b.pem'' True None" None MultipleDefault "fst (snd ?a)"] a ne
  have c2: "this_contexts (snd (snd ?a)) = this_contexts ?m" by blast
  from f c1 ok g c2 show ?thesis by blast
qed

subsection \<open>C6: the default domain\<close>

text \<open>
  C6, as amended. For every context that \<open>insert\<close> accepts with the default flag set,
  the common name of its certificate is recorded as the default domain of the context
  set, unless the common name is the single character \<open>*\<close>: such a context is appended
  to the context list and the default domain is left as it was. Consequently, in every
  live set that has a default context, the default domain is the common name of the
  default context's certificate, except that it is empty when that common name is
  \<open>*\<close>, as long as no add of a configuration flagged default has thrown while the
  names of its certificate were indexed: the relation holds of the empty set of a new
  or cleared manager, of every set a successful reload publishes, and it is kept by
  every failed reload and by every add on the live set, successful or failed, other
  than a default add that throws \<open>ErrorAddingCertificate\<close>.
\<close>

theorem default_domain_recorded:
  fixes mgr mgr' :: "'h SSLContextManager" and ctxConfigs :: "'h SSLContextConfig list"
    and ctxConfig :: "'h SSLContextConfig"
  shows "(insertSSLCtx strict sslCtx True contexts = (Inr u, contexts')
            \<longrightarrow> (\<exists>cn. getCommonName (certificate sslCtx) = Some cn
                   \<and> defaultCtxDomainName contexts'
                       = (if cn = ''*'' then defaultCtxDomainName contexts else cn)))
       \<and> (resetSSLContextConfigs e ctxConfigs ticketSeeds mgr = (Inr u', mgr')
            \<and> defaultCtx (this_contexts mgr') = Some d
            \<longrightarrow> (\<exists>cn. getCommonName (certificate d) = Some cn
                   \<and> defaultCtxDomainName (this_contexts mgr')
                       = (if cn = ''*'' then [] else cn)))
       \<and> defaultDomainRecorded emptySslContexts
       \<and> defaultDomainRecorded (this_contexts (clear mgr))
       \<and> (resetSSLContextConfigs e ctxConfigs ticketSeeds mgr = (Inr u', mgr')
            \<longrightarrow> defaultDomainRecorded (this_contexts mgr'))
       \<and> (resetSSLContextConfigs e ctxConfigs ticketSeeds mgr = (Inl err, mgr')
            \<and> defaultDomainRecorded (this_contexts mgr)
            \<longrightarrow> defaultDomainRecorded (this_contexts mgr'))
       \<and> (addSSLContextConfig e ctxConfig ticketSeeds None mgr = (r, contexts', mgr')
            \<and> defaultDomainRecorded (this_contexts mgr)
            \<and> \<not> (isDefault ctxConfig \<and> (\<exists>ie. r = Inl (ErrorAddingCertificate ie)))
            \<longrightarrow> this_contexts mgr' = contexts'
                \<and> defaultDomainRecorded (this_contexts mgr'))"
proof (intro conjI impI; (elim conjE)?)
  assume "insertSSLCtx strict sslCtx True contexts = (Inr u, contexts')"
  from insertSSLCtx_ok [OF this] obtain cn where
    cn: "getCommonName (certificate sslCtx) = Some cn"
    and dd: "defaultCtxDomainName contexts' =
               (if True \<and> cn \<noteq> ''*'' then cn else defaultCtxDomainName contexts)"
    by blast
  from dd have "defaultCtxDomainName contexts'
                 = (if cn = ''*'' then defaultCtxDomainName contexts else cn)"
    by (cases "cn = ''*''") simp_all
  with cn show "\<exists>cn. getCommonName (certificate sslCtx) = Some cn
             \<and> defaultCtxDomainName contexts'
                 = (if cn = ''*'' then defaultCtxDomainName contexts else cn)"
    by blast
next
  assume ok: "resetSSLContextConfigs e ctxConfigs ticketSeeds mgr = (Inr u', mgr')"
    and d: "defaultCtx (this_contexts mgr') = Some d"
  from reset_default_domain [OF ok] d
  show "\<exists>cn. getCommonName (certificate d) = Some cn
                   \<and> defaultCtxDomainName (this_contexts mgr') = (if cn = ''*'' then [] else cn)"
    by (simp only: option.case)
next
  show "defaultDomainRecorded emptySslContexts" by (simp add: emptySslContexts_def)
next
  show "defaultDomainRecorded (this_contexts (clear mgr))"
    by (simp add: clear_def emptySslContexts_def)
next
  assume "resetSSLContextConfigs e ctxConfigs ticketSeeds mgr = (Inr u', mgr')"
  then show "defaultDomainRecorded (this_contexts mgr')" by (rule reset_default_domain)
next
  assume f: "resetSSLContextConfigs e ctxConfigs ticketSeeds mgr = (Inl err, mgr')"
    and inv: "defaultDomainRecorded (this_contexts mgr)"
  from inv show "defaultDomainRecorded (this_contexts mgr')"
    unfolding reset_fail [OF f] .
next
  assume a: "addSSLContextConfig e ctxConfig ticketSeeds None mgr = (r, contexts', mgr')"
  from a obtain m where
    m: "mgr' = m\<lparr>this_contexts := contexts'\<rparr>"
    by (rule add_live_unfold)
  then show "this_contexts mgr' = contexts'" by simp
next
  assume a: "addSSLContextConfig e ctxConfig ticketSeeds None mgr = (r, contexts', mgr')"
    and inv: "defaultDomainRecorded (this_contexts mgr)"
    and ok: "\<not> (isDefault ctxConfig \<and> (\<exists>ie. r = Inl (ErrorAddingCertificate ie)))"
  from a obtain m where
    b: "buildSSLContext e ctxConfig ticketSeeds (this_contexts mgr) mgr = (r, contexts', m)"
    and m: "mgr' = m\<lparr>this_contexts := contexts'\<rparr>"
    by (rule add_live_unfold)
  from m have eq: "this_contexts mgr' = contexts'" by simp
  from build_keeps_default_domain [OF inv b ok]
  show "defaultDomainRecorded (this_contexts mgr')" unfolding eq .
qed

theorem default_domain_recorded_witness:
  "fst (insertSSLCtx True (ctx_fx 9 ''b.example'' 668) True emptySslContexts) = Inr ()
   \<and> defaultCtxDomainName
        (snd (insertSSLCtx True (ctx_fx 9 ''b.example'' 668) True emptySslContexts))
       = ''b.example''
   \<and> fst (resetSSLContextConfigs env_fx
            [cfg_fx ''a.pem'' True None, cfg_fx ''weak.pem'' False None,
             cfg_fx ''wild.pem'' False None]
            (Some seeds_fx) (mgr_fx :: hook_fx SSLContextManager)) = Inr ()
   \<and> defaultCtx (this_contexts (live_fx None)) = Some (ctx_fx 0 ''a.example'' 668)
   \<and> defaultCtxDomainName (this_contexts (live_fx None)) = ''a.example''
   \<and> fst (addSSLContextConfig env_fx (cfg_fx ''b.pem'' True None) None None
            (clear (live_fx None))) = Inr ()
   \<and> defaultCtx (this_contexts (snd (snd
        (addSSLContextConfig env_fx (cfg_fx ''b.pem'' True None) None None
           (clear (live_fx None))))))
       = Some \<lparr>ctx_addr = 3, certificate = Some (x509_fx ''b.example'' None 668),
               ticketManager = None\<rparr>
   \<and> defaultCtxDomainName (this_contexts (snd (snd
        (addSSLContextConfig env_fx (cfg_fx ''b.pem'' True None) None None
           (clear (live_fx None))))))
       = ''b.example''"
proof -
  let ?c = "ctx_fx 9 ''b.example'' 668"
  let ?i = "insertSSLCtx True ?c True emptySslContexts"
  let ?cfgs = "[cfg_fx ''a.pem'' True None, cfg_fx ''weak.pem'' False None,
                cfg_fx ''wild.pem'' False None] :: hook_fx SSLContextConfig list"
  let ?r = "resetSSLContextConfigs env_fx ?cfgs (Some seeds_fx)
              (mgr_fx :: hook_fx SSLContextManager)"
  let ?m = "clear (live_fx None) :: hook_fx SSLContextManager"
  let ?cfg = "cfg_fx ''b.pem'' True None :: hook_fx SSLContextConfig"
  let ?a = "addSSLContextConfig env_fx ?cfg None None ?m"
  let ?b = "\<lparr>ctx_addr = 3, certificate = Some (x509_fx ''b.example'' None 668),
             ticketManager = None\<rparr>"
  have i: "fst ?i = Inr ()" by code_simp
  then have i': "?i = (Inr (), snd ?i)" by (simp add: prod_eq_iff)
  have cn: "getCommonName (certificate ?c) = Some ''b.example''" by code_simp
  note t = default_domain_recorded [where strict = True and sslCtx = ?c
      and contexts = emptySslContexts and u = "()" and contexts' = "snd ?i"
      and e = env_fx and ctxConfigs = ?cfgs and ticketSeeds = "Some seeds_fx"
      and mgr = "mgr_fx :: hook_fx SSLContextManager" and u' = "()"
      and mgr' = "live_fx None" and d = "ctx_fx 0 ''a.example'' 668"]
  have "\<exists>cn. getCommonName (certificate ?c) = Some cn
      \<and> defaultCtxDomainName (snd ?i)
          = (if cn = ''*'' then defaultCtxDomainName emptySslContexts else cn)"
    by (rule t [THEN conjunct1, THEN mp, OF i'])
  with cn have c1: "defaultCtxDomainName (snd ?i) = ''b.example''" by simp
  have r: "fst ?r = Inr ()" by code_simp
  have "snd ?r = live_fx None" unfolding live_fx_def ..
  with r have r': "?r = (Inr (), live_fx None)" by (simp only: prod_eq_iff fst_conv snd_conv)
  have d: "defaultCtx (this_contexts (live_fx None)) = Some (ctx_fx 0 ''a.example'' 668)"
    by code_simp
  have cn': "getCommonName (certificate (ctx_fx 0 ''a.example'' 668)) = Some ''a.example''"
    by code_simp
  have "\<exists>cn. getCommonName (certificate (ctx_fx 0 ''a.example'' 668)) = Some cn
      \<and> defaultCtxDomainName (this_contexts (live_fx None)) = (if cn = ''*'' then [] else cn)"
    by (rule t [THEN conjunct2, THEN conjunct1, THEN mp, OF conjI [OF r' d]])
  with cn' have c2: "defaultCtxDomainName (this_contexts (live_fx None)) = ''a.example''"
    by simp
  note s = default_domain_recorded [where e = env_fx and ctxConfig = ?cfg
      and ticketSeeds = None and mgr = ?m and r = "Inr ()"
      and contexts' = "fst (snd ?a)" and mgr' = "snd (snd ?a)"]
  have inv0: "defaultDomainRecorded (this_contexts (clear (live_fx None)))"
    by (rule default_domain_recorded [where mgr = "live_fx None",
          THEN conjunct2, THEN conjunct2, THEN conjunct2, THEN conjunct1])
  have g: "fst ?a = Inr ()" by code_simp
  then have a: "?a = (Inr (), fst (snd ?a), snd (snd ?a))" by (simp add: prod_eq_iff)
  have nf: "\<not> (isDefault ?cfg \<and> (\<exists>ie. (Inr () :: error + unit) = Inl (ErrorAddingCertificate ie)))"
    by simp
  have "this_contexts (snd (snd ?a)) = fst (snd ?a)
        \<and> defaultDomainRecorded (this_contexts (snd (snd ?a)))"
    by (rule s [THEN conjunct2, THEN conjunct2, THEN conjunct2, THEN conjunct2,
          THEN conjunct2, THEN conjunct2, THEN mp, OF conjI [OF a conjI [OF inv0 nf]]])
  then have inv1: "defaultDomainRecorded (this_contexts (snd (snd ?a)))" by (rule conjunct2)
  have d1: "defaultCtx (this_contexts (snd (snd ?a))) = Some ?b" by code_simp
  have cn1: "getCommonName (certificate ?b) = Some ''b.example''" by code_simp
  from inv1 have "\<exists>cn. getCommonName (certificate ?b) = Some cn
      \<and> defaultCtxDomainName (this_contexts (snd (snd ?a))) = (if cn = ''*'' then [] else cn)"
    unfolding d1 by (simp only: option.case)
  with cn1 have c3: "defaultCtxDomainName (this_contexts (snd (snd ?a))) = ''b.example''"
    by simp
  show ?thesis
    by (intro conjI i c1 r d c2 g d1 c3)
qed

text \<open>
  The claim as first stated fails in two ways. For a default certificate whose common
  name is \<open>*\<close>: after a reload with this one configuration the live set has the
  default context, and its default domain is empty. And for a default add that throws
  while the names are indexed: on the empty manager, the add of \<open>bad.pem\<close> flagged
  default throws at the alternative name, and leaves a live set whose default context
  has the common name \<open>c.example\<close> and whose default domain is empty.
\<close>

theorem default_domain_counterexample:
  "fst (resetSSLContextConfigs env_fx [cfg_fx ''star.pem'' True None] None
          (mgr_fx :: hook_fx SSLContextManager)) = Inr ()
   \<and> map_option (\<lambda>d. getCommonName (certificate d))
        (defaultCtx (this_contexts
           (snd (resetSSLContextConfigs env_fx [cfg_fx ''star.pem'' True None] None
                   (mgr_fx :: hook_fx SSLContextManager)))))
       = Some (Some ''*'')
   \<and> defaultCtxDomainName (this_contexts
        (snd (resetSSLContextConfigs env_fx [cfg_fx ''star.pem'' True None] None
                (mgr_fx :: hook_fx SSLContextManager))))
       = []
   \<and> fst (addSSLContextConfig env_fx (cfg_fx ''bad.pem'' True None) None None
            (mgr_fx :: hook_fx SSLContextManager))
       = Inl (ErrorAddingCertificate (InvalidWildcard ''*bad''))
   \<and> map_option (\<lambda>d. getCommonName (certificate d))
        (defaultCtx (this_contexts (snd (snd
           (addSSLContextConfig env_fx (cfg_fx ''bad.pem'' True None) None None
              (mgr_fx :: hook_fx SSLContextManager))))))
       = Some (Some ''c.example'')
   \<and> defaultCtxDomainName (this_contexts (snd (snd
        (addSSLContextConfig env_fx (cfg_fx ''bad.pem'' True None) None None
           (mgr_fx :: hook_fx SSLContextManager)))))
       = []"
  by code_simp


end
